(* ===== verification/Prelude.thy ===== *)
theory Prelude
  imports Complex_Main "HOL-Library.List_Lexorder" "HOL-Library.Multiset"
begin

text \<open>
  Shared vocabulary of the development. A Python \<open>str\<close> is a list of Unicode code
  points (\<open>pystr\<close>, code points as \<open>nat\<close>), an n-gram (a Python tuple of tokens) is a
  list of strings (\<open>gram\<close>), and a Python \<open>dict\<close> is an association list with distinct
  keys kept in insertion order (\<open>pydict\<close>), because the JSON files the programs write list
  the keys in the dict's insertion order. The dict operations the sources use are
  \<open>d[k] = v\<close> (\<open>dict_set\<close>), \<open>d.get(k, default)\<close> and \<open>d[k] if k in d else default\<close>
  (\<open>dict_get\<close>) and the dict comprehension (\<open>dict_of_list\<close>). The lemmas relate them to
  \<open>map_of\<close> and to the key list and carry the component proofs.
\<close>

named_theorems dict_simps "equations of the Python dict model"
named_theorems eval_simps "definitions unfolded to evaluate the model on concrete inputs"

type_synonym cp = nat
type_synonym pystr = "cp list"
type_synonym gram = "pystr list"
type_synonym ('k, 'v) pydict = "('k \<times> 'v) list"

text \<open>The exceptions the two scripts can raise, and what a path names on disk: no
  file, a file whose bytes are not valid UTF-8, or a file with its decoded text.\<close>

datatype py_error = ZeroDivisionError | FileNotFoundError | UnicodeDecodeError

datatype file_entry = Missing | Undecodable | Text pystr

text \<open>\<open>ascii\<close> writes an ASCII literal as code points, for concrete inputs.\<close>

definition ascii :: "string \<Rightarrow> pystr" where
  "ascii s = map of_char s"

declare ascii_def [simp] upt_rec [eval_simps]

text \<open>\<open>d[k] = v\<close>: an existing key keeps its position and takes the new value, a new key
  is appended at the end (CPython dicts keep insertion order).\<close>

fun dict_set :: "('k, 'v) pydict \<Rightarrow> 'k \<Rightarrow> 'v \<Rightarrow> ('k, 'v) pydict" where
  "dict_set [] k v = [(k, v)]"
| "dict_set ((a, b) # d) k v = (if a = k then (k, v) # d else (a, b) # dict_set d k v)"

definition dict_get :: "('k, 'v) pydict \<Rightarrow> 'k \<Rightarrow> 'v \<Rightarrow> 'v" where [eval_simps]:
  "dict_get d k dflt = (case map_of d k of None \<Rightarrow> dflt | Some v \<Rightarrow> v)"

text \<open>\<open>{k: v for k, v in ps}\<close>: the pairs assigned one after the other.\<close>

definition dict_of_list :: "('k \<times> 'v) list \<Rightarrow> ('k, 'v) pydict" where [eval_simps]:
  "dict_of_list ps = fold (\<lambda>(k, v) d. dict_set d k v) ps []"

definition wf_dict :: "('k, 'v) pydict \<Rightarrow> bool" where [eval_simps]:
  "wf_dict d \<longleftrightarrow> distinct (map fst d)"

subsection \<open>The dict model\<close>

lemma map_of_dict_set [simp, dict_simps]: "map_of (dict_set d k v) = (map_of d)(k \<mapsto> v)"
  by (induction d k v rule: dict_set.induct) (auto simp: fun_eq_iff)

lemma keys_dict_set [dict_simps]:
  "map fst (dict_set d k v) = (if k \<in> set (map fst d) then map fst d else map fst d @ [k])"
  by (induction d k v rule: dict_set.induct) auto

lemma set_keys_dict_set [simp, dict_simps]: "fst ` set (dict_set d k v) = insert k (fst ` set d)"
  by (induction d k v rule: dict_set.induct) auto

lemma wf_dict_set [intro, dict_simps]: "wf_dict d \<Longrightarrow> wf_dict (dict_set d k v)"
  by (simp add: wf_dict_def keys_dict_set)

lemma wf_dict_Nil [simp, intro]: "wf_dict []"
  by (simp add: wf_dict_def)

lemma dict_get_dict_set [simp, dict_simps]:
  "dict_get (dict_set d k v) j dflt = (if j = k then v else dict_get d j dflt)"
  by (simp add: dict_get_def)

lemma dict_get_Nil [simp, dict_simps]: "dict_get [] k dflt = dflt"
  by (simp add: dict_get_def)

lemma length_dict_set [dict_simps]:
  "length (dict_set d k v) = (if k \<in> fst ` set d then length d else Suc (length d))"
  by (induction d k v rule: dict_set.induct) auto

lemma map_of_dict_of_list_gen:
  "map_of (fold (\<lambda>(k, v) d. dict_set d k v) ps d) = map_of d ++ map_of (rev ps)"
  by (induction ps arbitrary: d) (auto simp: map_add_def fun_eq_iff split: option.splits)

lemma wf_dict_fold_set [intro]:
  "wf_dict d \<Longrightarrow> wf_dict (fold (\<lambda>(k, v) d. dict_set d k v) ps d)"
  by (induction ps arbitrary: d) auto

lemma wf_dict_of_list [simp, intro]: "wf_dict (dict_of_list ps)"
  by (simp add: dict_of_list_def wf_dict_fold_set)

text \<open>Assigning pairs whose keys are distinct appends them in order: the dict
  comprehension over distinct keys is the list itself.\<close>

lemma dict_set_new [dict_simps]: "k \<notin> fst ` set d \<Longrightarrow> dict_set d k v = d @ [(k, v)]"
  by (induction d k v rule: dict_set.induct) auto

lemma fold_dict_set_distinct:
  "distinct (map fst ps) \<Longrightarrow> fst ` set d \<inter> fst ` set ps = {} \<Longrightarrow>
   fold (\<lambda>(k, v) d. dict_set d k v) ps d = d @ ps"
proof (induction ps arbitrary: d)
  case Nil
  then show ?case by simp
next
  case (Cons p ps)
  obtain k v where p: "p = (k, v)" by fastforce
  with Cons.prems have "k \<notin> fst ` set d" by auto
  then have "dict_set d k v = d @ [(k, v)]" by (rule dict_set_new)
  moreover have "fold (\<lambda>(k, v) d. dict_set d k v) ps (d @ [(k, v)]) = (d @ [(k, v)]) @ ps"
    using Cons.prems p by (intro Cons.IH) (auto simp: image_iff)
  ultimately show ?case by (simp add: p)
qed

lemma dict_of_list_distinct [dict_simps]:
  "distinct (map fst ps) \<Longrightarrow> dict_of_list ps = ps"
  by (simp add: dict_of_list_def fold_dict_set_distinct)

lemma map_of_dict_of_list [simp, dict_simps]: "map_of (dict_of_list ps) = map_of (rev ps)"
  by (simp add: dict_of_list_def map_of_dict_of_list_gen)

lemma fst_comp_map_vals [simp, dict_simps]: "fst \<circ> (\<lambda>(k, v). (k, f k v)) = fst"
  by (auto simp: fun_eq_iff)

lemma wf_dict_map_vals [simp, dict_simps]: "wf_dict (map (\<lambda>(k, v). (k, f k v)) d) = wf_dict d"
  by (simp add: wf_dict_def)

lemma dict_of_list_wf [dict_simps]: "wf_dict d \<Longrightarrow> dict_of_list d = d"
  by (simp add: wf_dict_def dict_of_list_distinct)

subsection \<open>Lists\<close>

lemma zip_map_same: "zip xs (map f xs) = map (\<lambda>x. (x, f x)) xs"
  by (induction xs) auto


lemma length_dropWhile_less_Suc [simp]: "length (dropWhile P xs) < Suc (length xs)"
  by (simp add: le_imp_less_Suc length_dropWhile_le)

lemma concat_concat_map: "concat (concat (map f xs)) = concat (map (\<lambda>x. concat (f x)) xs)"
  by (induction xs) auto

lemma butlast_upt: "butlast [m..<n] = [m..<n - 1]"
  by (cases n) simp_all

lemma count_list_butlast_le: "count_list (butlast xs) x \<le> count_list xs x"
  by (induction xs) auto

lemma count_list_map_ge: "count_list xs x \<le> count_list (map f xs) (f x)"
  by (induction xs) auto

end
