(* ===== verification/Unicode_Data.thy ===== *)
theory Unicode_Data
  imports Prelude
begin

text \<open>
  The character tables behind CPython's \<open>str\<close> methods and its \<open>re\<close> module, for
  Unicode 14.0.0 (the tables of CPython 3.11). Each table is a sorted list of inclusive
  code-point intervals, cut into blocks of at most 12 intervals by a binary search on
  the code point: \<open>word_block c\<close> is the block of the \<open>\w\<close> table in which
  \<open>c\<close> would lie, and so on. The tables are the class \<open>\w\<close> of \<open>str\<close> patterns
  (\<open>str.isalnum()\<close> or \<open>_\<close>, 734 intervals), the properties \<open>Cased\<close> (149) and
  \<open>Case_Ignorable\<close> (427) as \<open>str.lower()\<close> uses them to choose the final form of
  the capital sigma (a code point with both properties is listed as case-ignorable
  only, since the scan skips it), and the simple lowercase mapping (181 runs), each run
  \<open>(a, b, step, t)\<close> sending \<open>a + i\<close>, for \<open>a + i \<le> b\<close> and \<open>i\<close> a multiple of
  \<open>step\<close>, to \<open>t + i\<close>. The one code point whose lowercase form is two code points,
  U+0130, is handled in \<open>PyStr\<close>.
\<close>



text \<open>Blocks of the class \<open>\w\<close>.\<close>

definition word_block :: "cp \<Rightarrow> (nat \<times> nat) list" where [eval_simps]:
  "word_block c =
     (if c < 43494 then
      (if c < 4206 then
       (if c < 2741 then
        (if c < 2036 then
         (if c < 908 then
          (if c < 248 then
           [(48, 57), (65, 90), (95, 95), (97, 122), (170, 170), (178, 179), (181, 181),
            (185, 186), (188, 190), (192, 214), (216, 246)]
          else
           [(248, 705), (710, 721), (736, 740), (748, 748), (750, 750), (880, 884),
            (886, 887), (890, 893), (895, 895), (902, 902), (904, 906)])
         else
          (if c < 1632 then
           [(908, 908), (910, 929), (931, 1013), (1015, 1153), (1162, 1327), (1329, 1366),
            (1369, 1369), (1376, 1416), (1488, 1514), (1519, 1522), (1568, 1610)]
          else
           [(1632, 1641), (1646, 1647), (1649, 1747), (1749, 1749), (1765, 1766),
            (1774, 1788), (1791, 1791), (1808, 1808), (1810, 1839), (1869, 1957),
            (1969, 1969), (1984, 2026)]))
        else
         (if c < 2493 then
          (if c < 2308 then
           [(2036, 2037), (2042, 2042), (2048, 2069), (2074, 2074), (2084, 2084),
            (2088, 2088), (2112, 2136), (2144, 2154), (2160, 2183), (2185, 2190),
            (2208, 2249)]
          else
           [(2308, 2361), (2365, 2365), (2384, 2384), (2392, 2401), (2406, 2415),
            (2417, 2432), (2437, 2444), (2447, 2448), (2451, 2472), (2474, 2480),
            (2482, 2482), (2486, 2489)])
         else
          (if c < 2610 then
           [(2493, 2493), (2510, 2510), (2524, 2525), (2527, 2529), (2534, 2545),
            (2548, 2553), (2556, 2556), (2565, 2570), (2575, 2576), (2579, 2600),
            (2602, 2608)]
          else
           [(2610, 2611), (2613, 2614), (2616, 2617), (2649, 2652), (2654, 2654),
            (2662, 2671), (2674, 2676), (2693, 2701), (2703, 2705), (2707, 2728),
            (2730, 2736), (2738, 2739)])))
       else
        (if c < 3293 then
         (if c < 2974 then
          (if c < 2869 then
           [(2741, 2745), (2749, 2749), (2768, 2768), (2784, 2785), (2790, 2799),
            (2809, 2809), (2821, 2828), (2831, 2832), (2835, 2856), (2858, 2864),
            (2866, 2867)]
          else
           [(2869, 2873), (2877, 2877), (2908, 2909), (2911, 2913), (2918, 2927),
            (2929, 2935), (2947, 2947), (2949, 2954), (2958, 2960), (2962, 2965),
            (2969, 2970), (2972, 2972)])
         else
          (if c < 3160 then
           [(2974, 2975), (2979, 2980), (2984, 2986), (2990, 3001), (3024, 3024),
            (3046, 3058), (3077, 3084), (3086, 3088), (3090, 3112), (3114, 3129),
            (3133, 3133)]
          else
           [(3160, 3162), (3165, 3165), (3168, 3169), (3174, 3183), (3192, 3198),
            (3200, 3200), (3205, 3212), (3214, 3216), (3218, 3240), (3242, 3251),
            (3253, 3257), (3261, 3261)]))
        else
         (if c < 3713 then
          (if c < 3430 then
           [(3293, 3294), (3296, 3297), (3302, 3311), (3313, 3314), (3332, 3340),
            (3342, 3344), (3346, 3386), (3389, 3389), (3406, 3406), (3412, 3414),
            (3416, 3425)]
          else
           [(3430, 3448), (3450, 3455), (3461, 3478), (3482, 3505), (3507, 3515),
            (3517, 3517), (3520, 3526), (3558, 3567), (3585, 3632), (3634, 3635),
            (3648, 3654), (3664, 3673)])
         else
          (if c < 3804 then
           [(3713, 3714), (3716, 3716), (3718, 3722), (3724, 3747), (3749, 3749),
            (3751, 3760), (3762, 3763), (3773, 3773), (3776, 3780), (3782, 3782),
            (3792, 3801)]
          else
           [(3804, 3807), (3840, 3840), (3872, 3891), (3904, 3911), (3913, 3948),
            (3976, 3980), (4096, 4138), (4159, 4169), (4176, 4181), (4186, 4189),
            (4193, 4193), (4197, 4198)]))))
      else
       (if c < 8160 then
        (if c < 6279 then
         (if c < 4888 then
          (if c < 4696 then
           [(4206, 4208), (4213, 4225), (4238, 4238), (4240, 4249), (4256, 4293),
            (4295, 4295), (4301, 4301), (4304, 4346), (4348, 4680), (4682, 4685),
            (4688, 4694)]
          else
           [(4696, 4696), (4698, 4701), (4704, 4744), (4746, 4749), (4752, 4784),
            (4786, 4789), (4792, 4798), (4800, 4800), (4802, 4805), (4808, 4822),
            (4824, 4880), (4882, 4885)])
         else
          (if c < 5919 then
           [(4888, 4954), (4969, 4988), (4992, 5007), (5024, 5109), (5112, 5117),
            (5121, 5740), (5743, 5759), (5761, 5786), (5792, 5866), (5870, 5880),
            (5888, 5905)]
          else
           [(5919, 5937), (5952, 5969), (5984, 5996), (5998, 6000), (6016, 6067),
            (6103, 6103), (6108, 6108), (6112, 6121), (6128, 6137), (6160, 6169),
            (6176, 6264), (6272, 6276)]))
        else
         (if c < 7312 then
          (if c < 6784 then
           [(6279, 6312), (6314, 6314), (6320, 6389), (6400, 6430), (6470, 6509),
            (6512, 6516), (6528, 6571), (6576, 6601), (6608, 6618), (6656, 6678),
            (6688, 6740)]
          else
           [(6784, 6793), (6800, 6809), (6823, 6823), (6917, 6963), (6981, 6988),
            (6992, 7001), (7043, 7072), (7086, 7141), (7168, 7203), (7232, 7241),
            (7245, 7293), (7296, 7304)])
         else
          (if c < 8016 then
           [(7312, 7354), (7357, 7359), (7401, 7404), (7406, 7411), (7413, 7414),
            (7418, 7418), (7424, 7615), (7680, 7957), (7960, 7965), (7968, 8005),
            (8008, 8013)]
          else
           [(8016, 8023), (8025, 8025), (8027, 8027), (8029, 8029), (8031, 8061),
            (8064, 8116), (8118, 8124), (8126, 8126), (8130, 8132), (8134, 8140),
            (8144, 8147), (8150, 8155)])))
       else
        (if c < 12344 then
         (if c < 10102 then
          (if c < 8473 then
           [(8160, 8172), (8178, 8180), (8182, 8188), (8304, 8305), (8308, 8313),
            (8319, 8329), (8336, 8348), (8450, 8450), (8455, 8455), (8458, 8467),
            (8469, 8469)]
          else
           [(8473, 8477), (8484, 8484), (8486, 8486), (8488, 8488), (8490, 8493),
            (8495, 8505), (8508, 8511), (8517, 8521), (8526, 8526), (8528, 8585),
            (9312, 9371), (9450, 9471)])
         else
          (if c < 11680 then
           [(10102, 10131), (11264, 11492), (11499, 11502), (11506, 11507), (11517, 11517),
            (11520, 11557), (11559, 11559), (11565, 11565), (11568, 11623), (11631, 11631),
            (11648, 11670)]
          else
           [(11680, 11686), (11688, 11694), (11696, 11702), (11704, 11710), (11712, 11718),
            (11720, 11726), (11728, 11734), (11736, 11742), (11823, 11823), (12293, 12295),
            (12321, 12329), (12337, 12341)]))
        else
         (if c < 42775 then
          (if c < 12872 then
           [(12344, 12348), (12353, 12438), (12445, 12447), (12449, 12538), (12540, 12543),
            (12549, 12591), (12593, 12686), (12690, 12693), (12704, 12735), (12784, 12799),
            (12832, 12841)]
          else
           [(12872, 12879), (12881, 12895), (12928, 12937), (12977, 12991), (13312, 19903),
            (19968, 42124), (42192, 42237), (42240, 42508), (42512, 42539), (42560, 42606),
            (42623, 42653), (42656, 42735)])
         else
          (if c < 43072 then
           [(42775, 42783), (42786, 42888), (42891, 42954), (42960, 42961), (42963, 42963),
            (42965, 42969), (42994, 43009), (43011, 43013), (43015, 43018), (43020, 43042),
            (43056, 43061)]
          else
           [(43072, 43123), (43138, 43187), (43216, 43225), (43250, 43255), (43259, 43259),
            (43261, 43262), (43264, 43301), (43312, 43334), (43360, 43388), (43396, 43442),
            (43471, 43481), (43488, 43492)])))))
     else
      (if c < 71128 then
       (if c < 67456 then
        (if c < 65142 then
         (if c < 43868 then
          (if c < 43712 then
           [(43494, 43518), (43520, 43560), (43584, 43586), (43588, 43595), (43600, 43609),
            (43616, 43638), (43642, 43642), (43646, 43695), (43697, 43697), (43701, 43702),
            (43705, 43709)]
          else
           [(43712, 43712), (43714, 43714), (43739, 43741), (43744, 43754), (43762, 43764),
            (43777, 43782), (43785, 43790), (43793, 43798), (43808, 43814), (43816, 43822),
            (43824, 43866)])
         else
          (if c < 64287 then
           [(43868, 43881), (43888, 44002), (44016, 44025), (44032, 55203), (55216, 55238),
            (55243, 55291), (63744, 64109), (64112, 64217), (64256, 64262), (64275, 64279),
            (64285, 64285)]
          else
           [(64287, 64296), (64298, 64310), (64312, 64316), (64318, 64318), (64320, 64321),
            (64323, 64324), (64326, 64433), (64467, 64829), (64848, 64911), (64914, 64967),
            (65008, 65019), (65136, 65140)]))
        else
         (if c < 66349 then
          (if c < 65576 then
           [(65142, 65276), (65296, 65305), (65313, 65338), (65345, 65370), (65382, 65470),
            (65474, 65479), (65482, 65487), (65490, 65495), (65498, 65500), (65536, 65547),
            (65549, 65574)]
          else
           [(65576, 65594), (65596, 65597), (65599, 65613), (65616, 65629), (65664, 65786),
            (65799, 65843), (65856, 65912), (65930, 65931), (66176, 66204), (66208, 66256),
            (66273, 66299), (66304, 66339)])
         else
          (if c < 66864 then
           [(66349, 66378), (66384, 66421), (66432, 66461), (66464, 66499), (66504, 66511),
            (66513, 66517), (66560, 66717), (66720, 66729), (66736, 66771), (66776, 66811),
            (66816, 66855)]
          else
           [(66864, 66915), (66928, 66938), (66940, 66954), (66956, 66962), (66964, 66965),
            (66967, 66977), (66979, 66993), (66995, 67001), (67003, 67004), (67072, 67382),
            (67392, 67413), (67424, 67431)])))
       else
        (if c < 69600 then
         (if c < 68192 then
          (if c < 67751 then
           [(67456, 67461), (67463, 67504), (67506, 67514), (67584, 67589), (67592, 67592),
            (67594, 67637), (67639, 67640), (67644, 67644), (67647, 67669), (67672, 67702),
            (67705, 67742)]
          else
           [(67751, 67759), (67808, 67826), (67828, 67829), (67835, 67867), (67872, 67897),
            (67968, 68023), (68028, 68047), (68050, 68096), (68112, 68115), (68117, 68119),
            (68121, 68149), (68160, 68168)])
         else
          (if c < 68736 then
           [(68192, 68222), (68224, 68255), (68288, 68295), (68297, 68324), (68331, 68335),
            (68352, 68405), (68416, 68437), (68440, 68466), (68472, 68497), (68521, 68527),
            (68608, 68680)]
          else
           [(68736, 68786), (68800, 68850), (68858, 68899), (68912, 68921), (69216, 69246),
            (69248, 69289), (69296, 69297), (69376, 69415), (69424, 69445), (69457, 69460),
            (69488, 69505), (69552, 69579)]))
        else
         (if c < 70282 then
          (if c < 69959 then
           [(69600, 69622), (69635, 69687), (69714, 69743), (69745, 69746), (69749, 69749),
            (69763, 69807), (69840, 69864), (69872, 69881), (69891, 69926), (69942, 69951),
            (69956, 69956)]
          else
           [(69959, 69959), (69968, 70002), (70006, 70006), (70019, 70066), (70081, 70084),
            (70096, 70106), (70108, 70108), (70113, 70132), (70144, 70161), (70163, 70187),
            (70272, 70278), (70280, 70280)])
         else
          (if c < 70461 then
           [(70282, 70285), (70287, 70301), (70303, 70312), (70320, 70366), (70384, 70393),
            (70405, 70412), (70415, 70416), (70419, 70440), (70442, 70448), (70450, 70451),
            (70453, 70457)]
          else
           [(70461, 70461), (70480, 70480), (70493, 70497), (70656, 70708), (70727, 70730),
            (70736, 70745), (70751, 70753), (70784, 70831), (70852, 70853), (70855, 70855),
            (70864, 70873), (71040, 71086)]))))
      else
       (if c < 119970 then
        (if c < 73440 then
         (if c < 72163 then
          (if c < 71840 then
           [(71128, 71131), (71168, 71215), (71236, 71236), (71248, 71257), (71296, 71338),
            (71352, 71352), (71360, 71369), (71424, 71450), (71472, 71483), (71488, 71494),
            (71680, 71723)]
          else
           [(71840, 71922), (71935, 71942), (71945, 71945), (71948, 71955), (71957, 71958),
            (71960, 71983), (71999, 71999), (72001, 72001), (72016, 72025), (72096, 72103),
            (72106, 72144), (72161, 72161)])
         else
          (if c < 72784 then
           [(72163, 72163), (72192, 72192), (72203, 72242), (72250, 72250), (72272, 72272),
            (72284, 72329), (72349, 72349), (72368, 72440), (72704, 72712), (72714, 72750),
            (72768, 72768)]
          else
           [(72784, 72812), (72818, 72847), (72960, 72966), (72968, 72969), (72971, 73008),
            (73030, 73030), (73040, 73049), (73056, 73061), (73063, 73064), (73066, 73097),
            (73112, 73112), (73120, 73129)]))
        else
         (if c < 94032 then
          (if c < 92768 then
           [(73440, 73458), (73648, 73648), (73664, 73684), (73728, 74649), (74752, 74862),
            (74880, 75075), (77712, 77808), (77824, 78894), (82944, 83526), (92160, 92728),
            (92736, 92766)]
          else
           [(92768, 92777), (92784, 92862), (92864, 92873), (92880, 92909), (92928, 92975),
            (92992, 92995), (93008, 93017), (93019, 93025), (93027, 93047), (93053, 93071),
            (93760, 93846), (93952, 94026)])
         else
          (if c < 110928 then
           [(94032, 94032), (94099, 94111), (94176, 94177), (94179, 94179),
            (94208, 100343), (100352, 101589), (101632, 101640), (110576, 110579),
            (110581, 110587), (110589, 110590), (110592, 110882)]
          else
           [(110928, 110930), (110948, 110951), (110960, 111355), (113664, 113770),
            (113776, 113788), (113792, 113800), (113808, 113817), (119520, 119539),
            (119648, 119672), (119808, 119892), (119894, 119964), (119966, 119967)])))
       else
        (if c < 126125 then
         (if c < 120688 then
          (if c < 120123 then
           [(119970, 119970), (119973, 119974), (119977, 119980), (119982, 119993),
            (119995, 119995), (119997, 120003), (120005, 120069), (120071, 120074),
            (120077, 120084), (120086, 120092), (120094, 120121)]
          else
           [(120123, 120126), (120128, 120132), (120134, 120134), (120138, 120144),
            (120146, 120485), (120488, 120512), (120514, 120538), (120540, 120570),
            (120572, 120596), (120598, 120628), (120630, 120654), (120656, 120686)])
         else
          (if c < 123584 then
           [(120688, 120712), (120714, 120744), (120746, 120770), (120772, 120779),
            (120782, 120831), (122624, 122654), (123136, 123180), (123191, 123197),
            (123200, 123209), (123214, 123214), (123536, 123565)]
          else
           [(123584, 123627), (123632, 123641), (124896, 124902), (124904, 124907),
            (124909, 124910), (124912, 124926), (124928, 125124), (125127, 125135),
            (125184, 125251), (125259, 125259), (125264, 125273), (126065, 126123)]))
        else
         (if c < 126557 then
          (if c < 126521 then
           [(126125, 126127), (126129, 126132), (126209, 126253), (126255, 126269),
            (126464, 126467), (126469, 126495), (126497, 126498), (126500, 126500),
            (126503, 126503), (126505, 126514), (126516, 126519)]
          else
           [(126521, 126521), (126523, 126523), (126530, 126530), (126535, 126535),
            (126537, 126537), (126539, 126539), (126541, 126543), (126545, 126546),
            (126548, 126548), (126551, 126551), (126553, 126553), (126555, 126555)])
         else
          (if c < 126625 then
           [(126557, 126557), (126559, 126559), (126561, 126562), (126564, 126564),
            (126567, 126570), (126572, 126578), (126580, 126583), (126585, 126588),
            (126590, 126590), (126592, 126601), (126603, 126619)]
          else
           [(126625, 126627), (126629, 126633), (126635, 126651), (127232, 127244),
            (130032, 130041), (131072, 173791), (173824, 177976), (177984, 178205),
            (178208, 183969), (183984, 191456), (194560, 195101), (196608, 201546)]))))))"

text \<open>Blocks of \<open>Cased\<close>.\<close>

definition cased_block :: "cp \<Rightarrow> (nat \<times> nat) list" where [eval_simps]:
  "cased_block c =
     (if c < 11390 then
      (if c < 7680 then
       (if c < 910 then
        (if c < 452 then
         [(65, 90), (97, 122), (170, 170), (181, 181), (186, 186), (192, 214), (216, 246),
          (248, 442), (444, 447)]
        else
         [(452, 659), (661, 687), (880, 883), (886, 887), (891, 893), (895, 895),
          (902, 902), (904, 906), (908, 908)])
       else
        (if c < 4304 then
         [(910, 929), (931, 1013), (1015, 1153), (1162, 1327), (1329, 1366), (1376, 1416),
          (4256, 4293), (4295, 4295), (4301, 4301)]
        else
         [(4304, 4346), (4349, 4351), (5024, 5109), (5112, 5117), (7296, 7304),
          (7312, 7354), (7357, 7359), (7424, 7467), (7531, 7543), (7545, 7578)]))
      else
       (if c < 8182 then
        (if c < 8064 then
         [(7680, 7957), (7960, 7965), (7968, 8005), (8008, 8013), (8016, 8023),
          (8025, 8025), (8027, 8027), (8029, 8029), (8031, 8061)]
        else
         [(8064, 8116), (8118, 8124), (8126, 8126), (8130, 8132), (8134, 8140),
          (8144, 8147), (8150, 8155), (8160, 8172), (8178, 8180)])
       else
        (if c < 8490 then
         [(8182, 8188), (8450, 8450), (8455, 8455), (8458, 8467), (8469, 8469),
          (8473, 8477), (8484, 8484), (8486, 8486), (8488, 8488)]
        else
         [(8490, 8493), (8495, 8500), (8505, 8505), (8508, 8511), (8517, 8521),
          (8526, 8526), (8544, 8575), (8579, 8580), (9398, 9449), (11264, 11387)])))
     else
      (if c < 71840 then
       (if c < 43872 then
        (if c < 42865 then
         [(11390, 11492), (11499, 11502), (11506, 11507), (11520, 11557), (11559, 11559),
          (11565, 11565), (42560, 42605), (42624, 42651), (42786, 42863)]
        else
         [(42865, 42887), (42891, 42894), (42896, 42954), (42960, 42961), (42963, 42963),
          (42965, 42969), (42997, 42998), (43002, 43002), (43824, 43866)])
       else
        (if c < 66928 then
         [(43872, 43880), (43888, 43967), (64256, 64262), (64275, 64279), (65313, 65338),
          (65345, 65370), (66560, 66639), (66736, 66771), (66776, 66811)]
        else
         [(66928, 66938), (66940, 66954), (66956, 66962), (66964, 66965), (66967, 66977),
          (66979, 66993), (66995, 67001), (67003, 67004), (68736, 68786), (68800, 68850)]))
      else
       (if c < 120138 then
        (if c < 119995 then
         [(71840, 71903), (93760, 93823), (119808, 119892), (119894, 119964),
          (119966, 119967), (119970, 119970), (119973, 119974), (119977, 119980),
          (119982, 119993)]
        else
         [(119995, 119995), (119997, 120003), (120005, 120069), (120071, 120074),
          (120077, 120084), (120086, 120092), (120094, 120121), (120123, 120126),
          (120128, 120132), (120134, 120134)])
       else
        (if c < 120688 then
         [(120138, 120144), (120146, 120485), (120488, 120512), (120514, 120538),
          (120540, 120570), (120572, 120596), (120598, 120628), (120630, 120654),
          (120656, 120686)]
        else
         [(120688, 120712), (120714, 120744), (120746, 120770), (120772, 120779),
          (122624, 122633), (122635, 122654), (125184, 125251), (127280, 127305),
          (127312, 127337), (127344, 127369)]))))"

text \<open>Blocks of \<open>Case_Ignorable\<close>.\<close>

definition case_ignorable_block :: "cp \<Rightarrow> (nat \<times> nat) list" where [eval_simps]:
  "case_ignorable_block c =
     (if c < 11744 then
      (if c < 3542 then
       (if c < 2433 then
        (if c < 1564 then
         (if c < 900 then
          (if c < 173 then
           [(39, 39), (46, 46), (58, 58), (94, 94), (96, 96), (168, 168)]
          else
           [(173, 173), (175, 175), (180, 180), (183, 184), (688, 879), (884, 885),
            (890, 890)])
         else
          (if c < 1471 then
           [(900, 901), (903, 903), (1155, 1161), (1369, 1369), (1375, 1375), (1425, 1469)]
          else
           [(1471, 1471), (1473, 1474), (1476, 1477), (1479, 1479), (1524, 1524),
            (1536, 1541), (1552, 1562)]))
        else
         (if c < 2045 then
          (if c < 1770 then
           [(1564, 1564), (1600, 1600), (1611, 1631), (1648, 1648), (1750, 1757),
            (1759, 1768)]
          else
           [(1770, 1773), (1807, 1807), (1809, 1809), (1840, 1866), (1958, 1968),
            (2027, 2037), (2042, 2042)])
         else
          (if c < 2362 then
           [(2045, 2045), (2070, 2093), (2137, 2139), (2184, 2184), (2192, 2193),
            (2200, 2207), (2249, 2306)]
          else
           [(2362, 2362), (2364, 2364), (2369, 2376), (2381, 2381), (2385, 2391),
            (2402, 2403), (2417, 2417)])))
       else
        (if c < 2901 then
         (if c < 2677 then
          (if c < 2561 then
           [(2433, 2433), (2492, 2492), (2497, 2500), (2509, 2509), (2530, 2531),
            (2558, 2558)]
          else
           [(2561, 2562), (2620, 2620), (2625, 2626), (2631, 2632), (2635, 2637),
            (2641, 2641), (2672, 2673)])
         else
          (if c < 2786 then
           [(2677, 2677), (2689, 2690), (2748, 2748), (2753, 2757), (2759, 2760),
            (2765, 2765)]
          else
           [(2786, 2787), (2810, 2815), (2817, 2817), (2876, 2876), (2879, 2879),
            (2881, 2884), (2893, 2893)]))
        else
         (if c < 3201 then
          (if c < 3076 then
           [(2901, 2902), (2914, 2915), (2946, 2946), (3008, 3008), (3021, 3021),
            (3072, 3072)]
          else
           [(3076, 3076), (3132, 3132), (3134, 3136), (3142, 3144), (3146, 3149),
            (3157, 3158), (3170, 3171)])
         else
          (if c < 3387 then
           [(3201, 3201), (3260, 3260), (3263, 3263), (3270, 3270), (3276, 3277),
            (3298, 3299), (3328, 3329)]
          else
           [(3387, 3388), (3393, 3396), (3405, 3405), (3426, 3427), (3457, 3457),
            (3530, 3530), (3538, 3540)]))))
      else
       (if c < 6752 then
        (if c < 4229 then
         (if c < 3968 then
          (if c < 3782 then
           [(3542, 3542), (3633, 3633), (3636, 3642), (3654, 3662), (3761, 3761),
            (3764, 3772)]
          else
           [(3782, 3782), (3784, 3789), (3864, 3865), (3893, 3893), (3895, 3895),
            (3897, 3897), (3953, 3966)])
         else
          (if c < 4146 then
           [(3968, 3972), (3974, 3975), (3981, 3991), (3993, 4028), (4038, 4038),
            (4141, 4144)]
          else
           [(4146, 4151), (4153, 4154), (4157, 4158), (4184, 4185), (4190, 4192),
            (4209, 4212), (4226, 4226)]))
        else
         (if c < 6103 then
          (if c < 5938 then
           [(4229, 4230), (4237, 4237), (4253, 4253), (4348, 4348), (4957, 4959),
            (5906, 5908)]
          else
           [(5938, 5939), (5970, 5971), (6002, 6003), (6068, 6069), (6071, 6077),
            (6086, 6086), (6089, 6099)])
         else
          (if c < 6439 then
           [(6103, 6103), (6109, 6109), (6155, 6159), (6211, 6211), (6277, 6278),
            (6313, 6313), (6432, 6434)]
          else
           [(6439, 6440), (6450, 6450), (6457, 6459), (6679, 6680), (6683, 6683),
            (6742, 6742), (6744, 6750)])))
       else
        (if c < 7405 then
         (if c < 7040 then
          (if c < 6832 then
           [(6752, 6752), (6754, 6754), (6757, 6764), (6771, 6780), (6783, 6783),
            (6823, 6823)]
          else
           [(6832, 6862), (6912, 6915), (6964, 6964), (6966, 6970), (6972, 6972),
            (6978, 6978), (7019, 7027)])
         else
          (if c < 7151 then
           [(7040, 7041), (7074, 7077), (7080, 7081), (7083, 7085), (7142, 7142),
            (7144, 7145), (7149, 7149)]
          else
           [(7151, 7153), (7212, 7219), (7222, 7223), (7288, 7293), (7376, 7378),
            (7380, 7392), (7394, 7400)]))
        else
         (if c < 8216 then
          (if c < 8125 then
           [(7405, 7405), (7412, 7412), (7416, 7417), (7468, 7530), (7544, 7544),
            (7579, 7679)]
          else
           [(8125, 8125), (8127, 8129), (8141, 8143), (8157, 8159), (8173, 8175),
            (8189, 8190), (8203, 8207)])
         else
          (if c < 8319 then
           [(8216, 8217), (8228, 8228), (8231, 8231), (8234, 8238), (8288, 8292),
            (8294, 8303), (8305, 8305)]
          else
           [(8319, 8319), (8336, 8348), (8400, 8432), (11388, 11389), (11503, 11505),
            (11631, 11631), (11647, 11647)])))))
     else
      (if c < 70089 then
       (if c < 43867 then
        (if c < 43204 then
         (if c < 42623 then
          (if c < 12441 then
           [(11744, 11775), (11823, 11823), (12293, 12293), (12330, 12333), (12337, 12341),
            (12347, 12347)]
          else
           [(12441, 12446), (12540, 12542), (40981, 40981), (42232, 42237), (42508, 42508),
            (42607, 42610), (42612, 42621)])
         else
          (if c < 42994 then
           [(42623, 42623), (42652, 42655), (42736, 42737), (42752, 42785), (42864, 42864),
            (42888, 42890)]
          else
           [(42994, 42996), (43000, 43001), (43010, 43010), (43014, 43014), (43019, 43019),
            (43045, 43046), (43052, 43052)]))
        else
         (if c < 43573 then
          (if c < 43443 then
           [(43204, 43205), (43232, 43249), (43263, 43263), (43302, 43309), (43335, 43345),
            (43392, 43394)]
          else
           [(43443, 43443), (43446, 43449), (43452, 43453), (43471, 43471), (43493, 43494),
            (43561, 43566), (43569, 43570)])
         else
          (if c < 43703 then
           [(43573, 43574), (43587, 43587), (43596, 43596), (43632, 43632), (43644, 43644),
            (43696, 43696), (43698, 43700)]
          else
           [(43703, 43704), (43710, 43711), (43713, 43713), (43741, 43741), (43756, 43757),
            (43763, 43764), (43766, 43766)])))
       else
        (if c < 67506 then
         (if c < 65287 then
          (if c < 64434 then
           [(43867, 43871), (43881, 43883), (44005, 44005), (44008, 44008), (44013, 44013),
            (64286, 64286)]
          else
           [(64434, 64450), (65024, 65039), (65043, 65043), (65056, 65071), (65106, 65106),
            (65109, 65109), (65279, 65279)])
         else
          (if c < 65507 then
           [(65287, 65287), (65294, 65294), (65306, 65306), (65342, 65342), (65344, 65344),
            (65392, 65392), (65438, 65439)]
          else
           [(65507, 65507), (65529, 65531), (66045, 66045), (66272, 66272), (66422, 66426),
            (67456, 67461), (67463, 67504)]))
        else
         (if c < 69744 then
          (if c < 68325 then
           [(67506, 67514), (68097, 68099), (68101, 68102), (68108, 68111), (68152, 68154),
            (68159, 68159)]
          else
           [(68325, 68326), (68900, 68903), (69291, 69292), (69446, 69456), (69506, 69509),
            (69633, 69633), (69688, 69702)])
         else
          (if c < 69837 then
           [(69744, 69744), (69747, 69748), (69759, 69761), (69811, 69814), (69817, 69818),
            (69821, 69821), (69826, 69826)]
          else
           [(69837, 69837), (69888, 69890), (69927, 69931), (69933, 69940), (70003, 70003),
            (70016, 70017), (70070, 70078)]))))
      else
       (if c < 72767 then
        (if c < 71229 then
         (if c < 70712 then
          (if c < 70367 then
           [(70089, 70092), (70095, 70095), (70191, 70193), (70196, 70196), (70198, 70199),
            (70206, 70206)]
          else
           [(70367, 70367), (70371, 70378), (70400, 70401), (70459, 70460), (70464, 70464),
            (70502, 70508), (70512, 70516)])
         else
          (if c < 70847 then
           [(70712, 70719), (70722, 70724), (70726, 70726), (70750, 70750), (70835, 70840),
            (70842, 70842)]
          else
           [(70847, 70848), (70850, 70851), (71090, 71093), (71100, 71101), (71103, 71104),
            (71132, 71133), (71219, 71226)]))
        else
         (if c < 72003 then
          (if c < 71453 then
           [(71229, 71229), (71231, 71232), (71339, 71339), (71341, 71341), (71344, 71349),
            (71351, 71351)]
          else
           [(71453, 71455), (71458, 71461), (71463, 71467), (71727, 71735), (71737, 71738),
            (71995, 71996), (71998, 71998)])
         else
          (if c < 72263 then
           [(72003, 72003), (72148, 72151), (72154, 72155), (72160, 72160), (72193, 72202),
            (72243, 72248), (72251, 72254)]
          else
           [(72263, 72263), (72273, 72278), (72281, 72283), (72330, 72342), (72344, 72345),
            (72752, 72758), (72760, 72765)])))
       else
        (if c < 118528 then
         (if c < 73459 then
          (if c < 73018 then
           [(72767, 72767), (72850, 72871), (72874, 72880), (72882, 72883), (72885, 72886),
            (73009, 73014)]
          else
           [(73018, 73018), (73020, 73021), (73023, 73029), (73031, 73031), (73104, 73105),
            (73109, 73109), (73111, 73111)])
         else
          (if c < 94176 then
           [(73459, 73460), (78896, 78904), (92912, 92916), (92976, 92982), (92992, 92995),
            (94031, 94031), (94095, 94111)]
          else
           [(94176, 94177), (94179, 94180), (110576, 110579), (110581, 110587),
            (110589, 110590), (113821, 113822), (113824, 113827)]))
        else
         (if c < 122880 then
          (if c < 119362 then
           [(118528, 118573), (118576, 118598), (119143, 119145), (119155, 119170),
            (119173, 119179), (119210, 119213)]
          else
           [(119362, 119364), (121344, 121398), (121403, 121452), (121461, 121461),
            (121476, 121476), (121499, 121503), (121505, 121519)])
         else
          (if c < 123628 then
           [(122880, 122886), (122888, 122904), (122907, 122913), (122915, 122916),
            (122918, 122922), (123184, 123197), (123566, 123566)]
          else
           [(123628, 123631), (125136, 125142), (125252, 125259), (127995, 127999),
            (917505, 917505), (917536, 917631), (917760, 917999)]))))))"

text \<open>Blocks of the simple lowercase mapping.\<close>

definition lower_block :: "cp \<Rightarrow> (nat \<times> nat \<times> nat \<times> nat) list" where [eval_simps]:
  "lower_block c =
     (if c < 5104 then
      (if c < 478 then
       (if c < 407 then
        (if c < 390 then
         [(65, 90, 1, 97), (192, 214, 1, 224), (216, 222, 1, 248), (256, 302, 2, 257),
          (306, 310, 2, 307), (313, 327, 2, 314), (330, 374, 2, 331), (376, 376, 1, 255),
          (377, 381, 2, 378), (385, 385, 1, 595), (386, 388, 2, 387)]
        else
         [(390, 390, 1, 596), (391, 391, 1, 392), (393, 394, 1, 598), (395, 395, 1, 396),
          (398, 398, 1, 477), (399, 399, 1, 601), (400, 400, 1, 603), (401, 401, 1, 402),
          (403, 403, 1, 608), (404, 404, 1, 611), (406, 406, 1, 617)])
       else
        (if c < 431 then
         [(407, 407, 1, 616), (408, 408, 1, 409), (412, 412, 1, 623), (413, 413, 1, 626),
          (415, 415, 1, 629), (416, 420, 2, 417), (422, 422, 1, 640), (423, 423, 1, 424),
          (425, 425, 1, 643), (428, 428, 1, 429), (430, 430, 1, 648)]
        else
         [(431, 431, 1, 432), (433, 434, 1, 650), (435, 437, 2, 436), (439, 439, 1, 658),
          (440, 440, 1, 441), (444, 444, 1, 445), (452, 452, 1, 454), (453, 453, 1, 454),
          (455, 455, 1, 457), (456, 456, 1, 457), (458, 458, 1, 460), (459, 475, 2, 460)]))
      else
       (if c < 908 then
        (if c < 574 then
         [(478, 494, 2, 479), (497, 497, 1, 499), (498, 500, 2, 499), (502, 502, 1, 405),
          (503, 503, 1, 447), (504, 542, 2, 505), (544, 544, 1, 414), (546, 562, 2, 547),
          (570, 570, 1, 11365), (571, 571, 1, 572), (573, 573, 1, 410)]
        else
         [(574, 574, 1, 11366), (577, 577, 1, 578), (579, 579, 1, 384), (580, 580, 1, 649),
          (581, 581, 1, 652), (582, 590, 2, 583), (880, 882, 2, 881), (886, 886, 1, 887),
          (895, 895, 1, 1011), (902, 902, 1, 940), (904, 906, 1, 941)])
       else
        (if c < 1024 then
         [(908, 908, 1, 972), (910, 911, 1, 973), (913, 929, 1, 945), (931, 939, 1, 963),
          (975, 975, 1, 983), (984, 1006, 2, 985), (1012, 1012, 1, 952),
          (1015, 1015, 1, 1016), (1017, 1017, 1, 1010), (1018, 1018, 1, 1019),
          (1021, 1023, 1, 891)]
        else
         [(1024, 1039, 1, 1104), (1040, 1071, 1, 1072), (1120, 1152, 2, 1121),
          (1162, 1214, 2, 1163), (1216, 1216, 1, 1231), (1217, 1229, 2, 1218),
          (1232, 1326, 2, 1233), (1329, 1366, 1, 1377), (4256, 4293, 1, 11520),
          (4295, 4295, 1, 11559), (4301, 4301, 1, 11565), (5024, 5103, 1, 43888)])))
     else
      (if c < 11376 then
       (if c < 8154 then
        (if c < 8025 then
         [(5104, 5109, 1, 5112), (7312, 7354, 1, 4304), (7357, 7359, 1, 4349),
          (7680, 7828, 2, 7681), (7838, 7838, 1, 223), (7840, 7934, 2, 7841),
          (7944, 7951, 1, 7936), (7960, 7965, 1, 7952), (7976, 7983, 1, 7968),
          (7992, 7999, 1, 7984), (8008, 8013, 1, 8000)]
        else
         [(8025, 8031, 2, 8017), (8040, 8047, 1, 8032), (8072, 8079, 1, 8064),
          (8088, 8095, 1, 8080), (8104, 8111, 1, 8096), (8120, 8121, 1, 8112),
          (8122, 8123, 1, 8048), (8124, 8124, 1, 8115), (8136, 8139, 1, 8050),
          (8140, 8140, 1, 8131), (8152, 8153, 1, 8144)])
       else
        (if c < 8544 then
         [(8154, 8155, 1, 8054), (8168, 8169, 1, 8160), (8170, 8171, 1, 8058),
          (8172, 8172, 1, 8165), (8184, 8185, 1, 8056), (8186, 8187, 1, 8060),
          (8188, 8188, 1, 8179), (8486, 8486, 1, 969), (8490, 8490, 1, 107),
          (8491, 8491, 1, 229), (8498, 8498, 1, 8526)]
        else
         [(8544, 8559, 1, 8560), (8579, 8579, 1, 8580), (9398, 9423, 1, 9424),
          (11264, 11311, 1, 11312), (11360, 11360, 1, 11361), (11362, 11362, 1, 619),
          (11363, 11363, 1, 7549), (11364, 11364, 1, 637), (11367, 11371, 2, 11368),
          (11373, 11373, 1, 593), (11374, 11374, 1, 625), (11375, 11375, 1, 592)]))
      else
       (if c < 42928 then
        (if c < 42873 then
         [(11376, 11376, 1, 594), (11378, 11378, 1, 11379), (11381, 11381, 1, 11382),
          (11390, 11391, 1, 575), (11392, 11490, 2, 11393), (11499, 11501, 2, 11500),
          (11506, 11506, 1, 11507), (42560, 42604, 2, 42561), (42624, 42650, 2, 42625),
          (42786, 42798, 2, 42787), (42802, 42862, 2, 42803)]
        else
         [(42873, 42875, 2, 42874), (42877, 42877, 1, 7545), (42878, 42886, 2, 42879),
          (42891, 42891, 1, 42892), (42893, 42893, 1, 613), (42896, 42898, 2, 42897),
          (42902, 42920, 2, 42903), (42922, 42922, 1, 614), (42923, 42923, 1, 604),
          (42924, 42924, 1, 609), (42925, 42925, 1, 620), (42926, 42926, 1, 618)])
       else
        (if c < 42997 then
         [(42928, 42928, 1, 670), (42929, 42929, 1, 647), (42930, 42930, 1, 669),
          (42931, 42931, 1, 43859), (42932, 42946, 2, 42933), (42948, 42948, 1, 42900),
          (42949, 42949, 1, 642), (42950, 42950, 1, 7566), (42951, 42953, 2, 42952),
          (42960, 42960, 1, 42961), (42966, 42968, 2, 42967)]
        else
         [(42997, 42997, 1, 42998), (65313, 65338, 1, 65345), (66560, 66599, 1, 66600),
          (66736, 66771, 1, 66776), (66928, 66938, 1, 66967), (66940, 66954, 1, 66979),
          (66956, 66962, 1, 66995), (66964, 66965, 1, 67003), (68736, 68786, 1, 68800),
          (71840, 71871, 1, 71872), (93760, 93791, 1, 93792), (125184, 125217, 1, 125218)]))))"

end
