(* ===== verification/PyStr.thy ===== *)
theory PyStr
  imports Unicode_Data
begin

text \<open>
  The Python string built-ins the two scripts call, on code-point lists: the whitespace
  class (\<open>str.isspace\<close>, which is also the class of \<open>\s\<close> in \<open>re\<close> and the separator
  of \<open>str.split()\<close> and \<open>str.strip()\<close>), the word class \<open>\w\<close> of \<open>re\<close>,
  \<open>str.lower()\<close>, \<open>str.split()\<close>, \<open>str.strip()\<close>, \<open>' '.join\<close>,
  \<open>line.split('\t', 1)\<close> and the iteration of a text file by lines. Each is proved to
  behave as the sources rely on: splitting yields non-empty tokens free of whitespace,
  joining with one space and splitting again gives the tokens back, lowering commutes
  with splitting because no whitespace character has a case and a whitespace character
  ends the final-sigma context, and lowering is idempotent.
\<close>

subsection \<open>Character classes\<close>

text \<open>\<open>str.isspace()\<close> (CPython's \<open>Py_UNICODE_ISSPACE\<close>), the full set of 29 code
  points; \<open>re\<close>'s \<open>\s\<close> on \<open>str\<close> patterns is the same class.\<close>

definition is_space :: "cp \<Rightarrow> bool" where [eval_simps]:
  "is_space c \<longleftrightarrow>
     (9 \<le> c \<and> c \<le> 13) \<or> (28 \<le> c \<and> c \<le> 32) \<or> c = 133 \<or> c = 160 \<or> c = 5760 \<or>
     (8192 \<le> c \<and> c \<le> 8202) \<or> c = 8232 \<or> c = 8233 \<or> c = 8239 \<or> c = 8287 \<or> c = 12288"

text \<open>Membership in a sorted interval table, scanning from the low end and stopping at
  the first interval that starts above the code point.\<close>

fun in_ranges :: "cp \<Rightarrow> (nat \<times> nat) list \<Rightarrow> bool" where
  "in_ranges c [] = False"
| "in_ranges c ((a, b) # rs) = (if c < a then False else c \<le> b \<or> in_ranges c rs)"

text \<open>\<open>\w\<close> on \<open>str\<close> patterns (\<open>SRE_UNI_IS_WORD\<close>: \<open>str.isalnum()\<close> or \<open>_\<close>).\<close>

definition py_word_char :: "cp \<Rightarrow> bool" where [eval_simps]:
  "py_word_char c \<longleftrightarrow> in_ranges c (word_block c)"

definition is_cased :: "cp \<Rightarrow> bool" where [eval_simps]:
  "is_cased c \<longleftrightarrow> in_ranges c (cased_block c)"

definition is_case_ignorable :: "cp \<Rightarrow> bool" where [eval_simps]:
  "is_case_ignorable c \<longleftrightarrow> in_ranges c (case_ignorable_block c)"

text \<open>The simple lowercase mapping read off a block of runs.\<close>

fun lower_lookup :: "cp \<Rightarrow> (nat \<times> nat \<times> nat \<times> nat) list \<Rightarrow> cp option" where
  "lower_lookup c [] = None"
| "lower_lookup c ((a, b, step, t) # rs) =
     (if c < a then None
      else if c \<le> b \<and> (c - a) mod step = 0 then Some (t + (c - a))
      else lower_lookup c rs)"

text \<open>\<open>str.lower()\<close> of one code point outside the sigma context (CPython's
  \<open>lower_ucs4\<close>): U+0130 lowers to two code points, every other to at most one.\<close>

definition lower_cps :: "cp \<Rightarrow> cp list" where [eval_simps]:
  "lower_cps c =
     (if c = 304 then [105, 775]
      else (case lower_lookup c (lower_block c) of None \<Rightarrow> [c] | Some d \<Rightarrow> [d]))"

text \<open>The capital sigma (U+03A3) lowers to the final sigma (U+03C2) when a cased code
  point precedes it and none follows it, case-ignorable code points skipped on both
  sides (\<open>handle_capital_sigma\<close>); \<open>before\<close> is the text before it, nearest first.\<close>

definition sigma_cased_before :: "pystr \<Rightarrow> bool" where [eval_simps]:
  "sigma_cased_before before \<longleftrightarrow>
     (case dropWhile is_case_ignorable before of [] \<Rightarrow> False | x # _ \<Rightarrow> is_cased x)"

definition sigma_uncased_after :: "pystr \<Rightarrow> bool" where [eval_simps]:
  "sigma_uncased_after after \<longleftrightarrow>
     (case dropWhile is_case_ignorable after of [] \<Rightarrow> True | y # _ \<Rightarrow> \<not> is_cased y)"

definition final_sigma :: "pystr \<Rightarrow> pystr \<Rightarrow> bool" where [eval_simps]:
  "final_sigma before after \<longleftrightarrow> sigma_cased_before before \<and> sigma_uncased_after after"

fun lower_from :: "pystr \<Rightarrow> pystr \<Rightarrow> pystr" where
  "lower_from before [] = []"
| "lower_from before (c # cs) =
     (if c = 931 then [if final_sigma before cs then 962 else 963] else lower_cps c) @
     lower_from (c # before) cs"

definition py_lower :: "pystr \<Rightarrow> pystr" where [eval_simps]:
  "py_lower s = lower_from [] s"

subsection \<open>Splitting, stripping, joining\<close>

text \<open>\<open>str.split()\<close> with no separator: skip whitespace, take a maximal run of
  non-whitespace, repeat.\<close>

function py_split :: "pystr \<Rightarrow> pystr list" where
  "py_split [] = []"
| "py_split (c # cs) =
     (if is_space c then py_split cs
      else (c # takeWhile (\<lambda>x. \<not> is_space x) cs) # py_split (dropWhile (\<lambda>x. \<not> is_space x) cs))"
  by pat_completeness auto
termination
  by (relation "measure length") auto

text \<open>\<open>str.strip()\<close> with no argument.\<close>

definition py_strip :: "pystr \<Rightarrow> pystr" where [eval_simps]:
  "py_strip s = rev (dropWhile is_space (rev (dropWhile is_space s)))"

text \<open>\<open>' '.join(parts)\<close>.\<close>

fun join_space :: "pystr list \<Rightarrow> pystr" where
  "join_space [] = []"
| "join_space [t] = t"
| "join_space (t # u # ts) = t @ 32 # join_space (u # ts)"

text \<open>\<open>line.split('\t', 1)\<close>: at most one split, at the first tab.\<close>

definition split_tab1 :: "pystr \<Rightarrow> pystr list" where [eval_simps]:
  "split_tab1 s =
     (if 9 \<in> set s then [takeWhile (\<lambda>c. c \<noteq> 9) s, tl (dropWhile (\<lambda>c. c \<noteq> 9) s)] else [s])"

text \<open>Reading a file opened in text mode: universal newlines turn \<open>\r\n\<close> and a lone
  \<open>\r\<close> into \<open>\n\<close>, and iterating the file yields its lines, each with its \<open>\n\<close>.\<close>

fun universal_newlines :: "pystr \<Rightarrow> pystr" where
  "universal_newlines [] = []"
| "universal_newlines (c # r) =
     (if c = 13 \<and> r \<noteq> [] \<and> hd r = 10 then 10 # universal_newlines (tl r)
      else if c = 13 then 10 # universal_newlines r
      else c # universal_newlines r)"

fun file_lines :: "pystr \<Rightarrow> pystr list" where
  "file_lines [] = []"
| "file_lines (c # cs) =
     (if c = 10 then [10] # file_lines cs
      else (case file_lines cs of [] \<Rightarrow> [[c]] | l # ls \<Rightarrow> (c # l) # ls))"

subsection \<open>Table predicates\<close>

text \<open>The whitespace code points, listed.\<close>

definition space_points :: "cp list" where
  "space_points = [9..<14] @ [28..<33] @ [133, 160, 5760] @ [8192..<8203] @ [8232, 8233, 8239, 8287, 12288]"

definition runs_no_space :: "(nat \<times> nat \<times> nat \<times> nat) list \<Rightarrow> bool" where
  "runs_no_space rs \<longleftrightarrow>
     list_all (\<lambda>(a, b, step, t). list_all (\<lambda>p. \<not> (t \<le> p \<and> p \<le> t + (b - a))) space_points) rs"

text \<open>Predicates checked on every block of the lowercase table: no run reaches a
  whitespace code point, and every code point a run yields is left unchanged by lowering.\<close>

definition runs_fixed :: "(nat \<times> nat \<times> nat \<times> nat) list \<Rightarrow> bool" where
  "runs_fixed rs \<longleftrightarrow>
     list_all (\<lambda>(a, b, step, t).
       list_all (\<lambda>i. i mod step \<noteq> 0 \<or> lower_cps (t + i) = [t + i]) [0..<Suc (b - a)]) rs"

subsection \<open>Properties of the built-ins\<close>

definition space_free :: "pystr \<Rightarrow> bool" where [eval_simps]:
  "space_free t \<longleftrightarrow> t \<noteq> [] \<and> list_all (\<lambda>c. \<not> is_space c) t"

lemma space_free_iff: "space_free t \<longleftrightarrow> t \<noteq> [] \<and> (\<forall>c\<in>set t. \<not> is_space c)"
  by (simp add: space_free_def list_all_iff)

lemma py_split_tokens: "t \<in> set (py_split s) \<Longrightarrow> space_free t"
proof (induction s rule: py_split.induct)
  case (2 c cs)
  show ?case
  proof (cases "is_space c")
    case True
    with 2 show ?thesis by simp
  next
    case False
    have "space_free (c # takeWhile (\<lambda>x. \<not> is_space x) cs)"
      using False unfolding space_free_iff by (auto dest: set_takeWhileD)
    with 2 False show ?thesis by auto
  qed
qed simp

lemma filter_takeWhile_dropWhile: "filter P xs = takeWhile P xs @ filter P (dropWhile P xs)"
  by (induction xs) auto

lemma concat_py_split: "concat (py_split s) = filter (\<lambda>c. \<not> is_space c) s"
proof (induction s rule: py_split.induct)
  case (2 c cs)
  then show ?case by (simp add: filter_takeWhile_dropWhile [of _ cs])
qed simp


lemma py_split_space_Cons [simp]: "is_space c \<Longrightarrow> py_split (c # s) = py_split s"
  by simp

lemma py_split_append_word:
  assumes "space_free t" and "s = [] \<or> is_space (hd s)"
  shows "py_split (t @ s) = t # py_split s"
proof -
  obtain c cs where t: "t = c # cs" using assms(1) by (cases t) (auto simp: space_free_iff)
  have nc: "\<forall>x\<in>set cs. \<not> is_space x" "\<not> is_space c" using assms(1) t by (auto simp: space_free_iff)
  have "takeWhile (\<lambda>x. \<not> is_space x) (cs @ s) = cs"
    using nc assms(2) by (cases s) (auto simp: takeWhile_append2)
  moreover have "dropWhile (\<lambda>x. \<not> is_space x) (cs @ s) = s"
    using nc assms(2) by (cases s) (auto simp: dropWhile_append2)
  ultimately show ?thesis using nc t by simp
qed

lemma join_space_Cons: "ts \<noteq> [] \<Longrightarrow> join_space (t # ts) = t @ 32 # join_space ts"
  by (cases ts) auto

lemma is_space_32 [simp]: "is_space 32"
  by (simp add: is_space_def)

lemma split_join_space: "\<forall>t\<in>set ts. space_free t \<Longrightarrow> py_split (join_space ts) = ts"
proof (induction ts rule: join_space.induct)
  case (2 t)
  then show ?case using py_split_append_word [of t "[]"] by simp
next
  case (3 t u ts)
  then have "py_split (t @ 32 # join_space (u # ts)) = t # py_split (32 # join_space (u # ts))"
    by (intro py_split_append_word) auto
  with 3 show ?case by simp
qed simp

subsection \<open>Lowering\<close>

lemma is_space_cases:
  "is_space c \<Longrightarrow> c \<le> 32 \<or> c = 133 \<or> c = 160 \<or> (5760 \<le> c \<and> c \<le> 8287) \<or> c = 12288"
  unfolding is_space_def by linarith

lemma is_space_points: "is_space c \<longleftrightarrow> c \<in> set space_points"
  unfolding space_points_def is_space_def by (auto simp del: upt_rec_numeral)

text \<open>Checked on the tables: no whitespace code point is a word character, cased,
  case-ignorable or changed by lowering, and no lowercase form is whitespace.\<close>

lemma space_points_props:
  "list_all (\<lambda>c. lower_cps c = [c] \<and> \<not> py_word_char c \<and> \<not> is_cased c \<and> \<not> is_case_ignorable c)
     space_points"
  by (simp add: space_points_def eval_simps)

lemma runs_no_space_if: "runs_no_space x \<Longrightarrow> runs_no_space y \<Longrightarrow> runs_no_space (if P then x else y)"
  by simp

lemma lower_block_no_space: "runs_no_space (lower_block c)"
  unfolding lower_block_def by (intro runs_no_space_if) (simp_all add: runs_no_space_def space_points_def)

lemma space_props:
  "is_space c \<Longrightarrow> lower_cps c = [c] \<and> \<not> py_word_char c \<and> \<not> is_cased c \<and> \<not> is_case_ignorable c"
  using space_points_props by (simp add: is_space_points list_all_iff)

lemma lower_cps_space: "is_space c \<Longrightarrow> lower_cps c = [c]"
  and py_word_char_not_space: "py_word_char c \<Longrightarrow> \<not> is_space c"
  using space_props by auto

lemma lower_lookup_Some:
  "lower_lookup c rs = Some d \<Longrightarrow>
   \<exists>a b step t. (a, b, step, t) \<in> set rs \<and> a \<le> c \<and> c \<le> b \<and> (c - a) mod step = 0 \<and> d = t + (c - a)"
proof (induction c rs rule: lower_lookup.induct)
  case (2 c a b step t rs)
  have a: "\<not> c < a" using "2.prems" by (auto split: if_splits)
  show ?case
  proof (cases "c \<le> b \<and> (c - a) mod step = 0")
    case True
    with a "2.prems" have "d = t + (c - a)" by simp
    with a True show ?thesis by (intro exI [of _ a] exI [of _ b] exI [of _ step] exI [of _ t]) simp
  next
    case False
    with a "2.prems" have "lower_lookup c rs = Some d" by (simp del: mod_eq_0_iff_dvd)
    from "2.IH" [OF a False this] show ?thesis
      apply (elim exE conjE)
      subgoal for a' b' s' t'
        by (intro exI [of _ a'] exI [of _ b'] exI [of _ s'] exI [of _ t']) simp
      done
  qed
qed simp

text \<open>Where a lowercase code point comes from: U+0130, the code point itself, or a run
  of the block of the table in which it lies.\<close>

lemma lower_cps_cases:
  assumes "d \<in> set (lower_cps c)"
  obtains "c = 304" "d = 105 \<or> d = 775"
  | "c \<noteq> 304" "d = c" "lower_cps c = [c]"
  | a b step t where "(a, b, step, t) \<in> set (lower_block c)" "a \<le> c" "c \<le> b"
      "(c - a) mod step = 0" "d = t + (c - a)"
proof (cases "c = 304")
  case False
  show ?thesis
  proof (cases "lower_lookup c (lower_block c)")
    case None
    with False assms that(2) show ?thesis by (simp add: lower_cps_def)
  next
    case (Some d')
    with False assms have d: "d = d'" by (simp add: lower_cps_def)
    from lower_lookup_Some [OF Some] show ?thesis
    proof (elim exE conjE)
      fix a b step t
      assume m: "(a, b, step, t) \<in> set (lower_block c)" "a \<le> c" "c \<le> b" "(c - a) mod step = 0"
        and e: "d' = t + (c - a)"
      show ?thesis by (rule that(3) [OF m]) (simp only: d e)
    qed
  qed
qed (use assms that(1) in \<open>auto simp: lower_cps_def\<close>)

lemma lower_cps_nonspace: "\<not> is_space c \<Longrightarrow> d \<in> set (lower_cps c) \<Longrightarrow> \<not> is_space d"
proof -
  assume nc: "\<not> is_space c" and d: "d \<in> set (lower_cps c)"
  from d show ?thesis
  proof (cases rule: lower_cps_cases)
    case (3 a b step t)
    then have "t \<le> d" "d \<le> t + (b - a)" by simp_all
    with 3 lower_block_no_space [of c] show ?thesis
      unfolding runs_no_space_def by (fastforce simp: is_space_points list_all_iff)
  qed (use nc in \<open>auto simp: is_space_def\<close>)
qed

lemma lower_cps_nonempty [simp]: "lower_cps c \<noteq> []"
  by (simp add: lower_cps_def split: option.split)

lemma runs_fixed_if: "runs_fixed x \<Longrightarrow> runs_fixed y \<Longrightarrow> runs_fixed (if P then x else y)"
  by simp

lemma lower_block_fixed: "runs_fixed (lower_block c)"
  unfolding lower_block_def by (intro runs_fixed_if) (simp_all add: runs_fixed_def eval_simps)

text \<open>Lowering is closed: every code point \<open>lower()\<close> yields is its own lowercase
  form.\<close>

lemma lower_cps_points:
  "lower_cps 105 = [105]" "lower_cps 775 = [775]" "lower_cps 931 = [963]"
  "lower_cps 962 = [962]" "lower_cps 963 = [963]"
  by (simp_all add: eval_simps)

lemma lower_cps_fixed:
  assumes "d \<in> set (lower_cps c)"
  shows "lower_cps d = [d]"
  using assms
proof (cases rule: lower_cps_cases)
  case 1
  from \<open>d = 105 \<or> d = 775\<close> show ?thesis by (elim disjE) (simp_all only: lower_cps_points)
next
  case (3 a b step t)
  have "list_all (\<lambda>(a, b, step, t).
      list_all (\<lambda>i. i mod step \<noteq> 0 \<or> lower_cps (t + i) = [t + i]) [0..<Suc (b - a)]) (lower_block c)"
    using lower_block_fixed [of c] by (simp only: runs_fixed_def)
  with 3(1) have "\<forall>i\<in>set [0..<Suc (b - a)]. i mod step \<noteq> 0 \<or> lower_cps (t + i) = [t + i]"
    by (fastforce simp: list_all_iff)
  moreover have "c - a \<in> set [0..<Suc (b - a)]" using 3 by auto
  ultimately have "(c - a) mod step \<noteq> 0 \<or> lower_cps (t + (c - a)) = [t + (c - a)]" by (rule bspec)
  with 3(4,5) show ?thesis by (simp only: simp_thms)
qed simp

text \<open>The sigma context: what precedes a position matters only through
  \<open>sigma_cased_before\<close>, and a whitespace code point ends the context on both sides.\<close>

lemma sigma_cased_before_Cons:
  "sigma_cased_before (c # b) = (if is_case_ignorable c then sigma_cased_before b else is_cased c)"
  by (simp add: sigma_cased_before_def)

lemma lower_from_ctx: "sigma_cased_before b1 = sigma_cased_before b2 \<Longrightarrow> lower_from b1 s = lower_from b2 s"
proof (induction s arbitrary: b1 b2)
  case (Cons c cs)
  have "sigma_cased_before (c # b1) = sigma_cased_before (c # b2)"
    using Cons.prems by (simp add: sigma_cased_before_Cons)
  then have "lower_from (c # b1) cs = lower_from (c # b2) cs" by (rule Cons.IH)
  moreover have "final_sigma b1 cs = final_sigma b2 cs" using Cons.prems by (simp add: final_sigma_def)
  ultimately show ?case by simp
qed simp

lemma sigma_uncased_after_space:
  assumes "is_space sp"
  shows "sigma_uncased_after (xs @ sp # ys) = sigma_uncased_after xs"
proof -
  have sp: "\<not> is_cased sp" "\<not> is_case_ignorable sp" using space_props [OF assms] by auto
  show ?thesis
  proof (cases "\<forall>x\<in>set xs. is_case_ignorable x")
    case True
    then have "dropWhile is_case_ignorable (xs @ sp # ys) = sp # ys"
      using sp by (simp add: dropWhile_append2)
    moreover have "dropWhile is_case_ignorable xs = []" using True by simp
    ultimately show ?thesis using sp unfolding sigma_uncased_after_def by (simp del: dropWhile_eq_Nil_conv)
  next
    case False
    then obtain x where "x \<in> set xs" "\<not> is_case_ignorable x" by blast
    then have "dropWhile is_case_ignorable (xs @ sp # ys) = dropWhile is_case_ignorable xs @ sp # ys"
      by (rule dropWhile_append1)
    moreover have "dropWhile is_case_ignorable xs \<noteq> []" using False by simp
    ultimately show ?thesis unfolding sigma_uncased_after_def by (auto split: list.split)
  qed
qed

lemma lower_from_space_split:
  "is_space sp \<Longrightarrow> lower_from b (xs @ sp # ys) = lower_from b xs @ sp # lower_from [] ys"
proof (induction xs arbitrary: b)
  case Nil
  have "sigma_cased_before [sp] = sigma_cased_before []"
    using space_props [OF Nil.prems] by (simp add: sigma_cased_before_def)
  then have "lower_from [sp] ys = lower_from [] ys" by (rule lower_from_ctx)
  moreover have "sigma_cased_before (sp # b) = sigma_cased_before [sp]"
    using space_props [OF Nil.prems] by (simp add: sigma_cased_before_Cons)
  then have "lower_from (sp # b) ys = lower_from [sp] ys" by (rule lower_from_ctx)
  moreover have "sp \<noteq> 931" using Nil.prems by (auto simp: is_space_def)
  ultimately show ?case using space_props [OF Nil.prems] by simp
next
  case (Cons x xs)
  have "final_sigma b (xs @ sp # ys) = final_sigma b xs"
    using Cons.prems by (simp add: final_sigma_def sigma_uncased_after_space)
  moreover have "lower_from (x # b) (xs @ sp # ys) = lower_from (x # b) xs @ sp # lower_from [] ys"
    using Cons.prems by (rule Cons.IH)
  ultimately show ?case by simp
qed

lemma py_lower_Nil [simp]: "py_lower [] = []"
  by (simp add: py_lower_def)

lemma py_lower_space_split:
  "is_space sp \<Longrightarrow> py_lower (xs @ sp # ys) = py_lower xs @ sp # py_lower ys"
  by (simp add: py_lower_def lower_from_space_split)

lemma py_lower_space_Cons: "is_space sp \<Longrightarrow> py_lower (sp # ys) = sp # py_lower ys"
  using py_lower_space_split [of sp "[]" ys] by simp

lemma py_lower_nonempty: "s \<noteq> [] \<Longrightarrow> py_lower s \<noteq> []"
  by (cases s) (simp_all add: py_lower_def)

lemma lower_from_nonspace:
  "\<forall>c\<in>set s. \<not> is_space c \<Longrightarrow> \<forall>c\<in>set (lower_from b s). \<not> is_space c"
proof (induction s arbitrary: b)
  case (Cons c cs)
  have c: "\<not> is_space c" and cs: "\<forall>c\<in>set cs. \<not> is_space c" using Cons.prems by auto
  have "\<not> is_space 962" "\<not> is_space 963" by (simp_all add: is_space_def)
  then have "\<forall>d\<in>set (if c = 931 then [if final_sigma b cs then 962 else 963] else lower_cps c). \<not> is_space d"
    using lower_cps_nonspace [OF c] by auto
  with Cons.IH [OF cs, of "c # b"] show ?case by (simp only: lower_from.simps set_append ball_Un)
qed simp

lemma py_lower_nonspace:
  "\<forall>c\<in>set s. \<not> is_space c \<Longrightarrow> \<forall>c\<in>set (py_lower s). \<not> is_space c"
  unfolding py_lower_def by (rule lower_from_nonspace)

lemma lower_from_fixed: "d \<in> set (lower_from b s) \<Longrightarrow> lower_cps d = [d] \<and> d \<noteq> 931"
proof (induction s arbitrary: b)
  case (Cons c cs)
  let ?h = "if c = 931 then [if final_sigma b cs then 962 else 963] else lower_cps c"
  from Cons.prems have "d \<in> set ?h \<or> d \<in> set (lower_from (c # b) cs)"
    by (simp only: lower_from.simps set_append Un_iff)
  then show ?case
  proof
    assume h: "d \<in> set ?h"
    have "lower_cps d = [d]"
    proof (cases "c = 931")
      case True
      with h have "d = 962 \<or> d = 963" by (simp split: if_splits)
      then show ?thesis by (auto simp: lower_cps_points)
    next
      case False
      with h show ?thesis by (simp add: lower_cps_fixed)
    qed
    then show ?case using lower_cps_points(3) by auto
  qed (rule Cons.IH)
qed simp

lemma lower_from_id: "\<forall>d\<in>set s. lower_cps d = [d] \<and> d \<noteq> 931 \<Longrightarrow> lower_from b s = s"
  by (induction s arbitrary: b) simp_all

lemma lower_from_lower_from: "lower_from b' (lower_from b s) = lower_from b s"
  using lower_from_fixed by (blast intro: lower_from_id)

lemma mem_lower_from: "c \<in> set s \<Longrightarrow> lower_cps c = [c] \<Longrightarrow> c \<noteq> 931 \<Longrightarrow> c \<in> set (lower_from b s)"
  by (induction s arbitrary: b) auto

text \<open>C15: \<open>str.lower()\<close> is idempotent on every string: lowering a lowered string
  changes nothing, over the whole Unicode table, with the final-sigma rule and the
  two-code-point lowercase form of U+0130.\<close>

theorem py_lower_idempotent: "py_lower (py_lower s) = py_lower s"
  unfolding py_lower_def by (rule lower_from_lower_from)

end
