(* ===== verification/Normalizer.thy ===== *)
theory Normalizer
  imports PyStr
begin

text \<open>
  The Normalizer: \<open>clean_text\<close> of \<open>src/keyboard_suggestion/amazigh/pipeline.py\<close>
  (lines 8--15), six \<open>re.sub\<close> calls and a \<open>strip()\<close>. \<open>re_sub m r s\<close> is Python's
  \<open>re.sub\<close> for a pattern that never matches the empty string: it scans \<open>s\<close> from the
  left, and where the pattern matches at the current position it emits the replacement
  \<open>r\<close> and resumes after the match, else it keeps the character and moves on. A pattern
  is given by its matcher: \<open>m c cs\<close> is \<open>None\<close> when the pattern does not match at a
  position holding \<open>c\<close> followed by \<open>cs\<close>, and \<open>Some k\<close> when the match is \<open>c\<close> and
  the next \<open>k\<close> characters (leftmost match, with the regex's greedy or lazy choice).
  The lemmas show that the output holds only allowed characters, single spaces and no
  leading or trailing space, that such text is left unchanged (so \<open>clean_text\<close> is
  idempotent), that a disallowed character between two clean words splits them, and
  that the scan for \<open>\s+\<close> equals a reference collapse of whitespace runs.
\<close>

subsection \<open>re.sub\<close>

function re_sub :: "(cp \<Rightarrow> pystr \<Rightarrow> nat option) \<Rightarrow> pystr \<Rightarrow> pystr \<Rightarrow> pystr" where
  "re_sub m r [] = []"
| "re_sub m r (c # cs) =
     (case m c cs of None \<Rightarrow> c # re_sub m r cs | Some k \<Rightarrow> r @ re_sub m r (drop k cs))"
  by pat_completeness auto
termination
  by (relation "measure (\<lambda>(m, r, s). length s)") auto

subsection \<open>The patterns of lines 9--14\<close>

text \<open>\<open><[^>]+>\<close>: a \<open><\<close>, at least one character other than \<open>></\<close>, the first
  \<open>></\<close> after it.\<close>

definition match_tag :: "cp \<Rightarrow> pystr \<Rightarrow> nat option" where [eval_simps]:
  "match_tag c cs =
     (if c = 60 then
        (let k = length (takeWhile (\<lambda>x. x \<noteq> 62) cs) in
         if 0 < k \<and> k < length cs then Some (Suc k) else None)
      else None)"

text \<open>Position of the first occurrence of the two characters \<open>a b\<close>.\<close>

fun find_pair :: "cp \<Rightarrow> cp \<Rightarrow> pystr \<Rightarrow> nat option" where
  "find_pair a b (x # y # r) =
     (if x = a \<and> y = b then Some 0 else map_option Suc (find_pair a b (y # r)))"
| "find_pair a b _ = None"

text \<open>\<open>\{\{.*?\}\}\<close> with \<open>re.DOTALL\<close>: \<open>{{\<close>, then the shortest text (newlines
  included) up to the first \<open>}}\<close>.\<close>

definition match_template :: "cp \<Rightarrow> pystr \<Rightarrow> nat option" where [eval_simps]:
  "match_template c cs =
     (if c = 123 \<and> cs \<noteq> [] \<and> hd cs = 123
      then map_option (\<lambda>i. i + 3) (find_pair 125 125 (tl cs)) else None)"

text \<open>\<open>\[\[.*?\]\]\<close> without \<open>DOTALL\<close>: the lazy \<open>.*?\<close> cannot cross a newline,
  so the match fails when a newline comes before the first \<open>]]\<close>.\<close>

definition match_internal_link :: "cp \<Rightarrow> pystr \<Rightarrow> nat option" where [eval_simps]:
  "match_internal_link c cs =
     (if c = 91 \<and> cs \<noteq> [] \<and> hd cs = 91 then
        (case find_pair 93 93 (tl cs) of
           None \<Rightarrow> None
         | Some i \<Rightarrow> if 10 \<in> set (take i (tl cs)) then None else Some (i + 3))
      else None)"

text \<open>\<open>\[https?:\/\/[^\]]*\]\<close>: \<open>[\<close>, \<open>https://\<close> or \<open>http://\<close>, then everything
  up to the first \<open>]\<close>.\<close>

definition match_external_link :: "cp \<Rightarrow> pystr \<Rightarrow> nat option" where [eval_simps]:
  "match_external_link c cs =
     (if c = 91 then
        (case (if take 8 cs = ascii ''https://'' then Some 8
               else if take 7 cs = ascii ''http://'' then Some 7 else None) of
           None \<Rightarrow> None
         | Some j \<Rightarrow>
             (let rest = drop j cs; k = length (takeWhile (\<lambda>x. x \<noteq> 93) rest) in
              if k < length rest then Some (j + k + 1) else None))
      else None)"

text \<open>The class of line 13, \<open>0-9A-Za-z\u0600-\u06FF\u2D30-\u2D7F\<close>, the right
  single quote (8217), the apostrophe, the modifier letter left half ring (703),
  \<open>_\<close>, \<open>-\<close> and \<open>\s\<close>: ASCII digits and letters, the Arabic block, the
  Tifinagh block, three quote marks, underscore, hyphen and whitespace.\<close>

definition allowed_char :: "cp \<Rightarrow> bool" where [eval_simps]:
  "allowed_char c \<longleftrightarrow>
     (48 \<le> c \<and> c \<le> 57) \<or> (65 \<le> c \<and> c \<le> 90) \<or> (97 \<le> c \<and> c \<le> 122) \<or>
     (1536 \<le> c \<and> c \<le> 1791) \<or> (11568 \<le> c \<and> c \<le> 11647) \<or>
     c = 8217 \<or> c = 39 \<or> c = 703 \<or> c = 95 \<or> c = 45 \<or> is_space c"

text \<open>Line 13 replaces each character outside the class by a space.\<close>

definition match_disallowed :: "cp \<Rightarrow> pystr \<Rightarrow> nat option" where [eval_simps]:
  "match_disallowed c cs = (if allowed_char c then None else Some 0)"

text \<open>\<open>\s+\<close>: a maximal run of whitespace.\<close>

definition match_spaces :: "cp \<Rightarrow> pystr \<Rightarrow> nat option" where [eval_simps]:
  "match_spaces c cs = (if is_space c then Some (length (takeWhile is_space cs)) else None)"

definition clean_text :: "pystr \<Rightarrow> pystr" where [eval_simps]:
  "clean_text text =
     (let text = re_sub match_tag [32] text;
          text = re_sub match_template [32] text;
          text = re_sub match_internal_link [32] text;
          text = re_sub match_external_link [32] text;
          text = re_sub match_disallowed [32] text;
          text = py_strip (re_sub match_spaces [32] text)
      in text)"

subsection \<open>The shape of clean text\<close>

fun no_ws_run :: "pystr \<Rightarrow> bool" where
  "no_ws_run (a # b # r) = (\<not> (is_space a \<and> is_space b) \<and> no_ws_run (b # r))"
| "no_ws_run _ = True"

definition clean_char :: "cp \<Rightarrow> bool" where [eval_simps]:
  "clean_char c \<longleftrightarrow> allowed_char c \<and> (is_space c \<longrightarrow> c = 32)"

text \<open>Text as \<open>clean_text\<close> leaves it: allowed characters only, the only whitespace
  the plain space, never two spaces in a row, no space at either end.\<close>

definition normalized :: "pystr \<Rightarrow> bool" where [eval_simps]:
  "normalized t \<longleftrightarrow>
     list_all clean_char t \<and> no_ws_run t \<and>
     (t \<noteq> [] \<longrightarrow> \<not> is_space (hd t) \<and> \<not> is_space (last t))"

text \<open>A reference for \<open>re.sub(r'\s+', ' ', text)\<close>, stated on adjacent pairs
  instead of matches: every whitespace character becomes a space, and a whitespace
  character directly followed by another one is dropped.\<close>

fun collapse_ws :: "pystr \<Rightarrow> pystr" where
  "collapse_ws (a # b # r) =
     (if is_space a \<and> is_space b then collapse_ws (b # r)
      else (if is_space a then 32 else a) # collapse_ws (b # r))"
| "collapse_ws [a] = [if is_space a then 32 else a]"
| "collapse_ws [] = []"

subsection \<open>re.sub and the individual patterns\<close>

lemma re_sub_no_match: "\<forall>c\<in>set s. \<forall>cs. m c cs = None \<Longrightarrow> re_sub m r s = s"
  by (induction s) auto

lemma re_sub_prefix_no_match:
  "\<forall>x\<in>set u. \<forall>cs. m x cs = None \<Longrightarrow> re_sub m r (u @ w) = u @ re_sub m r w"
  by (induction u) auto

lemma re_sub_around:
  "\<forall>x\<in>set u. \<forall>cs. m x cs = None \<Longrightarrow> \<forall>x\<in>set v. \<forall>cs. m x cs = None \<Longrightarrow> m c v = None \<Longrightarrow>
   re_sub m r (u @ c # v) = u @ c # v"
  by (simp add: re_sub_prefix_no_match re_sub_no_match)

lemma set_re_sub: "set (re_sub m r s) \<subseteq> set s \<union> set r"
proof (induction m r s rule: re_sub.induct)
  case (2 m r c cs)
  then show ?case by (fastforce split: option.splits dest: in_set_dropD)
qed simp

lemma re_sub_disallowed: "re_sub match_disallowed [32] s = map (\<lambda>c. if allowed_char c then c else 32) s"
  by (induction s) (simp_all add: match_disallowed_def)

lemma re_sub_spaces_Cons:
  "re_sub match_spaces [32] (c # cs) =
     (if is_space c then 32 # re_sub match_spaces [32] (dropWhile is_space cs)
      else c # re_sub match_spaces [32] cs)"
  by (simp add: match_spaces_def dropWhile_eq_drop)

lemma no_ws_run_Cons: "no_ws_run (a # t) \<longleftrightarrow> no_ws_run t \<and> (t \<noteq> [] \<longrightarrow> \<not> (is_space a \<and> is_space (hd t)))"
  by (cases t) auto

lemma no_ws_run_append: "no_ws_run (xs @ ys) \<Longrightarrow> no_ws_run xs \<and> no_ws_run ys"
  by (induction xs) (auto simp: no_ws_run_Cons)

lemma collapse_ws_nonspace_Cons: "\<not> is_space c \<Longrightarrow> collapse_ws (c # cs) = c # collapse_ws cs"
  by (cases cs) simp_all

lemma no_ws_run_join:
  "no_ws_run xs \<Longrightarrow> no_ws_run ys \<Longrightarrow> xs \<noteq> [] \<Longrightarrow> \<not> is_space (last xs) \<Longrightarrow> no_ws_run (xs @ ys)"
proof (induction xs)
  case (Cons a xs)
  show ?case
  proof (cases "xs = []")
    case True
    with Cons.prems show ?thesis by (simp add: no_ws_run_Cons)
  next
    case False
    with Cons have "no_ws_run (xs @ ys)" by (simp add: no_ws_run_Cons)
    with Cons.prems False show ?thesis by (simp add: no_ws_run_Cons)
  qed
qed simp

lemma hd_dropWhile_not: "dropWhile P xs \<noteq> [] \<Longrightarrow> \<not> P (hd (dropWhile P xs))"
  by (induction xs) auto

lemma re_sub_spaces_hd:
  "s \<noteq> [] \<Longrightarrow> re_sub match_spaces [32] s \<noteq> [] \<and>
     is_space (hd (re_sub match_spaces [32] s)) = is_space (hd s)"
  by (cases s) (simp_all add: re_sub_spaces_Cons del: re_sub.simps(2))

lemma re_sub_spaces_shape:
  "m = match_spaces \<Longrightarrow> r = [32] \<Longrightarrow>
   no_ws_run (re_sub m r s) \<and> (\<forall>c\<in>set (re_sub m r s). is_space c \<longrightarrow> c = 32)"
proof (induction m r s rule: re_sub.induct)
  case (2 m r c cs)
  from "2.prems" have m: "m = match_spaces" and r: "r = [32]" .
  show ?case
  proof (cases "is_space c")
    case True
    let ?t = "re_sub match_spaces [32] (dropWhile is_space cs)"
    have "m c cs = Some (length (takeWhile is_space cs))"
      using True by (simp add: m match_spaces_def)
    from "2.IH"(2) [OF this m r] have IH: "no_ws_run ?t \<and> (\<forall>c\<in>set ?t. is_space c \<longrightarrow> c = 32)"
      by (simp add: m r dropWhile_eq_drop)
    have "?t \<noteq> [] \<Longrightarrow> \<not> is_space (hd ?t)"
    proof -
      assume "?t \<noteq> []"
      then have "dropWhile is_space cs \<noteq> []" by (metis re_sub.simps(1))
      with re_sub_spaces_hd [OF this] hd_dropWhile_not [OF this] show ?thesis by simp
    qed
    with IH True show ?thesis by (simp add: m r re_sub_spaces_Cons no_ws_run_Cons del: re_sub.simps(2))
  next
    case False
    then have "m c cs = None" by (simp add: m match_spaces_def)
    from "2.IH"(1) [OF this m r] False show ?thesis
      by (simp add: m r re_sub_spaces_Cons no_ws_run_Cons del: re_sub.simps(2))
  qed
qed simp

lemma collapse_ws_space: "is_space c \<Longrightarrow> collapse_ws (c # cs) = 32 # collapse_ws (dropWhile is_space cs)"
proof (induction cs arbitrary: c)
  case (Cons b r)
  then show ?case by (cases "is_space b") (simp_all add: collapse_ws_nonspace_Cons)
qed simp

lemma re_sub_spaces_id:
  "\<forall>c\<in>set t. is_space c \<longrightarrow> c = 32 \<Longrightarrow> no_ws_run t \<Longrightarrow> re_sub match_spaces [32] t = t"
proof (induction t)
  case (Cons c cs)
  have "is_space c \<Longrightarrow> dropWhile is_space cs = cs"
    using Cons.prems(2) by (cases cs) (auto simp: no_ws_run_Cons)
  with Cons show ?case by (auto simp: re_sub_spaces_Cons no_ws_run_Cons simp del: re_sub.simps(2))
qed simp

subsection \<open>strip()\<close>

lemma rev_dropWhile_rev_append:
  "rev (dropWhile P (rev w)) @ rev (takeWhile P (rev w)) = w"
  by (simp flip: rev_append)

lemma py_strip_infix: "\<exists>p q. s = p @ py_strip s @ q"
proof (intro exI)
  let ?w = "dropWhile is_space s"
  show "s = takeWhile is_space s @ py_strip s @ rev (takeWhile is_space (rev ?w))"
    unfolding py_strip_def rev_dropWhile_rev_append by simp
qed

lemma dropWhile_hd_id: "xs = [] \<or> \<not> P (hd xs) \<Longrightarrow> dropWhile P xs = xs"
  by (cases xs) auto

lemma py_strip_ends:
  "py_strip s \<noteq> [] \<Longrightarrow> \<not> is_space (hd (py_strip s)) \<and> \<not> is_space (last (py_strip s))"
proof -
  assume ne: "py_strip s \<noteq> []"
  let ?w = "dropWhile is_space s"
  have w: "?w = py_strip s @ rev (takeWhile is_space (rev ?w))"
    unfolding py_strip_def rev_dropWhile_rev_append ..
  with ne have "?w \<noteq> []" by (metis Nil_is_append_conv)
  then have "\<not> is_space (hd ?w)" by (rule hd_dropWhile_not)
  with w ne have "\<not> is_space (hd (py_strip s))" by (metis hd_append2)
  moreover have "\<not> is_space (last (py_strip s))"
    using ne hd_dropWhile_not [of is_space "rev ?w"] unfolding py_strip_def
    by (simp add: last_rev)
  ultimately show ?thesis by simp
qed

lemma py_strip_id:
  assumes "t = [] \<or> \<not> is_space (hd t) \<and> \<not> is_space (last t)"
  shows "py_strip t = t"
proof -
  have "dropWhile is_space t = t" using assms by (intro dropWhile_hd_id) auto
  moreover have "dropWhile is_space (rev t) = rev t" using assms by (intro dropWhile_hd_id) (auto simp: hd_rev)
  ultimately show ?thesis by (simp add: py_strip_def)
qed

lemma allowed_char_32 [simp]: "allowed_char 32"
  by (simp add: allowed_char_def)

subsection \<open>Output shape and fixed points\<close>

lemma normalized_clean_text: "normalized (clean_text s)"
proof -
  define u where "u = re_sub match_disallowed [32] (re_sub match_external_link [32]
    (re_sub match_internal_link [32] (re_sub match_template [32] (re_sub match_tag [32] s))))"
  define v where "v = re_sub match_spaces [32] u"
  have u: "\<forall>c\<in>set u. allowed_char c"
    unfolding u_def re_sub_disallowed by auto
  have v: "no_ws_run v \<and> (\<forall>c\<in>set v. is_space c \<longrightarrow> c = 32)"
    unfolding v_def by (rule re_sub_spaces_shape) simp_all
  have "\<forall>c\<in>set v. allowed_char c"
    using set_re_sub [of match_spaces "[32]" u] u unfolding v_def by auto
  with v have cv: "\<forall>c\<in>set v. clean_char c" by (simp add: clean_char_def)
  obtain p q where pq: "v = p @ py_strip v @ q" using py_strip_infix by blast
  then have "set (py_strip v) \<subseteq> set v" by (metis set_append Un_upper1 Un_upper2 subset_trans)
  moreover have "no_ws_run (py_strip v)" using v pq by (metis no_ws_run_append)
  ultimately have "normalized (py_strip v)"
    using cv py_strip_ends [of v] by (auto simp: normalized_def list_all_iff)
  then show ?thesis by (simp add: clean_text_def u_def v_def Let_def)
qed

lemma allowed_char_special: "allowed_char c \<Longrightarrow> c \<noteq> 60 \<and> c \<noteq> 123 \<and> c \<noteq> 91"
  unfolding allowed_char_def using is_space_cases [of c] by auto

lemma matchers_allowed:
  assumes "allowed_char c"
  shows "match_tag c cs = None" "match_template c cs = None" "match_internal_link c cs = None"
    "match_external_link c cs = None" "match_disallowed c cs = None"
  using allowed_char_special [OF assms] assms
  by (simp_all add: match_tag_def match_template_def match_internal_link_def
      match_external_link_def match_disallowed_def)

text \<open>The last two steps of \<open>clean_text\<close> leave normalized text unchanged.\<close>

lemma spaces_strip_normalized: "normalized t \<Longrightarrow> py_strip (re_sub match_spaces [32] t) = t"
proof -
  assume n: "normalized t"
  then have cc: "\<forall>c\<in>set t. clean_char c" by (simp add: normalized_def list_all_iff)
  have "re_sub match_spaces [32] t = t"
    using n cc by (intro re_sub_spaces_id) (auto simp: normalized_def clean_char_def)
  moreover have "py_strip t = t" using n by (intro py_strip_id) (auto simp: normalized_def)
  ultimately show ?thesis by simp
qed

lemma clean_text_normalized_id: "normalized t \<Longrightarrow> clean_text t = t"
proof -
  assume n: "normalized t"
  then have "\<forall>c\<in>set t. allowed_char c" by (simp add: normalized_def list_all_iff clean_char_def)
  then have pre: "re_sub match_disallowed [32] (re_sub match_external_link [32]
    (re_sub match_internal_link [32] (re_sub match_template [32] (re_sub match_tag [32] t)))) = t"
    by (simp add: re_sub_no_match matchers_allowed)
  show ?thesis using pre spaces_strip_normalized [OF n] by (simp add: clean_text_def Let_def)
qed

lemma normalized_join:
  "normalized u \<Longrightarrow> normalized v \<Longrightarrow> u \<noteq> [] \<Longrightarrow> v \<noteq> [] \<Longrightarrow> normalized (u @ 32 # v)"
proof -
  assume u: "normalized u" and v: "normalized v" and ne: "u \<noteq> []" "v \<noteq> []"
  have "no_ws_run (32 # v)" using v ne(2) by (simp add: normalized_def no_ws_run_Cons)
  then have "no_ws_run (u @ 32 # v)"
    using u ne(1) by (intro no_ws_run_join) (simp_all add: normalized_def)
  moreover have "clean_char 32" by (simp add: clean_char_def)
  ultimately show ?thesis using u v ne by (simp add: normalized_def)
qed

text \<open>After clean text no markup pattern can match: none of the closing characters
  \<open>></\<close>, \<open>}\<close>, \<open>]\<close>, \<open>:\<close> nor the openers \<open>{\<close>, \<open>[\<close> is allowed.\<close>

lemma markup_no_match:
  assumes "\<forall>x\<in>set v. allowed_char x"
  shows "match_tag c v = None \<and> match_template c v = None \<and> match_internal_link c v = None \<and>
    match_external_link c v = None"
proof -
  have na: "\<not> allowed_char 62" "\<not> allowed_char 123" "\<not> allowed_char 91" "\<not> allowed_char 58"
    by (simp_all add: allowed_char_def is_space_def)
  then have n: "62 \<notin> set v" "123 \<notin> set v" "91 \<notin> set v" "58 \<notin> set v" using assms by blast+
  then have tw: "takeWhile (\<lambda>x. x \<noteq> 62) v = v" by (auto simp: takeWhile_eq_all_conv)
  have hd: "v \<noteq> [] \<Longrightarrow> hd v \<noteq> 123 \<and> hd v \<noteq> 91" using n hd_in_set by metis
  have "58 \<in> set (ascii ''https://'')" "58 \<in> set (ascii ''http://'')" by simp_all
  then have ext: "take 8 v \<noteq> ascii ''https://''" "take 7 v \<noteq> ascii ''http://''"
    using n(4) by (metis in_set_takeD)+
  have "match_tag c v = None" by (simp add: match_tag_def Let_def tw)
  moreover have "match_template c v = None" using hd by (auto simp: match_template_def)
  moreover have "match_internal_link c v = None" using hd by (auto simp: match_internal_link_def)
  moreover have "match_external_link c v = None" using ext by (simp add: match_external_link_def)
  ultimately show ?thesis by simp
qed

subsection \<open>Properties of clean_text\<close>

text \<open>C9: The output of \<open>clean_text\<close> holds only characters of the allowed class, its
  only whitespace is the plain space, it never has two whitespace characters in a row,
  and \<open>strip()\<close> leaves it unchanged (no space at either end).\<close>

theorem clean_text_output_clean:
  "(\<forall>c\<in>set (clean_text s). allowed_char c \<and> (is_space c \<longrightarrow> c = 32)) \<and>
   no_ws_run (clean_text s) \<and> py_strip (clean_text s) = clean_text s"
  using normalized_clean_text [of s]
  by (auto simp: normalized_def list_all_iff clean_char_def intro: py_strip_id)

text \<open>C8: \<open>clean_text\<close> is idempotent: cleaning clean text changes nothing.\<close>

theorem clean_text_idempotent: "clean_text (clean_text s) = clean_text s"
  by (rule clean_text_normalized_id [OF normalized_clean_text])

text \<open>C10: The texts \<open>clean_text\<close> leaves unchanged are exactly the normalized ones, so
  \<open>normalized\<close> describes its image precisely.\<close>

theorem clean_text_fixpoints: "clean_text t = t \<longleftrightarrow> normalized t"
  by (metis clean_text_normalized_id normalized_clean_text)

text \<open>Markup is removed: HTML tags, a template spanning a line break, an internal
  link and an external link each become a space, and the spaces collapse.\<close>

theorem clean_text_markup_example:
  "clean_text (ascii ''<b>Hi</b> {{tpl'' @ [10] @ ascii '' x}} [[Link]] [https://a.b c] ok'') =
   ascii ''Hi ok''"
  by (simp add: eval_simps)

text \<open>C16: A character outside the allowed class between two clean words splits them:
  it becomes a space, whatever character it is (markup openers included, since no
  closing bracket can follow in clean text). Kabyle in Latin script is cut this way at
  every Berber Latin letter, none of which the class admits.\<close>

theorem clean_text_splits_at_disallowed:
  assumes "normalized u" "normalized v" "u \<noteq> []" "v \<noteq> []" "\<not> allowed_char c"
  shows "clean_text (u @ c # v) = u @ 32 # v"
proof -
  have au: "\<forall>x\<in>set u. allowed_char x" and av: "\<forall>x\<in>set v. allowed_char x"
    using assms(1,2) by (auto simp: normalized_def list_all_iff clean_char_def)
  have t: "re_sub m [32] (u @ c # v) = u @ c # v"
    if "m \<in> {match_tag, match_template, match_internal_link, match_external_link}" for m
    using that au av markup_no_match [OF av, of c] matchers_allowed by (auto intro!: re_sub_around)
  have "re_sub match_external_link [32] (re_sub match_internal_link [32]
          (re_sub match_template [32] (re_sub match_tag [32] (u @ c # v)))) = u @ c # v"
    by (simp add: t)
  moreover have "re_sub match_disallowed [32] (u @ c # v) = u @ 32 # v"
    using au av assms(5) by (simp add: re_sub_disallowed map_idI)
  moreover have "normalized (u @ 32 # v)"
    using assms(1-4) by (rule normalized_join)
  ultimately show ?thesis using spaces_strip_normalized by (simp add: clean_text_def Let_def)
qed

text \<open>C35: On \<open>\s+\<close> the scan of \<open>re.sub\<close> resumes after the whole match, so it
  agrees with the reference collapse that turns every whitespace character into a space
  and drops a whitespace character that follows another one.\<close>

theorem re_sub_spaces_collapse: "re_sub match_spaces [32] s = collapse_ws s"
proof (induction s rule: length_induct)
  case (1 s)
  show ?case
  proof (cases s)
    case (Cons c cs)
    show ?thesis
    proof (cases "is_space c")
      case True
      have "length (dropWhile is_space cs) < length s" using Cons by (simp add: le_imp_less_Suc length_dropWhile_le)
      with "1.IH" True Cons show ?thesis by (simp add: re_sub_spaces_Cons collapse_ws_space del: re_sub.simps(2))
    next
      case False
      with "1.IH" Cons show ?thesis by (simp add: re_sub_spaces_Cons collapse_ws_nonspace_Cons del: re_sub.simps(2))
    qed
  qed simp
qed

subsection \<open>Witnesses\<close>

lemma clean_text_output_clean_witness:
  "allowed_char 120 \<and> allowed_char 32 \<and> allowed_char 121 \<and>
   no_ws_run (ascii ''x y'') \<and> py_strip (ascii ''x y'') = ascii ''x y''"
proof -
  have h: "clean_text (ascii ''<i>x</i>  y'') = ascii ''x y''" by (simp add: eval_simps)
  show ?thesis using clean_text_output_clean [of "ascii ''<i>x</i>  y''"] unfolding h by simp
qed

lemma clean_text_fixpoints_witness:
  "clean_text (ascii ''ab c'') = ascii ''ab c'' \<and> normalized (ascii ''ab c'')"
proof -
  have h: "clean_text (ascii ''ab c'') = ascii ''ab c''" by (simp add: eval_simps)
  show ?thesis using clean_text_fixpoints [of "ascii ''ab c''"] h by simp
qed

text \<open>The Kabyle word \<open>a\<gamma>rum\<close> (bread), written with the Latin small gamma
  (U+0263), is cut in two.\<close>

lemma clean_text_splits_at_disallowed_witness:
  "normalized [97] \<and> normalized (ascii ''rum'') \<and> \<not> allowed_char 611 \<and>
   clean_text [97, 611, 114, 117, 109] = ascii ''a rum''"
proof -
  have h: "normalized [97]" "normalized (ascii ''rum'')" "\<not> allowed_char 611"
    by (simp_all add: eval_simps)
  from clean_text_splits_at_disallowed [OF h(1,2) _ _ h(3)] have
    "clean_text ([97] @ 611 # ascii ''rum'') = [97] @ 32 # ascii ''rum''" by simp
  with h show ?thesis by simp
qed

end
