(* ===== verification/Tokenizer.thy ===== *)
theory Tokenizer
  imports Normalizer
begin

text \<open>
  The two tokenisation policies and the sentence reader. \<open>tokenize\<close> is
  \<open>src/keyboard_suggestion/amazigh/pipeline.py\<close> lines 19--22 (lower-case, split on
  whitespace). \<open>simple_tokenize\<close> is \<open>src/keyboard_suggestion/ngrams_tp.py\<close> lines
  19--33: lower-case, split on whitespace, then \<open>re.findall(r'\w+|[^\w\s]', word)\<close> on each
  word (\<open>findall_word_punct\<close>) and a filter of blank tokens. \<open>process_text_to_tokens\<close>
  (lines 61--72) concatenates the tokens of all sentences; its \<open>try\<close> never fires since
  \<open>simple_tokenize\<close> is total. \<open>read_sentences_file\<close> (lines 42--59) reads the
  \<open>number TAB sentence\<close> format line by line.
\<close>

subsection \<open>Definitions\<close>

definition tokenize :: "pystr \<Rightarrow> pystr list" where [eval_simps]:
  "tokenize text = (let text = py_lower text; tokens = py_split text in tokens)"

text \<open>\<open>re.findall(r'\w+|[^\w\s]', word)\<close>: at each position a maximal run of word
  characters, else one character that is neither a word character nor whitespace, else
  no match and the scan moves on.\<close>

function findall_word_punct :: "pystr \<Rightarrow> pystr list" where
  "findall_word_punct [] = []"
| "findall_word_punct (c # cs) =
     (if py_word_char c
      then (c # takeWhile py_word_char cs) # findall_word_punct (dropWhile py_word_char cs)
      else if is_space c then findall_word_punct cs
      else [c] # findall_word_punct cs)"
  by pat_completeness auto
termination
  by (relation "measure length") auto

definition simple_tokenize :: "pystr \<Rightarrow> pystr list" where [eval_simps]:
  "simple_tokenize text =
     (let text = py_lower text;
          words = py_split text;
          tokens = concat (map findall_word_punct words)
      in filter (\<lambda>t. py_strip t \<noteq> []) tokens)"

definition process_text_to_tokens :: "pystr list \<Rightarrow> pystr list" where [eval_simps]:
  "process_text_to_tokens sentences = concat (map simple_tokenize sentences)"

text \<open>One line of the sentences file: stripped, skipped when blank, the text after the
  first tab when there is one, else the whole line.\<close>

definition sentence_of_line :: "pystr \<Rightarrow> pystr list" where [eval_simps]:
  "sentence_of_line raw =
     (let line = py_strip raw in
      if line = [] then []
      else (let parts = split_tab1 line in if 1 < length parts then [parts ! 1] else [line]))"

text \<open>A missing file gives no sentences (the \<open>FileNotFoundError\<close> is caught); a
  decoding error is not caught and propagates.\<close>

definition read_sentences_file :: "file_entry \<Rightarrow> py_error + pystr list" where [eval_simps]:
  "read_sentences_file f =
     (case f of
        Missing \<Rightarrow> Inr []
      | Undecodable \<Rightarrow> Inl UnicodeDecodeError
      | Text s \<Rightarrow> Inr (concat (map sentence_of_line (file_lines (universal_newlines s)))))"

text \<open>Text with plain single spaces and no space at its ends.\<close>

definition single_spaced :: "pystr \<Rightarrow> bool" where
  "single_spaced t \<longleftrightarrow> (\<forall>c\<in>set t. is_space c \<longrightarrow> c = 32) \<and> no_ws_run t \<and>
     (t \<noteq> [] \<longrightarrow> \<not> is_space (hd t) \<and> \<not> is_space (last t))"

subsection \<open>Whitespace tokenisation\<close>

lemma py_lower_takeWhile_nonspace:
  "\<forall>c\<in>set (py_lower (takeWhile (\<lambda>x. \<not> is_space x) cs)). \<not> is_space c"
  by (rule py_lower_nonspace) (auto dest: set_takeWhileD)

lemma py_lower_dropWhile_nonspace:
  "py_lower (dropWhile (\<lambda>x. \<not> is_space x) cs) = [] \<or>
   is_space (hd (py_lower (dropWhile (\<lambda>x. \<not> is_space x) cs)))"
proof (cases "dropWhile (\<lambda>x. \<not> is_space x) cs")
  case (Cons d ds)
  then have "is_space d" using hd_dropWhile_not [of "\<lambda>x. \<not> is_space x" cs] by auto
  with Cons show ?thesis by (simp add: py_lower_space_Cons)
qed (simp del: dropWhile_eq_Nil_conv)

lemma py_lower_word_rest:
  "py_lower (c # cs) =
   py_lower (c # takeWhile (\<lambda>x. \<not> is_space x) cs) @ py_lower (dropWhile (\<lambda>x. \<not> is_space x) cs)"
proof (cases "dropWhile (\<lambda>x. \<not> is_space x) cs")
  case Nil
  then have tw: "takeWhile (\<lambda>x. \<not> is_space x) cs = cs" by (metis takeWhile_dropWhile_id append_Nil2)
  show ?thesis by (simp only: tw Nil py_lower_Nil append_Nil2)
next
  case (Cons d ds)
  then have d: "is_space d" using hd_dropWhile_not [of "\<lambda>x. \<not> is_space x" cs] by auto
  have "cs = takeWhile (\<lambda>x. \<not> is_space x) cs @ d # ds" using Cons by (metis takeWhile_dropWhile_id)
  then have "py_lower (c # cs) = py_lower ((c # takeWhile (\<lambda>x. \<not> is_space x) cs) @ d # ds)" by simp
  also have "\<dots> = py_lower (c # takeWhile (\<lambda>x. \<not> is_space x) cs) @ d # py_lower ds"
    by (rule py_lower_space_split [OF d])
  finally show ?thesis using Cons d by (simp add: py_lower_space_Cons)
qed

lemma py_split_lower: "py_split (py_lower s) = map py_lower (py_split s)"
proof (induction s rule: py_split.induct)
  case (2 c cs)
  show ?case
  proof (cases "is_space c")
    case True
    then have "py_lower (c # cs) = c # py_lower cs" by (rule py_lower_space_Cons)
    moreover have "py_split (py_lower cs) = map py_lower (py_split cs)" by (rule "2.IH"(1) [OF True])
    ultimately show ?thesis using True by simp
  next
    case False
    let ?w = "takeWhile (\<lambda>x. \<not> is_space x) cs" and ?r = "dropWhile (\<lambda>x. \<not> is_space x) cs"
    have ns: "\<forall>x\<in>set (c # ?w). \<not> is_space x" using False by (auto dest: set_takeWhileD)
    have "py_lower (c # ?w) \<noteq> []" by (rule py_lower_nonempty) simp
    with py_lower_nonspace [OF ns] have sf: "space_free (py_lower (c # ?w))"
      by (simp add: space_free_iff)
    have "py_split (py_lower (c # ?w) @ py_lower ?r) = py_lower (c # ?w) # py_split (py_lower ?r)"
      using py_split_append_word [OF sf py_lower_dropWhile_nonspace [of cs]] .
    moreover have "py_split (py_lower ?r) = map py_lower (py_split ?r)" by (rule "2.IH"(2) [OF False])
    moreover have "py_split (c # cs) = (c # ?w) # py_split ?r" using False by simp
    ultimately show ?thesis by (simp only: py_lower_word_rest [of c cs] list.map)
  qed
qed simp

lemma join_space_map_lower: "join_space (map py_lower ts) = py_lower (join_space ts)"
  by (induction ts rule: join_space.induct) (simp_all add: py_lower_space_split)

lemma normalized_single_spaced: "normalized t \<Longrightarrow> single_spaced t"
  by (auto simp: normalized_def single_spaced_def list_all_iff clean_char_def)

lemma no_ws_run_suffix: "no_ws_run (xs @ ys) \<Longrightarrow> no_ws_run ys"
  using no_ws_run_append by blast

lemma join_space_py_split: "single_spaced t \<Longrightarrow> join_space (py_split t) = t"
proof (induction "length t" arbitrary: t rule: less_induct)
  case less
  show ?case
  proof (cases t)
    case (Cons c cs)
    note tc = this
    let ?w = "takeWhile (\<lambda>x. \<not> is_space x) cs" and ?r = "dropWhile (\<lambda>x. \<not> is_space x) cs"
    have c: "\<not> is_space c" using less.prems tc by (simp add: single_spaced_def)
    have t: "t = (c # ?w) @ ?r" using tc by simp
    show ?thesis
    proof (cases ?r)
      case Nil
      then have "?w = cs" by (metis takeWhile_dropWhile_id append_Nil2)
      with c tc Nil show ?thesis by (simp del: dropWhile_eq_Nil_conv)
    next
      case (Cons d r')
      note rd = this
      have d: "is_space d" using rd hd_dropWhile_not [of "\<lambda>x. \<not> is_space x" cs] by auto
      with less.prems t rd have d32: "d = 32" by (auto simp: single_spaced_def)
      have nr: "no_ws_run (d # r')"
        using less.prems t rd by (metis single_spaced_def no_ws_run_suffix)
      have "r' \<noteq> []"
        using less.prems t rd d by (auto simp: single_spaced_def)
      then have "\<not> is_space (hd r')" using nr d by (auto simp: no_ws_run_Cons)
      have ss: "single_spaced r'"
        using less.prems t rd \<open>r' \<noteq> []\<close> \<open>\<not> is_space (hd r')\<close> nr
        by (auto simp: single_spaced_def no_ws_run_Cons)
      have "length r' < length t" using t rd by simp
      then have IH: "join_space (py_split r') = r'" using less.hyps ss by blast
      have ne: "py_split r' \<noteq> []"
        using IH \<open>r' \<noteq> []\<close> by auto
      have sp: "py_split t = (c # ?w) # py_split r'" using c d tc rd by simp
      have "join_space (py_split t) = (c # ?w) @ 32 # r'"
        using sp IH ne by (simp add: join_space_Cons)
      also have "\<dots> = t" using t rd d32 by simp
      finally show ?thesis .
    qed
  qed simp
qed

subsection \<open>Word and punctuation tokenisation\<close>

lemma findall_parts:
  "p \<in> set (findall_word_punct w) \<Longrightarrow>
   (p \<noteq> [] \<and> (\<forall>c\<in>set p. py_word_char c)) \<or> (\<exists>c. p = [c] \<and> \<not> py_word_char c \<and> \<not> is_space c)"
  by (induction w rule: findall_word_punct.induct) (auto split: if_splits dest: set_takeWhileD)

lemma filter_takeWhile_implied: "\<forall>x. P x \<longrightarrow> Q x \<Longrightarrow> filter Q (takeWhile P xs) = takeWhile P xs"
  by (induction xs) auto

lemma concat_findall: "concat (findall_word_punct w) = filter (\<lambda>c. \<not> is_space c) w"
proof (induction w rule: findall_word_punct.induct)
  case (2 c cs)
  have "filter (\<lambda>c. \<not> is_space c) cs =
        takeWhile py_word_char cs @ filter (\<lambda>c. \<not> is_space c) (dropWhile py_word_char cs)"
    using filter_takeWhile_implied [of py_word_char "\<lambda>c. \<not> is_space c" cs] py_word_char_not_space
    by (metis filter_append takeWhile_dropWhile_id)
  with 2 show ?case by (auto simp: py_word_char_not_space)
qed simp

lemma findall_parts_strip: "p \<in> set (findall_word_punct w) \<Longrightarrow> py_strip p \<noteq> []"
proof -
  assume "p \<in> set (findall_word_punct w)"
  then have "p \<noteq> [] \<and> (\<forall>c\<in>set p. \<not> is_space c)"
    using findall_parts py_word_char_not_space by fastforce
  then show ?thesis using py_strip_id [of p] by (auto simp: last_in_set)
qed

text \<open>The filter of line 33 removes nothing: no part \<open>findall\<close> returns is blank.\<close>

lemma simple_tokenize_unfiltered:
  "simple_tokenize s = concat (map findall_word_punct (py_split (py_lower s)))"
  by (auto simp: simple_tokenize_def findall_parts_strip intro!: filter_True)

text \<open>Checked on the tables: the Arabic vowel marks are caseless, not word characters
  and not whitespace.\<close>

lemma arabic_marks_props:
  "list_all (\<lambda>c. lower_cps c = [c] \<and> \<not> py_word_char c \<and> \<not> is_space c) [1611..<1632]"
  by (simp add: eval_simps)

lemma py_strip_trailing:
  assumes "k \<noteq> []" "\<forall>x\<in>set k. \<not> is_space x" "\<forall>x\<in>set sp. is_space x"
  shows "py_strip (k @ sp) = k"
proof -
  have a: "dropWhile is_space (k @ sp) = k @ sp" using assms(1,2) by (intro dropWhile_hd_id) simp
  have r: "dropWhile is_space (rev k) = rev k"
    using assms(1,2) by (intro dropWhile_hd_id) (simp add: hd_rev)
  have b: "dropWhile is_space (rev sp @ rev k) = rev k"
    using assms(3) r by (subst dropWhile_append2) auto
  show ?thesis unfolding py_strip_def a rev_append b by simp
qed

subsection \<open>Properties of the tokenisers\<close>

text \<open>C14: Every token \<open>tokenize\<close> returns is non-empty and free of whitespace.\<close>

theorem tokenize_tokens_space_free:
  "t \<in> set (tokenize s) \<Longrightarrow> t \<noteq> [] \<and> (\<forall>c\<in>set t. \<not> is_space c)"
  using py_split_tokens [of t] by (simp add: tokenize_def space_free_iff)

text \<open>C11: On cleaned text, joining the tokens of \<open>tokenize\<close> with single spaces gives
  back the lower-cased text: tokenisation loses no character.\<close>

theorem tokenize_clean_text_roundtrip:
  "join_space (tokenize (clean_text s)) = py_lower (clean_text s)"
proof -
  have "single_spaced (clean_text s)"
    by (rule normalized_single_spaced [OF normalized_clean_text])
  then show ?thesis
    by (simp add: tokenize_def py_split_lower join_space_map_lower join_space_py_split)
qed

text \<open>C12: The tokens of \<open>simple_tokenize\<close>, concatenated, are the lower-cased text
  without its whitespace: no character is lost, reordered or added.\<close>

theorem simple_tokenize_chars:
  "concat (simple_tokenize s) = filter (\<lambda>c. \<not> is_space c) (py_lower s)"
proof -
  have "concat (simple_tokenize s) = concat (map (\<lambda>w. concat (findall_word_punct w)) (py_split (py_lower s)))"
    by (simp add: simple_tokenize_unfiltered concat_concat_map)
  also have "\<dots> = filter (\<lambda>c. \<not> is_space c) (concat (py_split (py_lower s)))"
    by (simp add: concat_findall filter_concat)
  finally show ?thesis by (simp add: concat_py_split)
qed

text \<open>C13: Every token of \<open>simple_tokenize\<close> is either a non-empty run of word
  characters or a single character that is neither a word character nor whitespace.
  The comment above the regex (ngrams_tp.py, line 30) speaks of sequences of non-word
  characters, but \<open>[^\w\s]\<close> matches one character, so \<open>!!\<close> gives two tokens.\<close>

theorem simple_tokenize_token_shape:
  "t \<in> set (simple_tokenize s) \<Longrightarrow>
   (t \<noteq> [] \<and> (\<forall>c\<in>set t. py_word_char c)) \<or> (\<exists>c. t = [c] \<and> \<not> py_word_char c \<and> \<not> is_space c)"
  by (auto simp: simple_tokenize_unfiltered dest: findall_parts)

text \<open>Punctuation becomes tokens of its own: \<open>Hello, World!\<close> gives
  \<open>hello\<close>, \<open>,\<close>, \<open>world\<close>, \<open>!\<close>.\<close>

theorem simple_tokenize_punctuation_example:
  "simple_tokenize (ascii ''Hello, World!'') = [ascii ''hello'', ascii '','', ascii ''world'', ascii ''!'']"
  by (simp add: eval_simps)

text \<open>C17: Every Arabic vowel mark of the input (U+064B to U+065F, category Mn) becomes
  a token of its own: the marks are neither \<open>\w\<close> characters nor whitespace and
  \<open>lower()\<close> leaves them alone, so \<open>simple_tokenize\<close> cuts a vocalised word at
  every mark.\<close>

theorem simple_tokenize_arabic_mark:
  assumes "c \<in> set s" "1611 \<le> c" "c \<le> 1631"
  shows "[c] \<in> set (simple_tokenize s)"
proof -
  have "c \<in> set [1611..<1632]" using assms(2,3) by (simp del: upt_rec_numeral)
  moreover from arabic_marks_props have
    "\<forall>x\<in>set [1611..<1632]. lower_cps x = [x] \<and> \<not> py_word_char x \<and> \<not> is_space x"
    by (simp only: list_all_iff)
  ultimately have p: "lower_cps c = [c]" "\<not> py_word_char c" "\<not> is_space c" by blast+
  have "c \<in> set (py_lower s)"
    unfolding py_lower_def using assms(1,2) p(1) by (intro mem_lower_from) simp_all
  then have "c \<in> set (concat (py_split (py_lower s)))" using p(3) by (simp add: concat_py_split)
  then obtain w where w: "w \<in> set (py_split (py_lower s))" "c \<in> set w" by auto
  then have "c \<in> set (concat (findall_word_punct w))" using p(3) by (simp add: concat_findall)
  then obtain t where t: "t \<in> set (findall_word_punct w)" "c \<in> set t" by auto
  from findall_parts [OF t(1)] t(2) p(2) have "t = [c]" by auto
  with t(1) w(1) show ?thesis by (auto simp: simple_tokenize_unfiltered)
qed

text \<open>C18: A numbered line whose sentence is blank, the number \<open>k\<close>, a tab and only
  whitespace after it, is stripped to \<open>k\<close> before the split on the tab, so the line
  number itself is read as a sentence.\<close>

theorem sentence_of_line_blank_sentence:
  assumes "k \<noteq> []" "\<forall>x\<in>set k. \<not> is_space x" "\<forall>x\<in>set sp. is_space x"
  shows "sentence_of_line (k @ 9 # sp) = [k]"
proof -
  have t: "is_space 9" by (simp add: is_space_def)
  with assms(3) have "\<forall>x\<in>set (9 # sp). is_space x" by (simp only: list.set ball_simps)
  with assms(1,2) have s: "py_strip (k @ 9 # sp) = k" by (rule py_strip_trailing)
  from t assms(2) have "9 \<notin> set k" by blast
  then have "split_tab1 k = [k]" by (simp add: split_tab1_def)
  with s assms(1) show ?thesis by (simp add: sentence_of_line_def Let_def)
qed

text \<open>C26: Re-tokenising the tokens of \<open>tokenize\<close> joined with single spaces (the
  way the count files render a gram) gives the same tokens back: \<open>lower()\<close> is
  idempotent and \<open>split()\<close> inverts the join.\<close>

theorem tokenize_join_tokenize: "tokenize (join_space (tokenize s)) = tokenize s"
proof -
  let ?ts = "py_split (py_lower s)"
  have sf: "\<forall>t\<in>set ?ts. space_free t" using py_split_tokens by blast
  have "tokenize (join_space (tokenize s)) = map py_lower (py_split (join_space ?ts))"
    by (simp add: tokenize_def py_split_lower)
  also have "\<dots> = map py_lower (map py_lower (py_split s))"
    by (subst split_join_space [OF sf]) (simp only: py_split_lower)
  also have "\<dots> = map py_lower (py_split s)"
    by (simp add: py_lower_def lower_from_lower_from)
  also have "\<dots> = tokenize s"
    by (simp add: tokenize_def py_split_lower)
  finally show ?thesis .
qed

subsection \<open>Witnesses\<close>

lemma tokenize_tokens_space_free_witness:
  "ascii ''hi'' \<noteq> [] \<and> \<not> is_space 104 \<and> \<not> is_space 105"
proof -
  have "ascii ''hi'' \<in> set (tokenize (ascii ''Hi there''))" by (simp add: eval_simps)
  from tokenize_tokens_space_free [OF this] show ?thesis by simp
qed

lemma simple_tokenize_token_shape_witness: "\<not> py_word_char 44 \<and> \<not> is_space 44"
proof -
  have "ascii '','' \<in> set (simple_tokenize (ascii ''Hello, World!''))" by (simp add: eval_simps)
  from simple_tokenize_token_shape [OF this] show ?thesis by (simp add: eval_simps)
qed

text \<open>The vocalised word \<open>kataba\<close> (kaf fatha ta fatha ba fatha): its fatha is a
  token of its own.\<close>

lemma simple_tokenize_arabic_mark_witness:
  "(1614::nat) \<in> set [1603, 1614, 1578, 1614, 1576, 1614] \<and> 1611 \<le> (1614::nat) \<and> (1614::nat) \<le> 1631 \<and>
   [1614] \<in> set (simple_tokenize [1603, 1614, 1578, 1614, 1576, 1614])"
  using simple_tokenize_arabic_mark [of 1614 "[1603, 1614, 1578, 1614, 1576, 1614]"] by simp

lemma sentence_of_line_blank_sentence_witness:
  "ascii ''2'' \<noteq> [] \<and> \<not> is_space 50 \<and> sentence_of_line (ascii ''2'' @ [9, 32]) = [ascii ''2'']"
proof -
  have n: "\<not> is_space 50" and sp: "is_space 32" by (simp_all add: is_space_def)
  have h: "ascii ''2'' \<noteq> []" "\<forall>x\<in>set (ascii ''2''). \<not> is_space x" "\<forall>x\<in>set [32]. is_space x"
    using n sp by simp_all
  from sentence_of_line_blank_sentence [OF h] n show ?thesis by simp
qed

end
