(* ===== verification/Ngrams.thy ===== *)
theory Ngrams
  imports Prelude
begin

text \<open>
  The NgramBuilder. \<open>build_ngrams\<close> is \<open>src/keyboard_suggestion/amazigh/pipeline.py\<close>
  lines 26--30: the slices \<open>tokens[i:i+n]\<close> for \<open>i\<close> in
  \<open>range(len(tokens) - n + 1)\<close>, where a negative bound gives no iteration (hence the
  \<open>int\<close> arithmetic). \<open>nltk_ngrams\<close> is NLTK's \<open>nltk.util.ngrams\<close> (without padding),
  which \<open>src/keyboard_suggestion/ngrams_tp.py\<close> calls through \<open>bigrams\<close>, \<open>trigrams\<close>
  and \<open>ngrams\<close>: it makes \<open>n\<close> copies of the sequence, advances the \<open>i\<close>-th copy by
  \<open>i\<close> items, and zips them. The two are proved equal for every \<open>n \<ge> 1\<close>; the lemmas
  give the number of grams, characterise the grams as the length-\<open>n\<close> infixes, and
  relate the grams of consecutive orders through their prefixes.
\<close>

definition build_ngrams :: "'a list \<Rightarrow> nat \<Rightarrow> 'a list list" where [eval_simps]:
  "build_ngrams tokens n =
     map (\<lambda>i. take n (drop i tokens)) [0..<nat (int (length tokens) - int n + 1)]"

text \<open>Python's \<open>zip(*iterables)\<close>: tuples of the heads while no iterable is exhausted;
  nothing at all for no iterable.\<close>

function zip_all :: "'a list list \<Rightarrow> 'a list list" where
  "zip_all iters =
     (if iters = [] \<or> [] \<in> set iters then [] else map hd iters # zip_all (map tl iters))"
  by pat_completeness auto
termination
  by (relation "measure (\<lambda>iters. length (hd iters))") (auto simp: neq_Nil_conv)

declare zip_all.simps [simp del, eval_simps]

definition nltk_ngrams :: "'a list \<Rightarrow> nat \<Rightarrow> 'a list list" where [eval_simps]:
  "nltk_ngrams sequence n = zip_all (map (\<lambda>i. drop i sequence) [0..<n])"

subsection \<open>Shape of the gram list\<close>

lemma range_bound_nat:
  "nat (int l - int n + 1) = (if n \<le> l then l - n + 1 else 0)"
proof (cases "n \<le> l")
  case True
  then have "nat (int l - int n + 1) = nat (int (l - n + 1))" by simp
  also have "\<dots> = l - n + 1" by (rule nat_int)
  finally show ?thesis using True by simp
qed simp

lemma nat_int_diff [simp]: "nat (int a - int b) = a - b"
  by simp

lemma below_range_bound: "i < nat (int l - int n + 1) \<longleftrightarrow> i + n \<le> l"
  by (auto simp: range_bound_nat)


lemma build_ngrams_nth:
  "i < length (build_ngrams tokens n) \<Longrightarrow> build_ngrams tokens n ! i = take n (drop i tokens)"
  by (simp add: build_ngrams_def)

lemma build_ngrams_set:
  "g \<in> set (build_ngrams tokens n) \<longleftrightarrow>
   (\<exists>i. i + n \<le> length tokens \<and> g = take n (drop i tokens))"
  unfolding build_ngrams_def by (auto simp: image_iff below_range_bound)

lemma take_1_drop: "i < length xs \<Longrightarrow> take (Suc 0) (drop i xs) = [xs ! i]"
  by (metis Cons_nth_drop_Suc take0 take_Suc_Cons)

lemma build_ngrams_1: "build_ngrams tokens (Suc 0) = map (\<lambda>x. [x]) tokens"
proof -
  have "build_ngrams tokens (Suc 0) = map (\<lambda>i. [tokens ! i]) [0..<length tokens]"
    unfolding build_ngrams_def by (simp add: take_1_drop)
  also have "\<dots> = map (\<lambda>x. [x]) (map (\<lambda>i. tokens ! i) [0..<length tokens])" by simp
  finally show ?thesis by (simp only: map_nth)
qed

lemma build_ngrams_Cons:
  assumes "0 < n" and "n \<le> length xs"
  shows "build_ngrams xs n = take n xs # build_ngrams (tl xs) n"
proof -
  have k: "nat (int (length xs) - int n + 1) = Suc (length xs - n)"
    and k': "nat (int (length (tl xs)) - int n + 1) = length xs - n"
    using assms by (simp_all add: range_bound_nat)
  show ?thesis
    unfolding build_ngrams_def k k' map_upt_Suc by (simp add: drop_Suc)
qed

lemma build_ngrams_short: "length xs < n \<Longrightarrow> build_ngrams xs n = []"
  by (simp add: build_ngrams_def)

lemma build_ngrams_infix:
  "g \<in> set (build_ngrams tokens n) \<longleftrightarrow> length g = n \<and> (\<exists>p q. tokens = p @ g @ q)"
proof
  assume "g \<in> set (build_ngrams tokens n)"
  then obtain i where i: "i + n \<le> length tokens" and g: "g = take n (drop i tokens)"
    by (auto simp: build_ngrams_set)
  have "tokens = take i tokens @ g @ drop n (drop i tokens)"
    unfolding g by (metis append_take_drop_id)
  with i g show "length g = n \<and> (\<exists>p q. tokens = p @ g @ q)" by auto
next
  assume "length g = n \<and> (\<exists>p q. tokens = p @ g @ q)"
  then obtain p q where n: "length g = n" and t: "tokens = p @ g @ q" by blast
  then have "length p + n \<le> length tokens \<and> g = take n (drop (length p) tokens)" by simp
  then show "g \<in> set (build_ngrams tokens n)" by (auto simp: build_ngrams_set)
qed

subsection \<open>Consecutive orders\<close>

text \<open>The prefixes (\<open>g[:-1]\<close>) of the grams of order \<open>n + 1\<close> are the grams of
  order \<open>n\<close> but the last.\<close>

lemma map_butlast_build_ngrams:
  "map butlast (build_ngrams tokens (Suc n)) = butlast (build_ngrams tokens n)"
proof (cases "Suc n \<le> length tokens")
  case True
  have "map butlast (build_ngrams tokens (Suc n)) =
        map (\<lambda>i. take n (drop i tokens)) [0..<length tokens - n]"
    using True by (auto simp: build_ngrams_def range_bound_nat butlast_take intro!: map_cong)
  also have "\<dots> = butlast (build_ngrams tokens n)"
    using True by (simp add: build_ngrams_def range_bound_nat map_butlast butlast_upt)
  finally show ?thesis .
next
  case False
  then show ?thesis by (simp add: build_ngrams_def range_bound_nat butlast_upt)
qed

lemma count_build_ngrams_prefix:
  "count_list (build_ngrams tokens (Suc n)) g \<le> count_list (build_ngrams tokens n) (butlast g)"
proof -
  have "count_list (build_ngrams tokens (Suc n)) g \<le>
        count_list (map butlast (build_ngrams tokens (Suc n))) (butlast g)"
    by (rule count_list_map_ge)
  also have "\<dots> = count_list (butlast (build_ngrams tokens n)) (butlast g)"
    by (simp add: map_butlast_build_ngrams)
  also have "\<dots> \<le> count_list (build_ngrams tokens n) (butlast g)"
    by (rule count_list_butlast_le)
  finally show ?thesis .
qed

lemma build_ngrams_prefix_mem:
  "g \<in> set (build_ngrams tokens (Suc n)) \<Longrightarrow> butlast g \<in> set (build_ngrams tokens n)"
  using count_build_ngrams_prefix [of tokens n g] by (metis count_list_0_iff le_zero_eq)


subsection \<open>The NLTK builder\<close>

lemma zip_all_drops:
  assumes "0 < n"
  shows "zip_all (map (\<lambda>i. drop i xs) [0..<n]) =
     (if length xs < n then [] else take n xs # zip_all (map (\<lambda>i. drop i (tl xs)) [0..<n]))"
proof (cases "length xs < n")
  case True
  then have "[] \<in> set (map (\<lambda>i. drop i xs) [0..<n])"
    using assms by (auto simp: image_iff intro!: bexI [of _ "n - 1"])
  with True show ?thesis by (simp add: zip_all.simps)
next
  case False
  then have ne: "[] \<notin> set (map (\<lambda>i. drop i xs) [0..<n])" by auto
  have hd: "map hd (map (\<lambda>i. drop i xs) [0..<n]) = take n xs"
    using False by (intro nth_equalityI) (auto simp: hd_drop_conv_nth)
  have tl: "map tl (map (\<lambda>i. drop i xs) [0..<n]) = map (\<lambda>i. drop i (tl xs)) [0..<n]"
    by (simp add: drop_Suc tl_drop)
  have "zip_all (map (\<lambda>i. drop i xs) [0..<n]) =
        map hd (map (\<lambda>i. drop i xs) [0..<n]) # zip_all (map tl (map (\<lambda>i. drop i xs) [0..<n]))"
    using assms ne by (subst zip_all.simps) simp
  then show ?thesis using False unfolding hd tl by simp
qed

lemma nltk_ngrams_eq_build:
  "0 < n \<Longrightarrow> nltk_ngrams xs n = build_ngrams xs n"
proof (induction "length xs" arbitrary: xs rule: less_induct)
  case less
  show ?case
  proof (cases "length xs < n")
    case True
    then show ?thesis using less.prems by (simp add: nltk_ngrams_def zip_all_drops [of n xs] build_ngrams_short)
  next
    case False
    then have "xs \<noteq> []" using less.prems by auto
    then have "length (tl xs) < length xs" by simp
    then have "nltk_ngrams (tl xs) n = build_ngrams (tl xs) n" using less by blast
    with False less.prems show ?thesis
      by (simp add: nltk_ngrams_def zip_all_drops [of n xs] build_ngrams_Cons)
  qed
qed

subsection \<open>Properties of the builders\<close>

text \<open>C19: For a token sequence of length \<open>L\<close> and order \<open>n\<close>, \<open>build_ngrams\<close>
  returns \<open>L - n + 1\<close> grams when \<open>n \<le> L\<close> and none when \<open>n > L\<close>.\<close>

theorem build_ngrams_length:
  "length (build_ngrams tokens n) = (if n \<le> length tokens then length tokens - n + 1 else 0)"
  by (simp add: build_ngrams_def range_bound_nat)

text \<open>C20: The grams of order \<open>n\<close> are exactly the contiguous length-\<open>n\<close> pieces
  of the token sequence.\<close>

theorem build_ngrams_contiguous:
  "g \<in> set (build_ngrams tokens n) \<longleftrightarrow> length g = n \<and> (\<exists>p q. tokens = p @ g @ q)"
  by (rule build_ngrams_infix)

text \<open>The loop of \<open>zip(*iterables)\<close> inside \<open>nltk.util.ngrams\<close> stops exactly
  when the shortest iterable is exhausted: it yields as many tuples as the shortest
  iterable has elements, whatever the iterables are.\<close>

theorem zip_all_length: "iters \<noteq> [] \<Longrightarrow> length (zip_all iters) = Min (length ` set iters)"
proof (induction iters rule: zip_all.induct)
  case (1 iters)
  have fin: "finite (length ` set iters)" and ne: "length ` set iters \<noteq> {}" using "1.prems" by auto
  show ?case
  proof (cases "[] \<in> set iters")
    case True
    then have "0 \<in> length ` set iters" by force
    then have "Min (length ` set iters) = 0" using fin by (meson Min_le le_zero_eq)
    with True show ?thesis by (simp add: zip_all.simps)
  next
    case False
    then have pos: "0 < Min (length ` set iters)" using fin ne by auto
    have "length ` set (map tl iters) = (\<lambda>k. k - 1) ` length ` set iters" by (auto simp: image_image)
    moreover have "(\<lambda>k::nat. k - 1) (Min (length ` set iters)) = Min ((\<lambda>k. k - 1) ` length ` set iters)"
      using fin ne by (intro mono_Min_commute) (auto simp: mono_def)
    ultimately have "Min (length ` set (map tl iters)) = Min (length ` set iters) - 1" by simp
    moreover have "length (zip_all iters) = Suc (length (zip_all (map tl iters)))"
      using "1.prems" False by (subst zip_all.simps) simp
    ultimately show ?thesis using "1.IH" "1.prems" False pos by simp
  qed
qed

text \<open>C21: NLTK's \<open>ngrams\<close> (used by \<open>ngrams_tp.py\<close> through \<open>bigrams\<close>,
  \<open>trigrams\<close> and \<open>ngrams\<close>) and \<open>build_ngrams\<close> of \<open>pipeline.py\<close> produce the
  same grams in the same order for every order \<open>n \<ge> 1\<close>.\<close>

theorem nltk_ngrams_equiv: "0 < n \<Longrightarrow> nltk_ngrams tokens n = build_ngrams tokens n"
  by (rule nltk_ngrams_eq_build)

text \<open>The spec's example: the tokens \<open>a b a b c\<close> give the bigrams
  \<open>(a,b), (b,a), (a,b), (b,c)\<close>, in order and with repetition.\<close>

theorem build_ngrams_spec_example:
  "build_ngrams [ascii ''a'', ascii ''b'', ascii ''a'', ascii ''b'', ascii ''c''] 2 =
   [[ascii ''a'', ascii ''b''], [ascii ''b'', ascii ''a''], [ascii ''a'', ascii ''b''],
    [ascii ''b'', ascii ''c'']]"
  by (simp add: eval_simps)

subsection \<open>Witnesses\<close>

lemma nltk_ngrams_equiv_witness:
  "nltk_ngrams (ascii ''abcd'') 3 = [ascii ''abc'', ascii ''bcd'']"
proof -
  have "nltk_ngrams (ascii ''abcd'') 3 = build_ngrams (ascii ''abcd'') 3"
    by (rule nltk_ngrams_equiv) simp
  then show ?thesis by (simp add: eval_simps)
qed

end
