(* ===== verification/Counter.thy ===== *)
theory Counter
  imports Ngrams
begin

text \<open>
  The FrequencyCounter. Both scripts count with \<open>collections.Counter\<close> (NLTK's
  \<open>FreqDist\<close> is a subclass whose constructor calls \<open>Counter.update\<close>):
  \<open>c.update(iterable)\<close> does \<open>c[x] = c.get(x, 0) + 1\<close> for each element in turn
  (\<open>counter_add\<close>, \<open>counter_update\<close>). A counter is a dict, so an association list
  in insertion order. \<open>count_table tokens n\<close> is the count table of order \<open>n\<close> of
  \<open>src/keyboard_suggestion/amazigh/pipeline.py\<close> lines 62--66, and \<open>freq_dist\<close> is
  \<open>FreqDist(samples)\<close> of \<open>src/keyboard_suggestion/ngrams_tp.py\<close> (lines 133, 142, 158,
  166, 174). The abstraction of a counter is the multiset of its keys with their counts:
  \<open>counter_update\<close> refines multiset union, so a counter built from a list is that list's
  multiset; its keys come in order of first occurrence and its values sum to the list's
  length.
\<close>

definition counter_add :: "('k, nat) pydict \<Rightarrow> 'k \<Rightarrow> ('k, nat) pydict" where [eval_simps]:
  "counter_add d x = dict_set d x (dict_get d x 0 + 1)"

definition counter_update :: "('k, nat) pydict \<Rightarrow> 'k list \<Rightarrow> ('k, nat) pydict" where [eval_simps]:
  "counter_update d xs = fold (\<lambda>x d. counter_add d x) xs d"

definition freq_dist :: "'k list \<Rightarrow> ('k, nat) pydict" where [eval_simps]:
  "freq_dist samples = counter_update [] samples"

definition count_table :: "'a list \<Rightarrow> nat \<Rightarrow> ('a list, nat) pydict" where [eval_simps]:
  "count_table tokens n = counter_update [] (build_ngrams tokens n)"

text \<open>The abstraction: a counter as the multiset it counts.\<close>

definition counter_mset :: "('k, nat) pydict \<Rightarrow> 'k multiset" where
  "counter_mset d = sum_list (map (\<lambda>(k, c). replicate_mset c k) d)"

subsection \<open>One step\<close>

lemma counter_mset_Nil [simp]: "counter_mset [] = {#}"
  by (simp add: counter_mset_def)

lemma counter_update_Nil [simp]: "counter_update d [] = d"
  and counter_update_snoc: "counter_update d (xs @ [x]) = counter_add (counter_update d xs) x"
  by (simp_all add: counter_update_def)

lemma wf_counter_add [intro]: "wf_dict d \<Longrightarrow> wf_dict (counter_add d x)"
  by (simp add: counter_add_def wf_dict_set)

lemma dict_get_counter_add:
  "dict_get (counter_add d x) k 0 = dict_get d k 0 + (if k = x then 1 else 0)"
  by (simp add: counter_add_def)

lemma keys_counter_add:
  "map fst (counter_add d x) = (if x \<in> set (map fst d) then map fst d else map fst d @ [x])"
  by (simp add: counter_add_def keys_dict_set)

lemma sum_dict_set:
  fixes d :: "('k, nat) pydict"
  shows "sum_list (map snd (dict_set d k v)) + dict_get d k 0 = sum_list (map snd d) + v"
  by (induction d k v rule: dict_set.induct) (auto simp: dict_get_def)

lemma mset_dict_set:
  "counter_mset (dict_set d k v) + replicate_mset (dict_get d k 0) k =
   counter_mset d + replicate_mset v k"
  by (induction d k v rule: dict_set.induct) (auto simp: dict_get_def counter_mset_def)

lemma counter_mset_add: "counter_mset (counter_add d x) = add_mset x (counter_mset d)"
  using mset_dict_set [of d x "dict_get d x 0 + 1"]
  by (simp add: counter_add_def)

lemma sum_counter_add: "sum_list (map snd (counter_add d x)) = Suc (sum_list (map snd d))"
  using sum_dict_set [of d x "dict_get d x 0 + 1"] by (simp add: counter_add_def)

subsection \<open>Whole updates\<close>

text \<open>Counting commutes with an injective renaming of the keys.\<close>

lemma dict_set_map_keys:
  "inj f \<Longrightarrow> dict_set (map (\<lambda>(k, v). (f k, v)) d) (f k) v = map (\<lambda>(k, v). (f k, v)) (dict_set d k v)"
  by (induction d k v rule: dict_set.induct) (auto simp: inj_eq)

lemma dict_get_map_keys:
  "inj f \<Longrightarrow> dict_get (map (\<lambda>(k, v). (f k, v)) d) (f k) dflt = dict_get d k dflt"
  by (induction d) (auto simp: dict_get_def inj_eq)

lemma counter_update_map_keys:
  "inj f \<Longrightarrow>
   counter_update (map (\<lambda>(k, c). (f k, c)) d) (map f xs) = map (\<lambda>(k, c). (f k, c)) (counter_update d xs)"
  by (induction xs arbitrary: d) (simp_all add: counter_update_def counter_add_def dict_set_map_keys dict_get_map_keys)

lemma wf_counter_update [intro]: "wf_dict d \<Longrightarrow> wf_dict (counter_update d xs)"
  by (induction xs rule: rev_induct) (auto simp: counter_update_snoc)

lemma counter_mset_update: "counter_mset (counter_update d xs) = counter_mset d + mset xs"
  by (induction xs rule: rev_induct) (simp_all add: counter_update_snoc counter_mset_add)

lemma dict_get_counter_update:
  "dict_get (counter_update d xs) k 0 = dict_get d k 0 + count_list xs k"
  by (induction xs rule: rev_induct) (simp_all add: counter_update_snoc dict_get_counter_add)

lemma sum_counter_update: "sum_list (map snd (counter_update d xs)) = sum_list (map snd d) + length xs"
  by (induction xs rule: rev_induct) (simp_all add: counter_update_snoc sum_counter_add)

lemma keys_counter_update: "map fst (counter_update [] xs) = rev (remdups (rev xs))"
proof (induction xs rule: rev_induct)
  case (snoc x xs)
  have "set (map fst (counter_update [] xs)) = set xs" using snoc by simp
  with snoc show ?case by (simp add: counter_update_snoc keys_counter_add)
qed simp

lemma map_of_counter_update:
  "map_of (counter_update [] xs) k = (if k \<in> set xs then Some (count_list xs k) else None)"
proof -
  have "k \<in> set (map fst (counter_update [] xs)) \<longleftrightarrow> k \<in> set xs"
    by (simp add: keys_counter_update)
  moreover have "dict_get (counter_update [] xs) k 0 = count_list xs k"
    by (simp add: dict_get_counter_update)
  ultimately show ?thesis
    by (auto simp: dict_get_def count_list_0_iff split: option.splits dest: map_of_SomeD
        simp flip: map_of_eq_None_iff)
qed

lemma map_of_count_table:
  "map_of (count_table tokens n) g =
   (if g \<in> set (build_ngrams tokens n) then Some (count_list (build_ngrams tokens n) g) else None)"
  by (simp add: count_table_def map_of_counter_update)

lemma count_table_prefix_le:
  assumes "map_of (count_table tokens (Suc n)) g = Some c"
  shows "\<exists>c'. map_of (count_table tokens n) (butlast g) = Some c' \<and> c \<le> c'"
proof -
  have g: "g \<in> set (build_ngrams tokens (Suc n))" and c: "c = count_list (build_ngrams tokens (Suc n)) g"
    using assms by (auto simp: map_of_count_table split: if_splits)
  from g have "butlast g \<in> set (build_ngrams tokens n)" by (rule build_ngrams_prefix_mem)
  with c count_build_ngrams_prefix [of tokens n g] show ?thesis
    by (simp add: map_of_count_table)
qed

subsection \<open>Properties of the counters\<close>

text \<open>C22: Refinement: the count table of order \<open>n\<close>, read as a multiset (each key
  repeated as often as its count), is the multiset of the grams of order \<open>n\<close>; one
  \<open>counter_add\<close> step adds one element.\<close>

theorem count_table_refines_mset:
  "counter_mset (count_table tokens n) = mset (build_ngrams tokens n) \<and>
   counter_mset (counter_add d x) = add_mset x (counter_mset d)"
  by (simp add: count_table_def counter_mset_update counter_mset_add)

text \<open>C23: Looking a gram up in the count table gives its number of occurrences among
  the grams, and no entry for a gram that does not occur.\<close>

theorem count_table_lookup:
  "map_of (count_table tokens n) g =
   (if g \<in> set (build_ngrams tokens n) then Some (count_list (build_ngrams tokens n) g) else None)"
  by (rule map_of_count_table)

text \<open>C24: The counts of a table sum to the number of grams of its order.\<close>

theorem count_table_sum:
  "sum_list (map snd (count_table tokens n)) = length (build_ngrams tokens n)"
  by (simp add: count_table_def sum_counter_update)

text \<open>C25: The keys of a count table are distinct and come in the order of their first
  occurrence, the order in which the JSON file lists them.\<close>

theorem count_table_keys:
  "map fst (count_table tokens n) = rev (remdups (rev (build_ngrams tokens n))) \<and>
   wf_dict (count_table tokens n)"
  by (simp add: count_table_def keys_counter_update wf_counter_update)

text \<open>The spec's example: the tokens \<open>a b a b c\<close> give the bigram counts
  \<open>(a,b): 2, (b,a): 1, (b,c): 1\<close>.\<close>

theorem count_table_spec_example:
  "count_table [ascii ''a'', ascii ''b'', ascii ''a'', ascii ''b'', ascii ''c''] 2 =
   [([ascii ''a'', ascii ''b''], 2), ([ascii ''b'', ascii ''a''], 1), ([ascii ''b'', ascii ''c''], 1)]"
  by (simp add: eval_simps)

text \<open>C27: The prefix invariant of the count tables: for every gram of order
  \<open>n + 1\<close> with count \<open>c\<close>, its prefix \<open>g[:-1]\<close> is a key of the table of order
  \<open>n\<close> with a count of at least \<open>c\<close>.\<close>

theorem count_table_prefix:
  "map_of (count_table tokens (Suc n)) g = Some c \<Longrightarrow>
   \<exists>c'. map_of (count_table tokens n) (butlast g) = Some c' \<and> c \<le> c'"
  by (rule count_table_prefix_le)

subsection \<open>Witnesses\<close>

lemma count_table_prefix_witness:
  "map_of (count_table [ascii ''a'', ascii ''b'', ascii ''a''] 1) [ascii ''a''] = Some 2"
proof -
  have "map_of (count_table [ascii ''a'', ascii ''b'', ascii ''a''] (Suc 1)) [ascii ''a'', ascii ''b''] = Some 1"
    by (simp add: eval_simps)
  from count_table_prefix [OF this] show ?thesis by (simp add: eval_simps)
qed

end
