(* ===== verification/Serializer.thy ===== *)
theory Serializer
  imports PyStr Counter
begin

text \<open>
  The Serializer and the vocabulary. A table is written as a JSON object whose keys are
  the grams joined by one space: \<open>ngram_to_string\<close> (\<open>ngrams_tp.py\<close> lines 98--100) and
  the comprehension \<open>{" ".join(k): v for k, v in table.items()}\<close> of \<open>pipeline.py\<close>
  lines 80 and 85, which \<open>ngrams_tp.py\<close> writes with \<open>ngram_to_string\<close> (lines 134,
  143, 153, 159, 161, ...). \<open>serialize_table\<close> models the comprehension: a later key
  that renders like an earlier one overwrites its value. The vocabulary of
  \<open>ngrams_tp.py\<close> lines 119--121 is \<open>sorted(set(tokens))\<close> with its index maps in both
  directions. The lemmas show that rendering is inverted by \<open>str.split\<close> for the tokens
  the tokenisers produce, so no two keys collide and the file keeps every entry, and that
  the two vocabulary maps are mutually inverse.
\<close>

definition ngram_to_string :: "gram \<Rightarrow> pystr" where [eval_simps]:
  "ngram_to_string ngram = join_space ngram"

definition serialize_table :: "(gram, 'v) pydict \<Rightarrow> (pystr, 'v) pydict" where [eval_simps]:
  "serialize_table table = dict_of_list (map (\<lambda>(k, v). (ngram_to_string k, v)) table)"

definition vocab_of :: "pystr list \<Rightarrow> pystr list" where [eval_simps]:
  "vocab_of tokens = sort (remdups tokens)"

definition vocab_dict :: "pystr list \<Rightarrow> (pystr, nat) pydict" where [eval_simps]:
  "vocab_dict vocab = dict_of_list (zip vocab [0..<length vocab])"

definition vocab_rev :: "pystr list \<Rightarrow> (nat, pystr) pydict" where [eval_simps]:
  "vocab_rev vocab = dict_of_list (zip [0..<length vocab] vocab)"

subsection \<open>Rendering keys\<close>

definition tokens_ok :: "gram \<Rightarrow> bool" where
  "tokens_ok g \<longleftrightarrow> list_all space_free g"

lemma ngram_to_string_inverse: "tokens_ok g \<Longrightarrow> py_split (ngram_to_string g) = g"
  by (simp add: ngram_to_string_def tokens_ok_def list_all_iff split_join_space)

lemma ngram_to_string_inj:
  "tokens_ok g \<Longrightarrow> tokens_ok h \<Longrightarrow> ngram_to_string g = ngram_to_string h \<Longrightarrow> g = h"
  by (metis ngram_to_string_inverse)

lemma keys_rendered: "map fst (map (\<lambda>(k, v). (ngram_to_string k, v)) d) = map ngram_to_string (map fst d)"
  by (induction d) auto

lemma distinct_rendered_keys:
  assumes "wf_dict d" and "\<forall>g\<in>set (map fst d). tokens_ok g"
  shows "distinct (map fst (map (\<lambda>(k, v). (ngram_to_string k, v)) d))"
proof -
  have inj: "inj_on ngram_to_string (set (map fst d))"
    using assms(2) by (auto intro: inj_onI ngram_to_string_inj)
  have dm: "distinct (map fst d)" using assms(1) by (simp add: wf_dict_def)
  from dm inj have "distinct (map ngram_to_string (map fst d))"
    by (rule distinct_map [THEN iffD2, OF conjI])
  then show ?thesis unfolding keys_rendered .
qed

lemma serialize_table_no_collision:
  assumes "wf_dict d" and "\<forall>g\<in>set (map fst d). tokens_ok g"
  shows "serialize_table d = map (\<lambda>(k, v). (ngram_to_string k, v)) d"
  unfolding serialize_table_def by (rule dict_of_list_distinct [OF distinct_rendered_keys [OF assms]])

subsection \<open>Vocabulary\<close>

lemma vocab_of_props: "sorted (vocab_of tokens) \<and> distinct (vocab_of tokens) \<and> set (vocab_of tokens) = set tokens"
  by (simp add: vocab_of_def)

lemma map_of_zip_upt_nth:
  "distinct xs \<Longrightarrow> i < length xs \<Longrightarrow> map_of (zip xs [0..<length xs]) (xs ! i) = Some i"
  using map_of_zip_nth [of xs "[0..<length xs]" i] by simp

lemma map_of_zip_upt_idx:
  "i < length xs \<Longrightarrow> map_of (zip [0..<length xs] xs) i = Some (xs ! i)"
  using map_of_zip_nth [of "[0..<length xs]" xs i] by simp

lemma vocab_index:
  assumes "w \<in> set tokens"
  shows "\<exists>i. map_of (vocab_dict (vocab_of tokens)) w = Some i \<and> i < length (vocab_of tokens) \<and>
             map_of (vocab_rev (vocab_of tokens)) i = Some w"
proof -
  let ?v = "vocab_of tokens"
  have d: "distinct ?v" and s: "set ?v = set tokens" using vocab_of_props by auto
  obtain i where i: "i < length ?v" "?v ! i = w"
    using assms s by (metis in_set_conv_nth)
  have k1: "distinct (map fst (zip ?v [0..<length ?v]))" using d by simp
  have k2: "distinct (map fst (zip [0..<length ?v] ?v))" by simp
  have "map_of (vocab_dict ?v) w = Some i"
    unfolding vocab_dict_def dict_of_list_distinct [OF k1] using map_of_zip_upt_nth [OF d i(1)] i(2) by simp
  moreover have "map_of (vocab_rev ?v) i = Some w"
    unfolding vocab_rev_def dict_of_list_distinct [OF k2] using map_of_zip_upt_idx [OF i(1)] i(2) by simp
  ultimately show ?thesis using i(1) by blast
qed

subsection \<open>Properties of the serializer\<close>

text \<open>C32: Rendering a gram whose tokens are non-empty and free of whitespace (as both
  tokenisers produce them) is inverted by \<open>str.split()\<close>: the JSON key determines the
  gram.\<close>

theorem ngram_to_string_roundtrip: "tokens_ok g \<Longrightarrow> py_split (ngram_to_string g) = g"
  by (rule ngram_to_string_inverse)

text \<open>C33: The vocabulary is sorted and duplicate-free, and \<open>vocab.json\<close> and
  \<open>vocab_rev.json\<close> are inverse: every token has an index below the vocabulary size
  that maps back to it.\<close>

theorem vocab_bijection:
  "sorted (vocab_of tokens) \<and> distinct (vocab_of tokens) \<and>
   (w \<in> set tokens \<longrightarrow>
     (\<exists>i. map_of (vocab_dict (vocab_of tokens)) w = Some i \<and> i < length (vocab_of tokens) \<and>
          map_of (vocab_rev (vocab_of tokens)) i = Some w))"
  using vocab_of_props vocab_index by blast

subsection \<open>Witnesses\<close>

lemma ngram_to_string_roundtrip_witness:
  "py_split (ascii ''ab cd'') = [ascii ''ab'', ascii ''cd'']"
proof -
  have "tokens_ok [ascii ''ab'', ascii ''cd'']" by (simp add: tokens_ok_def eval_simps)
  from ngram_to_string_roundtrip [OF this] show ?thesis by (simp add: eval_simps)
qed

lemma vocab_bijection_witness:
  "map_of (vocab_dict (vocab_of [ascii ''b'', ascii ''a'', ascii ''b''])) (ascii ''b'') = Some 1 \<and>
   map_of (vocab_rev (vocab_of [ascii ''b'', ascii ''a'', ascii ''b''])) 1 = Some (ascii ''b'')"
proof -
  have "ascii ''b'' \<in> set [ascii ''b'', ascii ''a'', ascii ''b'']" by simp
  with vocab_bijection [of "[ascii ''b'', ascii ''a'', ascii ''b'']" "ascii ''b''"]
  obtain i where
    "map_of (vocab_dict (vocab_of [ascii ''b'', ascii ''a'', ascii ''b''])) (ascii ''b'') = Some i"
    "map_of (vocab_rev (vocab_of [ascii ''b'', ascii ''a'', ascii ''b''])) i = Some (ascii ''b'')"
    by blast
  moreover have "map_of (vocab_dict (vocab_of [ascii ''b'', ascii ''a'', ascii ''b''])) (ascii ''b'') = Some 1"
    by (simp add: eval_simps)
  ultimately show ?thesis by simp
qed

end
