(* ===== verification/Probability.thy ===== *)
theory Probability
  imports Serializer
begin

text \<open>
  The ProbabilityEstimator, two policies. Policy A is \<open>calculate_probabilities\<close> of
  \<open>src/keyboard_suggestion/amazigh/pipeline.py\<close> (lines 34--48): for each gram, in the
  table's order, the add-one estimate \<open>(count + 1) / (prefix_count + V)\<close> with
  \<open>V = len(lower_counts)\<close>, stored as its negative natural logarithm; the division raises
  \<open>ZeroDivisionError\<close> when the denominator is 0, an \<open>Inl\<close> of the model. Policy B
  is \<open>calculate_probabilities\<close> of \<open>src/keyboard_suggestion/ngrams_tp.py\<close> (lines
  74--96), here \<open>calculate_probabilities_tp\<close>: the relative frequency
  \<open>count / prefix_count\<close>, 0 for an unseen prefix, and \<open>count / total\<close> for grams of
  length at most 1; with \<open>unigram_probs\<close> (lines 135--137) and \<open>bigram_probs\<close> (lines
  145--153), the inline versions \<open>process_language\<close> uses for orders 1 and 2. Python
  floats are modelled as reals and \<open>math.log\<close> as \<open>ln\<close>: the theorems hold of the
  exact values the floating-point code approximates.
\<close>

subsection \<open>Policy A: Laplace-smoothed negative log-probability\<close>

definition prob_entry :: "('a list, nat) pydict \<Rightarrow> nat \<Rightarrow> 'a list \<Rightarrow> nat \<Rightarrow> py_error + real"
  where [eval_simps]:
  "prob_entry lower_counts vocab_size ngram cnt =
     (let prefix = butlast ngram;
          prefix_count = dict_get lower_counts prefix 0
      in if prefix_count + vocab_size = 0 then Inl ZeroDivisionError
         else Inr (- ln ((real cnt + 1) / real (prefix_count + vocab_size))))"

fun calc_probs_loop ::
  "('a list, nat) pydict \<Rightarrow> nat \<Rightarrow> ('a list, nat) pydict \<Rightarrow> ('a list, real) pydict \<Rightarrow>
   py_error + ('a list, real) pydict" where
  "calc_probs_loop lower_counts vocab_size [] probabilities = Inr probabilities"
| "calc_probs_loop lower_counts vocab_size ((ngram, cnt) # rest) probabilities =
     (case prob_entry lower_counts vocab_size ngram cnt of
        Inl e \<Rightarrow> Inl e
      | Inr p \<Rightarrow> calc_probs_loop lower_counts vocab_size rest (dict_set probabilities ngram p))"

definition calculate_probabilities ::
  "('a list, nat) pydict \<Rightarrow> ('a list, nat) pydict \<Rightarrow> py_error + ('a list, real) pydict"
  where [eval_simps]:
  "calculate_probabilities ngram_counts lower_counts =
     calc_probs_loop lower_counts (length lower_counts) ngram_counts []"

subsection \<open>Policy B: maximum-likelihood relative frequency\<close>

definition prob_entry_tp :: "('a list, nat) pydict \<Rightarrow> ('a list, nat) pydict \<Rightarrow> 'a list \<Rightarrow> nat \<Rightarrow> real"
  where [eval_simps]:
  "prob_entry_tp ngram_freq prev_ngram_freq ngram cnt =
     (if 1 < length ngram then
        (let prev_count = dict_get prev_ngram_freq (butlast ngram) 0 in
         if 0 < prev_count then real cnt / real prev_count else 0)
      else
        (let total = sum_list (map snd ngram_freq) in
         if 0 < total then real cnt / real total else 0))"

definition calculate_probabilities_tp ::
  "('a list, nat) pydict \<Rightarrow> ('a list, nat) pydict \<Rightarrow> ('a list, real) pydict" where [eval_simps]:
  "calculate_probabilities_tp ngram_freq prev_ngram_freq =
     fold (\<lambda>(ngram, cnt) probs.
             dict_set probs ngram (prob_entry_tp ngram_freq prev_ngram_freq ngram cnt))
          ngram_freq []"

text \<open>Lines 135--137: unigram probabilities, keyed by the rendered 1-tuple.\<close>

definition unigram_probs :: "(pystr, nat) pydict \<Rightarrow> (pystr, real) pydict" where [eval_simps]:
  "unigram_probs unigrams =
     (let total_unigrams = sum_list (map snd unigrams) in
      dict_of_list (map (\<lambda>(word, cnt). (ngram_to_string [word],
        if 0 < total_unigrams then real cnt / real total_unigrams else 0)) unigrams))"

text \<open>Lines 145--152: bigram probabilities from the unigram counts of the first word.\<close>

definition bigram_probs :: "(pystr, nat) pydict \<Rightarrow> (gram, nat) pydict \<Rightarrow> (gram, real) pydict"
  where [eval_simps]:
  "bigram_probs unigrams bigram_freq =
     fold (\<lambda>(bigram, cnt) probs.
             (let w1 = hd bigram; w1_count = dict_get unigrams w1 0 in
              dict_set probs bigram (if 0 < w1_count then real cnt / real w1_count else 0)))
          bigram_freq []"

subsection \<open>Policy A: result and error path\<close>

lemma prob_entry_pos:
  "0 < vocab_size \<Longrightarrow>
   prob_entry lower_counts vocab_size ngram cnt =
     Inr (- ln ((real cnt + 1) / real (dict_get lower_counts (butlast ngram) 0 + vocab_size)))"
  by (simp add: prob_entry_def)

lemma calc_probs_loop_pos:
  "0 < vocab_size \<Longrightarrow>
   calc_probs_loop lower_counts vocab_size nc acc =
     Inr (fold (\<lambda>(g, c) acc. dict_set acc g
            (- ln ((real c + 1) / real (dict_get lower_counts (butlast g) 0 + vocab_size)))) nc acc)"
  by (induction lower_counts vocab_size nc acc rule: calc_probs_loop.induct)
     (simp_all add: prob_entry_pos)

lemma fold_dict_set_values:
  "wf_dict d \<Longrightarrow> fold (\<lambda>(k, v) acc. dict_set acc k (f k v)) d [] = map (\<lambda>(k, v). (k, f k v)) d"
proof -
  assume "wf_dict d"
  then have "distinct (map fst (map (\<lambda>(k, v). (k, f k v)) d))"
    by (simp add: wf_dict_def comp_def case_prod_beta)
  then have "fold (\<lambda>(k, v) acc. dict_set acc k v) (map (\<lambda>(k, v). (k, f k v)) d) [] =
             map (\<lambda>(k, v). (k, f k v)) d"
    by (simp add: fold_dict_set_distinct)
  then show ?thesis by (simp add: fold_map comp_def split_def)
qed

lemma calculate_probabilities_Inr:
  assumes "wf_dict ngram_counts" and "lower_counts \<noteq> []"
  shows "calculate_probabilities ngram_counts lower_counts =
     Inr (map (\<lambda>(g, c). (g, - ln ((real c + 1) /
            real (dict_get lower_counts (butlast g) 0 + length lower_counts)))) ngram_counts)"
proof -
  have "0 < length lower_counts" using assms(2) by simp
  then show ?thesis
    using fold_dict_set_values [OF assms(1), of "\<lambda>g c. - ln ((real c + 1) /
            real (dict_get lower_counts (butlast g) 0 + length lower_counts))"]
    by (simp add: calculate_probabilities_def calc_probs_loop_pos)
qed

lemma calculate_probabilities_Nil_lower:
  "calculate_probabilities ((g, c) # rest) [] = Inl ZeroDivisionError"
  by (simp add: calculate_probabilities_def prob_entry_def)

lemma neg_ln_nonneg: "0 < x \<Longrightarrow> x \<le> 1 \<Longrightarrow> 0 \<le> - ln (x :: real)"
  by simp

lemma laplace_score_nonneg:
  "cnt + 1 \<le> prefix_count + vocab_size \<Longrightarrow>
   0 \<le> - ln ((real cnt + 1) / real (prefix_count + vocab_size))"
  by (rule neg_ln_nonneg) (simp_all add: field_simps)

subsection \<open>Policy B: result and range\<close>

lemma calculate_probabilities_tp_map:
  "wf_dict ngram_freq \<Longrightarrow>
   calculate_probabilities_tp ngram_freq prev =
     map (\<lambda>(g, c). (g, prob_entry_tp ngram_freq prev g c)) ngram_freq"
  unfolding calculate_probabilities_tp_def by (rule fold_dict_set_values)

lemma value_le_sum: "(k, c) \<in> set d \<Longrightarrow> c \<le> sum_list (map snd (d :: ('k, nat) pydict))"
  by (induction d) auto

lemma div_in_unit: "c \<le> t \<Longrightarrow> 0 \<le> real c / real t \<and> real c / real t \<le> 1"
  by (cases "t = 0") (simp_all add: field_simps)

lemma prob_entry_tp_range:
  assumes "(g, c) \<in> set ngram_freq"
    and "1 < length g \<Longrightarrow> c \<le> dict_get prev (butlast g) 0"
  shows "0 \<le> prob_entry_tp ngram_freq prev g c \<and> prob_entry_tp ngram_freq prev g c \<le> 1"
  using assms value_le_sum [OF assms(1)] by (auto simp: prob_entry_tp_def Let_def div_in_unit)

lemma sum_list_div: "sum_list (map (\<lambda>x. f x / t) xs) = sum_list (map f xs) / (t :: real)"
  by (induction xs) (simp_all add: add_divide_distrib)

lemma unigram_probs_list:
  "wf_dict unigrams \<Longrightarrow> unigram_probs unigrams =
     map (\<lambda>(w, c). (w, if 0 < sum_list (map snd unigrams)
        then real c / real (sum_list (map snd unigrams)) else 0)) unigrams"
  by (simp add: unigram_probs_def ngram_to_string_def dict_of_list_distinct wf_dict_def
      comp_def case_prod_beta Let_def)

lemma map_of_singleton_keys:
  "map_of (map (\<lambda>(w, c). ([w], c)) d) [w] = map_of d w"
  by (induction d) auto

lemma bigram_entry_eq:
  assumes "length g = 2"
  shows "(let w1 = hd g; w1_count = dict_get unigrams w1 0 in
            if 0 < w1_count then real c / real w1_count else 0) =
         prob_entry_tp bf (map (\<lambda>(w, c). ([w], c)) unigrams) g c"
proof -
  obtain w1 w2 where g: "g = [w1, w2]"
    using assms by (cases g; cases "tl g") auto
  show ?thesis by (simp add: g prob_entry_tp_def dict_get_def map_of_singleton_keys)
qed

subsection \<open>Properties of the estimators\<close>

text \<open>C28: Policy A raises \<open>ZeroDivisionError\<close> exactly when there is a gram to score
  and the lower-order table is empty; otherwise it returns a table.\<close>

theorem calculate_probabilities_error:
  "(\<exists>e. calculate_probabilities ngram_counts lower_counts = Inl e) \<longleftrightarrow>
   ngram_counts \<noteq> [] \<and> lower_counts = []"
proof (cases "lower_counts = []")
  case True
  then show ?thesis
    by (cases ngram_counts) (auto simp: calculate_probabilities_def prob_entry_def)
next
  case False
  then show ?thesis by (simp add: calculate_probabilities_def calc_probs_loop_pos)
qed

text \<open>C29: Policy A on a non-empty lower table scores every gram, in the table's order,
  with \<open>-ln((count + 1) / (prefix_count + V))\<close>, where the prefix count defaults to 0
  and \<open>V\<close> is the number of keys of the lower table.\<close>

theorem calculate_probabilities_scores:
  "wf_dict ngram_counts \<Longrightarrow> lower_counts \<noteq> [] \<Longrightarrow>
   calculate_probabilities ngram_counts lower_counts =
     Inr (map (\<lambda>(g, c). (g, - ln ((real c + 1) /
            real (dict_get lower_counts (butlast g) 0 + length lower_counts)))) ngram_counts)"
  by (rule calculate_probabilities_Inr)

text \<open>C30: The inline bigram estimator of \<open>process_language\<close> (lines 145--152) computes
  the same table as Policy B's \<open>calculate_probabilities\<close> applied to the unigram table
  re-keyed by 1-tuples.\<close>

theorem bigram_probs_equiv:
  assumes "\<forall>g\<in>set (map fst bigram_freq). length g = 2"
  shows "bigram_probs unigrams bigram_freq =
         calculate_probabilities_tp bigram_freq (map (\<lambda>(w, c). ([w], c)) unigrams)"
  unfolding bigram_probs_def calculate_probabilities_tp_def
proof (rule fold_cong)
  fix x
  assume "x \<in> set bigram_freq"
  with assms obtain g c where x: "x = (g, c)" and g: "length g = 2" by (cases x) auto
  show "(\<lambda>(bigram, cnt) probs.
            let w1 = hd bigram; w1_count = dict_get unigrams w1 0
            in dict_set probs bigram (if 0 < w1_count then real cnt / real w1_count else 0)) x =
        (\<lambda>(ngram, cnt) probs. dict_set probs ngram
            (prob_entry_tp bigram_freq (map (\<lambda>(w, c). ([w], c)) unigrams) ngram cnt)) x"
    using bigram_entry_eq [OF g, of unigrams c bigram_freq] by (simp add: x fun_eq_iff Let_def)
qed simp_all

text \<open>C31: The unigram probabilities of \<open>process_language\<close> sum to 1 whenever some
  token was counted.\<close>

theorem unigram_probs_sum:
  assumes "wf_dict unigrams" and "0 < sum_list (map snd unigrams)"
  shows "sum_list (map snd (unigram_probs unigrams)) = 1"
proof -
  let ?t = "sum_list (map snd unigrams)"
  have "map snd (unigram_probs unigrams) = map (\<lambda>c. real c / real ?t) (map snd unigrams)"
    using assms by (simp add: unigram_probs_list comp_def case_prod_beta)
  then have "sum_list (map snd (unigram_probs unigrams)) = sum_list (map real (map snd unigrams)) / real ?t"
    using sum_list_div [of real "real ?t" "map snd unigrams"] by (simp add: comp_def)
  also have "\<dots> = 1"
  proof -
    have "real ?t \<noteq> 0" using assms(2) by (metis of_nat_0_less_iff less_irrefl)
    then show ?thesis unfolding sum_list_of_nat by (rule divide_self)
  qed
  finally show ?thesis .
qed

subsection \<open>Witnesses\<close>

lemma calculate_probabilities_scores_witness:
  "calculate_probabilities [([ascii ''a'', ascii ''b''], 2)] [([ascii ''a''], 2), ([ascii ''b''], 2)] =
   Inr [([ascii ''a'', ascii ''b''], - ln (3 / 4))]"
proof -
  have "wf_dict [([ascii ''a'', ascii ''b''], 2::nat)]" by (simp add: wf_dict_def)
  from calculate_probabilities_scores [OF this, of "[([ascii ''a''], 2), ([ascii ''b''], 2)]"]
  show ?thesis by (simp add: dict_get_def)
qed

lemma bigram_probs_equiv_witness:
  "bigram_probs [(ascii ''a'', 2)] [([ascii ''a'', ascii ''b''], 1)] = [([ascii ''a'', ascii ''b''], 1 / 2)]"
proof -
  have "\<forall>g\<in>set (map fst [([ascii ''a'', ascii ''b''], 1::nat)]). length g = 2" by simp
  from bigram_probs_equiv [OF this, of "[(ascii ''a'', 2)]"] show ?thesis
    by (simp add: eval_simps)
qed

lemma unigram_probs_sum_witness:
  "sum_list (map snd (unigram_probs [(ascii ''a'', 2), (ascii ''b'', 1)])) = 1"
proof -
  have "wf_dict [(ascii ''a'', 2::nat), (ascii ''b'', 1)]" "0 < sum_list (map snd [(ascii ''a'', 2::nat), (ascii ''b'', 1)])"
    by (simp_all add: wf_dict_def)
  from unigram_probs_sum [OF this] show ?thesis .
qed

end
