(* ===== verification/Pipeline.thy ===== *)
theory Pipeline
  imports Tokenizer Probability
begin

text \<open>
  The two drivers and the entry point. \<open>process_corpus\<close> (\<open>pipeline.py\<close> lines
  52--90) reads the corpus, cleans and tokenises it, counts grams of orders 1 to 5, scores
  orders 2 to 5 with Policy A and writes nine JSON files. \<open>process_language\<close>
  (\<open>ngrams_tp.py\<close> lines 102--218) reads a sentence file, tokenises it with the
  word/punctuation policy, counts with \<open>FreqDist\<close> and \<open>nltk.util.ngrams\<close>, scores with
  Policy B and writes twelve files; it returns early, writing nothing, when the file has no
  sentence. The \<open>__main__\<close> block (lines 220--228) runs it on every configured language
  whose file exists and warns about the others; \<open>pipeline_main\<close> is the module-level
  call of \<open>pipeline.py\<close> (line 95). A file system is a function from paths to
  \<open>file_entry\<close>; the effect of a driver is the list of files it writes, in order, each
  a path and the JSON object dumped there; an exception is an \<open>Inl\<close>. Console output is
  not modelled.
\<close>

text \<open>The JSON objects the drivers dump: string-keyed integer tables (counts, the
  vocabulary and the summary), string-keyed real tables (scores) and the reverse
  vocabulary, whose integer keys \<open>json.dump\<close> writes as decimal strings.\<close>

datatype json_obj = JCounts "(pystr, nat) pydict" | JScores "(pystr, real) pydict"
  | JIndex "(nat, pystr) pydict"

text \<open>\<open>str(n)\<close> for a natural number: its decimal digits.\<close>

fun py_str_nat :: "nat \<Rightarrow> pystr" where
  "py_str_nat n = (if n < 10 then [48 + n] else py_str_nat (n div 10) @ [48 + n mod 10])"

text \<open>A loop whose body may raise: the first exception ends it.\<close>

fun map_result :: "('a \<Rightarrow> 'e + 'b) \<Rightarrow> 'a list \<Rightarrow> 'e + 'b list" where
  "map_result f [] = Inr []"
| "map_result f (x # xs) =
     (case f x of
        Inl e \<Rightarrow> Inl e
      | Inr y \<Rightarrow> (case map_result f xs of Inl e \<Rightarrow> Inl e | Inr ys \<Rightarrow> Inr (y # ys)))"

subsection \<open>\<open>pipeline.py\<close>: \<open>process_corpus\<close>\<close>

definition process_corpus :: "pystr \<Rightarrow> file_entry \<Rightarrow> py_error + (pystr \<times> json_obj) list"
  where [eval_simps]:
  "process_corpus output_prefix input_file =
     (case input_file of
        Missing \<Rightarrow> Inl FileNotFoundError
      | Undecodable \<Rightarrow> Inl UnicodeDecodeError
      | Text raw \<Rightarrow>
          (let text = clean_text (universal_newlines raw);
               tokens = tokenize text;
               counts = count_table tokens
           in case map_result (\<lambda>n. calculate_probabilities (counts n) (dict_of_list (counts (n - 1))))
                     [2..<6] of
                Inl e \<Rightarrow> Inl e
              | Inr probabilities \<Rightarrow>
                  Inr (map (\<lambda>n. (output_prefix @ ascii ''_'' @ py_str_nat n @ ascii ''gram_counts.json'',
                                 JCounts (serialize_table (counts n)))) [1..<6] @
                       map (\<lambda>(n, p). (output_prefix @ ascii ''_'' @ py_str_nat n @ ascii ''gram_logproba.json'',
                                      JScores (serialize_table p))) (zip [2..<6] probabilities))))"

text \<open>The module-level call of line 95.\<close>

definition pipeline_main :: "(pystr \<Rightarrow> file_entry) \<Rightarrow> py_error + (pystr \<times> json_obj) list" where
  "pipeline_main fs = process_corpus (ascii ''kabyle'') (fs (ascii ''kabyle_corpus.txt''))"

subsection \<open>\<open>ngrams_tp.py\<close>: \<open>process_language\<close>\<close>

definition process_language :: "pystr \<Rightarrow> file_entry \<Rightarrow> py_error + (pystr \<times> json_obj) list option"
  where [eval_simps]:
  "process_language lang file_path =
     (case read_sentences_file file_path of
        Inl e \<Rightarrow> Inl e
      | Inr sentences \<Rightarrow>
          if sentences = [] then Inr None
          else
           (let tokens = process_text_to_tokens sentences;
                vocab = vocab_of tokens;
                vdict = vocab_dict vocab;
                vrev = vocab_rev vocab;
                output_dir = ascii ''ngrams_tp/'' @ lang;
                unigrams = freq_dist tokens;
                freq1 = dict_of_list (map (\<lambda>(word, cnt). (ngram_to_string [word], cnt)) unigrams);
                bigram_freq = freq_dist (nltk_ngrams tokens 2);
                prob2 = serialize_table (bigram_probs unigrams bigram_freq);
                trigram_freq = freq_dist (nltk_ngrams tokens 3);
                prob3 = serialize_table (calculate_probabilities_tp trigram_freq bigram_freq);
                quadrigram_freq = freq_dist (nltk_ngrams tokens 4);
                prob4 = serialize_table (calculate_probabilities_tp quadrigram_freq trigram_freq);
                pentagram_freq = freq_dist (nltk_ngrams tokens 5);
                prob5 = serialize_table (calculate_probabilities_tp pentagram_freq quadrigram_freq);
                ngram_freqs = [freq1, serialize_table bigram_freq, serialize_table trigram_freq,
                               serialize_table quadrigram_freq, serialize_table pentagram_freq];
                freq_summary =
                  [(ascii ''unigrams'', length unigrams), (ascii ''bigrams'', length bigram_freq),
                   (ascii ''trigrams'', length trigram_freq),
                   (ascii ''quadrigrams'', length quadrigram_freq),
                   (ascii ''pentagrams'', length pentagram_freq),
                   (ascii ''total_tokens'', length tokens), (ascii ''vocabulary_size'', length vocab)]
            in Inr (Some
                 (map (\<lambda>(n, t). (output_dir @ ascii ''/'' @ py_str_nat n @ ascii ''gram.json'', JCounts t))
                      (zip [1..<6] ngram_freqs) @
                  map (\<lambda>(n, t). (output_dir @ ascii ''/prob_'' @ py_str_nat n @ ascii ''gram.json'', JScores t))
                      (zip [2..<6] [prob2, prob3, prob4, prob5]) @
                  [(output_dir @ ascii ''/vocab.json'', JCounts vdict),
                   (output_dir @ ascii ''/vocab_rev.json'', JIndex vrev),
                   (output_dir @ ascii ''/freq.json'', JCounts freq_summary)]))))"

subsection \<open>\<open>ngrams_tp.py\<close>: the entry point\<close>

text \<open>\<open>FILE_PATHS\<close> (lines 36--40).\<close>

definition file_paths :: "(pystr \<times> pystr) list" where [eval_simps]:
  "file_paths =
     [(ascii ''arabic'', ascii ''extracted/arabic/ara-dz_newscrawl-OSIAN_2018_10K/ara-dz_newscrawl-OSIAN_2018_10K-sentences.txt''),
      (ascii ''english'', ascii ''extracted/english/eng_news_2024_10K/eng_news_2024_10K-sentences.txt''),
      (ascii ''french'', ascii ''extracted/french/fra_news_2024_10K/fra_news_2024_10K-sentences.txt'')]"

text \<open>What a run does per language: warn that the file is missing, or process it (with
  its written files, or \<open>None\<close> for the early return). An exception escaping
  \<open>process_language\<close> ends the run; the events before it have happened.\<close>

datatype main_event = Warning pystr | Processed pystr "(pystr \<times> json_obj) list option"

fun run_languages ::
  "(pystr \<Rightarrow> file_entry) \<Rightarrow> (pystr \<times> pystr) list \<Rightarrow> main_event list \<times> py_error option" where
  "run_languages fs [] = ([], None)"
| "run_languages fs ((lang, file_path) # rest) =
     (if fs file_path \<noteq> Missing then
        (case process_language lang (fs file_path) of
           Inl e \<Rightarrow> ([], Some e)
         | Inr out \<Rightarrow> (let (evs, err) = run_languages fs rest in (Processed lang out # evs, err)))
      else (let (evs, err) = run_languages fs rest in (Warning file_path # evs, err)))"

definition main :: "(pystr \<Rightarrow> file_entry) \<Rightarrow> main_event list \<times> py_error option" where
  "main fs = run_languages fs file_paths"

subsection \<open>Tables built from a token sequence\<close>

lemma map_result_Inr: "\<forall>x\<in>set xs. f x = Inr (g x) \<Longrightarrow> map_result f xs = Inr (map g xs)"
  by (induction xs) auto

lemma wf_count_table [simp]: "wf_dict (count_table tokens n)"
  by (simp add: count_table_def wf_counter_update)

lemma keys_count_table: "fst ` set (count_table tokens n) = set (build_ngrams tokens n)"
  using keys_counter_update [of "build_ngrams tokens n"] unfolding count_table_def
  by (metis set_map set_remdups set_rev)

lemma build_ngrams_Nil_iff: "build_ngrams tokens n = [] \<longleftrightarrow> length tokens < n"
  by (auto simp: build_ngrams_def range_bound_nat)

lemma count_table_Nil_iff: "count_table tokens n = [] \<longleftrightarrow> length tokens < n"
  by (metis keys_count_table build_ngrams_Nil_iff image_is_empty set_empty)

lemma count_table_lower_nonempty: "count_table tokens n \<noteq> [] \<Longrightarrow> count_table tokens (n - 1) \<noteq> []"
  by (simp add: count_table_Nil_iff)

lemma count_table_entry:
  "(g, c) \<in> set (count_table tokens n) \<Longrightarrow>
   g \<in> set (build_ngrams tokens n) \<and> c = count_list (build_ngrams tokens n) g"
  using map_of_count_table [of tokens n g] wf_count_table [of tokens n]
  by (simp add: wf_dict_def split: if_splits)

lemma count_table_prefix_get:
  "(g, c) \<in> set (count_table tokens (Suc m)) \<Longrightarrow> c \<le> dict_get (count_table tokens m) (butlast g) 0"
  using count_table_prefix_le [of tokens m g c] wf_count_table [of tokens "Suc m"]
  by (auto simp: dict_get_def wf_dict_def)

lemma tokens_ok_count_table:
  assumes "\<forall>t\<in>set tokens. space_free t" and "g \<in> fst ` set (count_table tokens n)"
  shows "tokens_ok g"
proof -
  obtain i where "g = take n (drop i tokens)"
    using assms(2) unfolding keys_count_table build_ngrams_set by blast
  then have "set g \<subseteq> set tokens" by (metis set_drop_subset set_take_subset subset_trans)
  then show ?thesis using assms(1) by (auto simp: tokens_ok_def list_all_iff)
qed

lemma serialize_count_table:
  assumes "\<forall>t\<in>set tokens. space_free t"
  shows "serialize_table (map (\<lambda>(g, c). (g, f g c)) (count_table tokens n)) =
         map (\<lambda>(g, c). (ngram_to_string g, f g c)) (count_table tokens n)"
proof -
  let ?d = "map (\<lambda>(g, c). (g, f g c)) (count_table tokens n)"
  have "wf_dict ?d" by simp
  moreover have "\<forall>g\<in>set (map fst ?d). tokens_ok g"
    using tokens_ok_count_table [OF assms] by simp
  ultimately have "serialize_table ?d = map (\<lambda>(k, v). (ngram_to_string k, v)) ?d"
    by (rule serialize_table_no_collision)
  then show ?thesis by (simp add: case_prod_beta comp_def)
qed

lemma serialize_count_table_id:
  "\<forall>t\<in>set tokens. space_free t \<Longrightarrow>
   serialize_table (count_table tokens n) = map (\<lambda>(g, c). (ngram_to_string g, c)) (count_table tokens n)"
  using serialize_count_table [of tokens "\<lambda>g c. c" n] by simp

lemma tokenize_space_free: "\<forall>t\<in>set (tokenize s). space_free t"
  by (simp add: tokenize_def py_split_tokens)

subsection \<open>\<open>process_corpus\<close>\<close>

lemma calculate_probabilities_total:
  assumes "wf_dict ngram_counts" and "ngram_counts \<noteq> [] \<Longrightarrow> lower_counts \<noteq> []"
  shows "calculate_probabilities ngram_counts lower_counts =
     Inr (map (\<lambda>(g, c). (g, - ln ((real c + 1) /
            real (dict_get lower_counts (butlast g) 0 + length lower_counts)))) ngram_counts)"
proof (cases "ngram_counts = []")
  case True
  then show ?thesis by (simp add: calculate_probabilities_def)
next
  case False
  with assms show ?thesis by (intro calculate_probabilities_Inr) auto
qed

lemma process_corpus_probabilities:
  "map_result (\<lambda>n. calculate_probabilities (count_table T n) (dict_of_list (count_table T (n - 1)))) ns =
   Inr (map (\<lambda>n. map (\<lambda>(g, c). (g, - ln ((real c + 1) /
          real (dict_get (count_table T (n - 1)) (butlast g) 0 + length (count_table T (n - 1))))))
        (count_table T n)) ns)"
  by (rule map_result_Inr, intro ballI, unfold dict_of_list_wf [OF wf_count_table],
      rule calculate_probabilities_total) (simp_all add: count_table_Nil_iff)

lemma process_corpus_Text:
  "process_corpus p (Text raw) =
   (let T = tokenize (clean_text (universal_newlines raw)) in
    Inr (map (\<lambda>n. (p @ ascii ''_'' @ py_str_nat n @ ascii ''gram_counts.json'',
                   JCounts (map (\<lambda>(g, c). (ngram_to_string g, c)) (count_table T n)))) [1..<6] @
         map (\<lambda>n. (p @ ascii ''_'' @ py_str_nat n @ ascii ''gram_logproba.json'',
                   JScores (map (\<lambda>(g, c). (ngram_to_string g, - ln ((real c + 1) /
                      real (dict_get (count_table T (n - 1)) (butlast g) 0 + length (count_table T (n - 1))))))
                     (count_table T n)))) [2..<6]))"
  using tokenize_space_free [of "clean_text (universal_newlines raw)"]
  unfolding process_corpus_def Let_def process_corpus_probabilities
  by (simp add: zip_map_same serialize_count_table serialize_count_table_id del: upt_Suc)

lemma policy_a_score_nonneg:
  assumes "(g, c) \<in> set (count_table T (Suc m))"
  shows "0 \<le> - ln ((real c + 1) / real (dict_get (count_table T m) (butlast g) 0 + length (count_table T m)))"
proof -
  have "count_table T (Suc m) \<noteq> []" using assms by auto
  from count_table_lower_nonempty [OF this] have "count_table T m \<noteq> []" by simp
  then have "1 \<le> length (count_table T m)" by (cases "count_table T m") auto
  moreover have "c \<le> dict_get (count_table T m) (butlast g) 0" by (rule count_table_prefix_get [OF assms])
  ultimately show ?thesis by (intro laplace_score_nonneg) linarith
qed

subsection \<open>\<open>process_language\<close>\<close>

lemma freq_dist_nltk: "0 < n \<Longrightarrow> freq_dist (nltk_ngrams T n) = count_table T n"
  by (simp add: freq_dist_def count_table_def nltk_ngrams_eq_build)

lemma count_table_1: "count_table T (Suc 0) = map (\<lambda>(w, c). ([w], c)) (freq_dist T)"
proof -
  have "inj (\<lambda>x::'a. [x])" by (auto intro: injI)
  from counter_update_map_keys [OF this, of "[]" T] show ?thesis
    by (simp add: count_table_def freq_dist_def build_ngrams_1)
qed

lemma findall_parts_space_free: "p \<in> set (findall_word_punct w) \<Longrightarrow> space_free p"
  using findall_parts [of p w] py_word_char_not_space by (fastforce simp: space_free_iff)

lemma process_text_to_tokens_space_free: "\<forall>t\<in>set (process_text_to_tokens S). space_free t"
  by (auto simp: process_text_to_tokens_def simple_tokenize_unfiltered findall_parts_space_free)

lemma bigram_probs_map:
  "wf_dict bf \<Longrightarrow>
   bigram_probs u bf =
     map (\<lambda>(g, c). (g, if 0 < dict_get u (hd g) 0 then real c / real (dict_get u (hd g) 0) else 0)) bf"
  unfolding bigram_probs_def Let_def by (rule fold_dict_set_values)

lemma count_table_gram_length: "(g, c) \<in> set (count_table T n) \<Longrightarrow> length g = n"
  using count_table_entry build_ngrams_infix by blast

lemma bigram_probs_count_table:
  "bigram_probs (freq_dist T) (count_table T 2) =
   map (\<lambda>(g, c). (g, prob_entry_tp (count_table T 2) (count_table T 1) g c)) (count_table T 2)"
proof -
  have "inj (\<lambda>x::'a. [x])" by (auto intro: injI)
  have "(if 0 < dict_get (freq_dist T) (hd g) 0 then real c / real (dict_get (freq_dist T) (hd g) 0) else 0) =
        prob_entry_tp (count_table T 2) (count_table T 1) g c"
    if "(g, c) \<in> set (count_table T 2)" for g c
  proof -
    have "length g = 2" using count_table_gram_length [OF that] .
    then have "butlast g = [hd g]" by (cases g; cases "tl g") auto
    then have "dict_get (count_table T 1) (butlast g) 0 = dict_get (freq_dist T) (hd g) 0"
      using dict_get_map_keys [OF \<open>inj (\<lambda>x. [x])\<close>, of "freq_dist T" "hd g" 0] by (simp add: count_table_1)
    with \<open>length g = 2\<close> show ?thesis by (simp add: prob_entry_tp_def Let_def)
  qed
  then show ?thesis by (auto simp: bigram_probs_map)
qed

lemma count_table_one: "count_table T 1 = map (\<lambda>(w, c). ([w], c)) (freq_dist T)"
  using count_table_1 by simp

lemma upt_orders: "[1..<6] = [1, 2, 3, 4, 5 :: nat]" "[2..<6] = [2, 3, 4, 5 :: nat]"
  by (simp_all add: upt_rec)

lemma unigram_file:
  "dict_of_list (map (\<lambda>(word, cnt). (ngram_to_string [word], cnt)) (freq_dist T)) =
   map (\<lambda>(g, c). (ngram_to_string g, c)) (count_table T 1)"
proof -
  have "wf_dict (freq_dist T)" by (simp add: freq_dist_def wf_counter_update)
  then show ?thesis
    unfolding count_table_one by (simp add: ngram_to_string_def case_prod_beta comp_def dict_of_list_wf)
qed

lemma length_freq_dist: "length (freq_dist T) = length (count_table T 1)"
  unfolding count_table_one by simp

lemma process_language_Text:
  assumes "read_sentences_file f = Inr S" and "S \<noteq> []"
  shows "process_language lang f =
   (let T = process_text_to_tokens S; d = ascii ''ngrams_tp/'' @ lang in
    Inr (Some (
      map (\<lambda>n. (d @ ascii ''/'' @ py_str_nat n @ ascii ''gram.json'',
                 JCounts (map (\<lambda>(g, c). (ngram_to_string g, c)) (count_table T n)))) [1..<6] @
      map (\<lambda>n. (d @ ascii ''/prob_'' @ py_str_nat n @ ascii ''gram.json'',
                 JScores (map (\<lambda>(g, c). (ngram_to_string g, prob_entry_tp (count_table T n) (count_table T (n - 1)) g c))
                   (count_table T n)))) [2..<6] @
      [(d @ ascii ''/vocab.json'', JCounts (vocab_dict (vocab_of T))),
       (d @ ascii ''/vocab_rev.json'', JIndex (vocab_rev (vocab_of T))),
       (d @ ascii ''/freq.json'', JCounts
          [(ascii ''unigrams'', length (count_table T 1)), (ascii ''bigrams'', length (count_table T 2)),
           (ascii ''trigrams'', length (count_table T 3)), (ascii ''quadrigrams'', length (count_table T 4)),
           (ascii ''pentagrams'', length (count_table T 5)), (ascii ''total_tokens'', length T),
           (ascii ''vocabulary_size'', length (vocab_of T))])])))"
proof -
  let ?T = "process_text_to_tokens S"
  have sf: "\<forall>t\<in>set ?T. space_free t" by (rule process_text_to_tokens_space_free)
  show ?thesis
    using assms unfolding process_language_def upt_orders
    by (simp add: Let_def freq_dist_nltk bigram_probs_count_table
        calculate_probabilities_tp_map unigram_file length_freq_dist
        serialize_count_table [OF sf] serialize_count_table_id [OF sf] del: upt_Suc)
qed

lemma policy_b_entry_range:
  assumes "(g, c) \<in> set (count_table T n)"
  shows "0 \<le> prob_entry_tp (count_table T n) (count_table T (n - 1)) g c \<and>
         prob_entry_tp (count_table T n) (count_table T (n - 1)) g c \<le> 1"
proof (rule prob_entry_tp_range [OF assms])
  assume "1 < length g"
  then obtain m where n: "n = Suc m" using count_table_gram_length [OF assms] by (cases n) auto
  show "c \<le> dict_get (count_table T (n - 1)) (butlast g) 0"
    using count_table_prefix_get assms unfolding n by simp
qed

lemma read_sentences_file_Inl: "read_sentences_file f = Inl e \<longleftrightarrow> f = Undecodable \<and> e = UnicodeDecodeError"
  by (cases f) (auto simp: read_sentences_file_def)

subsection \<open>The run over the configured languages\<close>

lemma process_language_not_Inl: "f \<noteq> Undecodable \<Longrightarrow> \<not> isl (process_language lang f)"
  by (cases "read_sentences_file f") (auto simp: process_language_def Let_def read_sentences_file_Inl)

lemma run_languages_ok:
  "\<forall>(l, p)\<in>set langs. fs p \<noteq> Undecodable \<Longrightarrow>
   run_languages fs langs =
     (map (\<lambda>(l, p). if fs p = Missing then Warning p else Processed l (projr (process_language l (fs p)))) langs,
      None)"
proof (induction langs)
  case (Cons x langs)
  obtain l p where x: "x = (l, p)" by fastforce
  show ?case
  proof (cases "fs p = Missing")
    case False
    then have "\<not> isl (process_language l (fs p))" using Cons.prems x by (intro process_language_not_Inl) auto
    with Cons False x show ?thesis by (auto split: sum.split)
  qed (use Cons x in auto)
qed simp

lemma run_languages_abort:
  assumes "fs p = Undecodable" and "\<forall>(l', p')\<in>set pre. fs p' \<noteq> Undecodable"
  shows "run_languages fs (pre @ (l, p) # post) = (fst (run_languages fs pre), Some UnicodeDecodeError)"
  using assms(2)
proof (induction pre)
  case Nil
  then show ?case using assms(1) by (simp add: process_language_def read_sentences_file_def)
next
  case (Cons x pre)
  obtain l' p' where x: "x = (l', p')" by fastforce
  show ?case
  proof (cases "fs p' = Missing")
    case False
    then have "\<not> isl (process_language l' (fs p'))" using Cons.prems x by (intro process_language_not_Inl) auto
    with Cons False x show ?thesis by (auto split: sum.split prod.split)
  qed (use Cons x in \<open>auto split: prod.split\<close>)
qed

subsection \<open>Properties of \<open>process_corpus\<close>\<close>

text \<open>C1: \<open>process_corpus\<close> on a readable corpus writes the five count files, each the
  count table of its order with keys rendered and no entry lost, then the four score files
  with Policy A's score of every gram; the \<open>ZeroDivisionError\<close> of Policy A never
  occurs, since a non-empty table of order \<open>n\<close> implies a non-empty table of order
  \<open>n - 1\<close>.\<close>

theorem process_corpus_output:
  "process_corpus p (Text raw) =
   (let T = tokenize (clean_text (universal_newlines raw)) in
    Inr (map (\<lambda>n. (p @ ascii ''_'' @ py_str_nat n @ ascii ''gram_counts.json'',
                   JCounts (map (\<lambda>(g, c). (ngram_to_string g, c)) (count_table T n)))) [1..<6] @
         map (\<lambda>n. (p @ ascii ''_'' @ py_str_nat n @ ascii ''gram_logproba.json'',
                   JScores (map (\<lambda>(g, c). (ngram_to_string g, - ln ((real c + 1) /
                      real (dict_get (count_table T (n - 1)) (butlast g) 0 + length (count_table T (n - 1))))))
                     (count_table T n)))) [2..<6]))"
  by (rule process_corpus_Text)

text \<open>C2: Every Policy A score \<open>process_corpus\<close> writes is non-negative (the spec's
  \<open>score(g) \<ge> 0\<close>): a gram's count never exceeds its prefix's, and the lower table is
  not empty.\<close>

theorem process_corpus_scores_nonneg:
  assumes "process_corpus p f = Inr out" and "(path, JScores t) \<in> set out" and "(k, v) \<in> set t"
  shows "0 \<le> v"
proof -
  obtain raw where f: "f = Text raw" using assms(1)
    by (cases f) (auto simp: process_corpus_def)
  let ?T = "tokenize (clean_text (universal_newlines raw))"
  obtain n g c where n: "n \<in> {2..<6}" and gc: "(g, c) \<in> set (count_table ?T n)"
    and v: "v = - ln ((real c + 1) / real (dict_get (count_table ?T (n - 1)) (butlast g) 0 +
                  length (count_table ?T (n - 1))))"
    using assms(1-3) unfolding f process_corpus_Text Let_def by (auto simp del: upt_rec_numeral upt_Suc)
  then obtain m where "n = Suc m" by (cases n) auto
  with gc v show ?thesis using policy_a_score_nonneg by simp
qed

subsection \<open>Properties of \<open>process_language\<close>\<close>

text \<open>C3: \<open>process_language\<close> on a file with sentences writes the five count files,
  which hold the same tables as those of \<open>pipeline.py\<close> for the same tokens, the four
  Policy B files (order 2 included, although its inline estimator is written apart), the
  vocabulary in both directions and the summary, whose distinct-gram counts are the sizes
  of the tables.\<close>

theorem process_language_output:
  assumes "read_sentences_file f = Inr S" and "S \<noteq> []"
  shows "process_language lang f =
   (let T = process_text_to_tokens S; d = ascii ''ngrams_tp/'' @ lang in
    Inr (Some (
      map (\<lambda>n. (d @ ascii ''/'' @ py_str_nat n @ ascii ''gram.json'',
                 JCounts (map (\<lambda>(g, c). (ngram_to_string g, c)) (count_table T n)))) [1..<6] @
      map (\<lambda>n. (d @ ascii ''/prob_'' @ py_str_nat n @ ascii ''gram.json'',
                 JScores (map (\<lambda>(g, c). (ngram_to_string g, prob_entry_tp (count_table T n) (count_table T (n - 1)) g c))
                   (count_table T n)))) [2..<6] @
      [(d @ ascii ''/vocab.json'', JCounts (vocab_dict (vocab_of T))),
       (d @ ascii ''/vocab_rev.json'', JIndex (vocab_rev (vocab_of T))),
       (d @ ascii ''/freq.json'', JCounts
          [(ascii ''unigrams'', length (count_table T 1)), (ascii ''bigrams'', length (count_table T 2)),
           (ascii ''trigrams'', length (count_table T 3)), (ascii ''quadrigrams'', length (count_table T 4)),
           (ascii ''pentagrams'', length (count_table T 5)), (ascii ''total_tokens'', length T),
           (ascii ''vocabulary_size'', length (vocab_of T))])])))"
  using assms by (rule process_language_Text)

text \<open>C4: Every probability \<open>process_language\<close> writes lies in \<open>[0, 1]\<close> (the spec's
  Policy B bound).\<close>

theorem process_language_probs_unit:
  assumes "process_language lang f = Inr (Some out)" and "(path, JScores t) \<in> set out"
    and "(k, v) \<in> set t"
  shows "0 \<le> v \<and> v \<le> 1"
proof -
  obtain S where S: "read_sentences_file f = Inr S" and ne: "S \<noteq> []" using assms(1)
    by (cases "read_sentences_file f") (auto simp: process_language_def Let_def split: if_splits)
  let ?T = "process_text_to_tokens S"
  obtain n g c where gc: "(g, c) \<in> set (count_table ?T n)"
    and v: "v = prob_entry_tp (count_table ?T n) (count_table ?T (n - 1)) g c"
    using assms unfolding process_language_Text [OF S ne] Let_def by auto
  show ?thesis unfolding v by (rule policy_b_entry_range [OF gc])
qed

subsection \<open>Properties of the run over the configured languages\<close>

text \<open>C6: When no configured file is undecodable, the run reaches every language: it
  warns about each missing file and processes each existing one, in order, and ends
  normally.\<close>

theorem run_languages_all_processed:
  "\<forall>(l, p)\<in>set langs. fs p \<noteq> Undecodable \<Longrightarrow>
   run_languages fs langs =
     (map (\<lambda>(l, p). if fs p = Missing then Warning p else Processed l (projr (process_language l (fs p)))) langs,
      None)"
  by (rule run_languages_ok)

text \<open>C5: An undecodable file ends the whole run with \<open>UnicodeDecodeError\<close>: the
  languages after it are never processed (the spec asks for a failure of that input
  only).\<close>

theorem run_languages_decode_error_aborts:
  assumes "fs p = Undecodable" and "\<forall>(l', p')\<in>set pre. fs p' \<noteq> Undecodable"
  shows "run_languages fs (pre @ (l, p) # post) = (fst (run_languages fs pre), Some UnicodeDecodeError)"
  using assms by (rule run_languages_abort)

subsection \<open>Witnesses\<close>

lemma process_corpus_scores_nonneg_witness: "0 \<le> - ln (2 / (4::real))"
proof -
  let ?r = "process_corpus (ascii ''k'') (Text (ascii ''a b a''))"
  have h1: "?r = Inr (projr ?r)" by (simp add: eval_simps)
  have h2: "(ascii ''k_2gram_logproba.json'', JScores [(ascii ''a b'', - ln (2 / 4)), (ascii ''b a'', - ln (2 / 3))])
            \<in> set (projr ?r)" by (simp add: eval_simps)
  have h3: "(ascii ''a b'', - ln (2 / (4::real))) \<in> set [(ascii ''a b'', - ln (2 / 4)), (ascii ''b a'', - ln (2 / 3))]"
    by simp
  from process_corpus_scores_nonneg [OF h1 h2 h3] show ?thesis .
qed

lemma process_language_output_witness:
  "hd (the (projr (process_language (ascii ''fr'') (Text (ascii ''1'' @ [9] @ ascii ''a b'' @ [10]))))) =
   (ascii ''ngrams_tp/fr/1gram.json'', JCounts [(ascii ''a'', 1), (ascii ''b'', 1)])"
proof -
  have r: "read_sentences_file (Text (ascii ''1'' @ [9] @ ascii ''a b'' @ [10])) = Inr [ascii ''a b'']"
    by (simp add: eval_simps)
  have ne: "[ascii ''a b''] \<noteq> []" by simp
  show ?thesis
    by (subst process_language_output [OF r ne]) (simp add: Let_def eval_simps del: upt_Suc)
qed

lemma process_language_probs_unit_witness: "0 \<le> (1 / 2 :: real) \<and> (1 / 2 :: real) \<le> 1"
proof -
  let ?r = "process_language (ascii ''fr'') (Text (ascii ''1'' @ [9] @ ascii ''a b a'' @ [10]))"
  have h1: "?r = Inr (Some (the (projr ?r)))" by (simp add: eval_simps)
  have h2: "(ascii ''ngrams_tp/fr/prob_2gram.json'', JScores [(ascii ''a b'', 1 / 2), (ascii ''b a'', 1)])
            \<in> set (the (projr ?r))" by (simp add: eval_simps)
  have h3: "(ascii ''a b'', 1 / (2::real)) \<in> set [(ascii ''a b'', 1 / 2), (ascii ''b a'', 1)]" by simp
  from process_language_probs_unit [OF h1 h2 h3] show ?thesis .
qed

lemma run_languages_all_processed_witness:
  "main (\<lambda>p. if p = snd (hd file_paths) then Missing else Text []) =
   ([Warning (snd (hd file_paths)), Processed (ascii ''english'') None, Processed (ascii ''french'') None], None)"
proof -
  let ?fs = "\<lambda>p. if p = snd (hd file_paths) then Missing else Text []"
  have "\<forall>(l, p)\<in>set file_paths. ?fs p \<noteq> Undecodable" by (simp add: file_paths_def)
  from run_languages_all_processed [OF this] show ?thesis
    by (simp add: main_def file_paths_def eval_simps)
qed

lemma run_languages_decode_error_aborts_witness:
  "main (\<lambda>p. if p = snd (file_paths ! 1) then Undecodable else Text []) =
   ([Processed (ascii ''arabic'') None], Some UnicodeDecodeError)"
proof -
  let ?fs = "\<lambda>p. if p = snd (file_paths ! 1) then Undecodable else Text []"
  have fp: "file_paths = [hd file_paths] @ file_paths ! 1 # [file_paths ! 2]" by (simp add: file_paths_def)
  have u: "?fs (snd (file_paths ! 1)) = Undecodable" by simp
  have pre: "\<forall>(l', p')\<in>set [hd file_paths]. ?fs p' \<noteq> Undecodable" by (simp add: file_paths_def)
  from run_languages_decode_error_aborts [OF u pre, of "fst (file_paths ! 1)" "[file_paths ! 2]"]
  show ?thesis
    by (subst main_def, subst fp) (simp add: file_paths_def eval_simps)
qed

end
