(* ===== verification/Spec2Isabelle.thy ===== *)
theory Spec2Isabelle
  imports Tokenizer Pipeline
begin

text \<open>
  A verification library for the n-gram pipeline of \<open>keyboard_suggestion\<close>: two Python
  scripts that turn raw text into n-gram count tables and probability tables written as
  JSON. \<open>src/keyboard_suggestion/amazigh/pipeline.py\<close> cleans a wiki-style corpus
  (\<open>clean_text\<close>), splits it on whitespace (\<open>tokenize\<close>), builds grams of orders 1 to 5
  (\<open>build_ngrams\<close>), counts them (\<open>collections.Counter\<close>), scores orders 2 to 5 with
  add-one smoothing as negative natural logarithms (\<open>calculate_probabilities\<close>, Policy A)
  and writes nine files (\<open>process_corpus\<close>). \<open>src/keyboard_suggestion/ngrams_tp.py\<close>
  reads tab-separated sentence files (\<open>read_sentences_file\<close>), tokenises words and
  punctuation apart (\<open>simple_tokenize\<close>), counts with \<open>nltk.FreqDist\<close> over
  \<open>nltk.util.ngrams\<close>, estimates maximum-likelihood probabilities
  (\<open>calculate_probabilities\<close>, Policy B, with inline unigram and bigram versions),
  builds a sorted vocabulary and writes twelve files per language
  (\<open>process_language\<close>), for each configured language whose file exists (\<open>__main__\<close>).

  \<^bold>\<open>Theories.\<close>
  \<^item> \<open>Prelude\<close>: code points, strings (\<open>pystr\<close>), grams, the exceptions
    (\<open>py_error\<close>), files (\<open>file_entry\<close>), and Python dicts as insertion-ordered
    association lists (\<open>dict_set\<close> for \<open>d[k] = v\<close>, \<open>dict_get\<close> for \<open>d.get(k, v)\<close>,
    \<open>dict_of_list\<close> for a dict comprehension) with their \<open>map_of\<close> lemmas.
  \<^item> \<open>Unicode_Data\<close>: the Unicode 14.0 tables of CPython 3.11 that \<open>str\<close> and
    \<open>re\<close> use (\<open>\w\<close>, \<open>Cased\<close>, \<open>Case_Ignorable\<close>, the lowercase mapping), each a
    sorted interval list cut into blocks of at most 12 by a binary search on the code
    point, so that \<open>simp\<close> evaluates a lookup in a few comparisons.
  \<^item> \<open>PyStr\<close>: the string built-ins (\<open>isspace\<close>/\<open>\s\<close>, \<open>\w\<close>, \<open>lower\<close> with its
    final-sigma rule, \<open>split\<close>, \<open>strip\<close>, \<open>' '.join\<close>, \<open>split('\t', 1)\<close>, reading
    a text file by lines).
  \<^item> \<open>Normalizer\<close>: \<open>re.sub\<close> as a generic scanner \<open>re_sub\<close> driven by a matcher per
    pattern, and \<open>clean_text\<close> as the six substitutions and \<open>strip()\<close> in source order.
  \<^item> \<open>Tokenizer\<close>: \<open>tokenize\<close>, \<open>re.findall\<close> of \<open>\w+|[^\w\s]\<close>,
    \<open>simple_tokenize\<close>, \<open>process_text_to_tokens\<close>, \<open>read_sentences_file\<close>.
  \<^item> \<open>Ngrams\<close>: \<open>build_ngrams\<close> and NLTK's \<open>ngrams\<close> (a \<open>zip\<close> of shifted copies).
  \<^item> \<open>Counter\<close>: \<open>Counter.update\<close>/\<open>FreqDist\<close> as a fold of \<open>c[x] = c.get(x, 0) + 1\<close>,
    abstracted to a multiset.
  \<^item> \<open>Serializer\<close>: \<open>ngram_to_string\<close>, the key-rendering comprehension and the
    vocabulary maps.
  \<^item> \<open>Probability\<close>: Policy A with its \<open>ZeroDivisionError\<close> as an \<open>Inl\<close>, Policy B,
    and the inline unigram and bigram estimators of \<open>process_language\<close>.
  \<^item> \<open>Pipeline\<close>: \<open>process_corpus\<close>, \<open>process_language\<close> and the \<open>__main__\<close> loop
    (\<open>run_languages\<close>, \<open>main\<close>), and the module-level call of \<open>pipeline.py\<close>
    (\<open>pipeline_main\<close>); a driver's effect is the list of files it writes, in
    order, as pairs of a path and the JSON object dumped there; the theorems on what
    each driver writes, which errors escape and how the run over languages goes.
  \<^item> this theory: the header, the consistency of the summary \<open>freq.json\<close> with the
    tables, and the distinctness of the paths both drivers write.

  \<^bold>\<open>What the lemmas show.\<close> \<open>clean_text\<close> is idempotent and its output is
  normalized, and a character outside the allowed class (any Berber Latin letter)
  splits a word in two; \<open>re.sub(r'\s+', ' ', ...)\<close>, resuming after each whole match,
  equals a reference collapse of whitespace; \<open>lower()\<close> is idempotent (checked on every block of the lowercase table)
  and commutes with \<open>split()\<close>; tokenisation loses no character, yields
  whitespace-free tokens, and re-tokenising the joined tokens gives them back;
  \<open>simple_tokenize\<close> makes every punctuation character and every Arabic vowel mark a
  token of its own; a numbered line with a blank sentence is read as its number; the grams
  are the contiguous windows, and NLTK's generator equals \<open>build_ngrams\<close>; a count table
  is the multiset of grams (refinement), with distinct keys in first-occurrence order,
  values summing to the number of grams and prefix counts dominating; Policy A fails
  exactly on an empty lower table, which the drivers never pass it, so its scores are
  always defined and non-negative; Policy B's values lie in [0, 1] and its bigram estimator
  equals the general one; rendering keys loses nothing; the vocabulary maps are inverse; the
  drivers write exactly the tables described, each to its own path, and the run over
  languages skips missing files but stops at the first undecodable one.

  \<^bold>\<open>Modelling choices.\<close> A string is its list of code points. The whitespace
  class is exact, and so are \<open>\w\<close> and \<open>lower()\<close> on every code point: their
  tables were read off CPython 3.11 (Unicode 14.0) and the blocked encoding was checked
  against the interpreter on all 0x110000 code points; \<open>lower()\<close> includes the
  context rule for the capital sigma (U+03A3 lowers to the final form when a cased letter
  precedes it and none follows, case-ignorable code points skipped) and the
  two-code-point lowercase of U+0130. Python floats are reals and \<open>math.log\<close> is \<open>ln\<close>: the
  theorems describe the exact values the float code approximates. Integers are
  unbounded, as in Python. A file is \<open>Missing\<close>, \<open>Undecodable\<close> (not UTF-8) or its text.
  No loop needs fuel: every loop runs over a finite list or consumes its input, and each
  recursive definition carries its termination proof.

  \<^bold>\<open>Not modelled.\<close> Console output (\<open>print\<close>), the NLTK \<open>punkt\<close> download at import
  (no result depends on it), directory creation, and the JSON text format itself
  (escaping, indentation): the model stops at the dict that \<open>json.dump\<close> receives.
  \<open>nltk.util.ngrams\<close>, \<open>FreqDist\<close> and \<open>zip\<close> are library code, modelled from their
  documented behaviour.
\<close>

text \<open>C7: In the summary \<open>freq.json\<close> (whose entries the output theorem gives),
  the number of distinct unigrams equals the vocabulary size, and the token count is the
  number of unigram occurrences.\<close>

theorem freq_summary_consistent:
  "length (count_table T 1) = length (vocab_of T) \<and> sum_list (map snd (count_table T 1)) = length T"
proof
  have "length (count_table T 1) = length (map fst (count_table T 1))" by simp
  also have "\<dots> = length (remdups (map (\<lambda>x. [x]) T))"
    by (simp add: count_table_def build_ngrams_1 keys_counter_update length_remdups_card_conv)
  also have "\<dots> = length (remdups T)"
    by (simp add: length_remdups_card_conv card_image inj_on_def)
  finally show "length (count_table T 1) = length (vocab_of T)" by (simp add: vocab_of_def)
  show "sum_list (map snd (count_table T 1)) = length T"
    by (simp add: count_table_def sum_counter_update build_ngrams_1)
qed

subsection \<open>Output files\<close>

text \<open>C34: Each driver writes every output file once: the paths of the files a run of
  \<open>process_corpus\<close> or \<open>process_language\<close> writes are distinct, so no table is
  overwritten by another (one artifact per order and table kind, as the spec requires).\<close>

theorem output_paths_distinct:
  "(process_corpus p f = Inr out \<longrightarrow> distinct (map fst out)) \<and>
   (process_language lang g = Inr (Some out') \<longrightarrow> distinct (map fst out'))"
proof (intro conjI impI)
  assume "process_corpus p f = Inr out"
  then obtain raw where "f = Text raw" and "out = projr (process_corpus p (Text raw))"
    by (cases f) (auto simp: process_corpus_def)
  then show "distinct (map fst out)"
    unfolding process_corpus_Text Let_def upt_orders by simp
next
  assume r: "process_language lang g = Inr (Some out')"
  then obtain S where S: "read_sentences_file g = Inr S" and ne: "S \<noteq> []"
    by (cases "read_sentences_file g") (auto simp: process_language_def Let_def split: if_splits)
  from r show "distinct (map fst out')"
    unfolding process_language_Text [OF S ne] Let_def upt_orders by auto
qed

subsection \<open>Witnesses\<close>

lemma output_paths_distinct_witness:
  "distinct (map fst (projr (pipeline_main (\<lambda>p. Text (ascii ''a b'')))))"
proof -
  let ?r = "process_corpus (ascii ''kabyle'') (Text (ascii ''a b''))"
  have h: "?r = Inr (projr ?r)" by (simp add: process_corpus_Text Let_def)
  have "distinct (map fst (projr ?r))"
    by (rule mp [OF conjunct1 [OF output_paths_distinct] h])
  then show ?thesis unfolding pipeline_main_def .
qed

end
